theory Spec2Isabelle
  imports Main "HOL-Library.Word"
begin

section \<open>Go library functions used by the bridge\<close>

text \<open>
  Strings are byte sequences, as in Go. \<open>HasPrefix\<close> and \<open>TrimPrefix\<close> are
  \<^verbatim>\<open>strings.HasPrefix\<close> and \<^verbatim>\<open>strings.TrimPrefix\<close>; \<open>SplitFirst s c\<close> is
  \<^verbatim>\<open>strings.Split(s, c)[0]\<close> for a one-byte separator (the part before the first
  separator, the whole string when there is none; the slice is never empty, so the index
  is always in range).
\<close>

definition HasPrefix :: "string \<Rightarrow> string \<Rightarrow> bool" where
  "HasPrefix s p = (take (length p) s = p)"

definition TrimPrefix :: "string \<Rightarrow> string \<Rightarrow> string" where
  "TrimPrefix s p = (if HasPrefix s p then drop (length p) s else s)"

definition SplitFirst :: "string \<Rightarrow> char \<Rightarrow> string" where
  "SplitFirst s c = takeWhile (\<lambda>x. x \<noteq> c) s"

fun Contains :: "string \<Rightarrow> string \<Rightarrow> bool" where
  "Contains [] sub = (sub = [])"
| "Contains (x # xs) sub = (HasPrefix (x # xs) sub \<or> Contains xs sub)"

text \<open>
  Errors are values. \<open>ErrNoRows\<close> is \<^verbatim>\<open>sql.ErrNoRows\<close>, \<open>Errorf\<close> any other error with
  its message. \<open>Panic\<close> is a run-time panic (an index out of range): it is no error
  value of the program, it unwinds through every caller, so no caller below inspects or
  wraps it.
\<close>

datatype go_error = ErrNoRows | Errorf string | Panic string

fun error_text :: "go_error \<Rightarrow> string" where
  "error_text ErrNoRows = ''sql: no rows in result set''"
| "error_text (Errorf m) = m"
| "error_text (Panic m) = m"

fun wrap :: "string \<Rightarrow> go_error \<Rightarrow> go_error" where
  "wrap m (Panic p) = Panic p"
| "wrap m e = Errorf (m @ '': '' @ error_text e)"

fun is_panic :: "go_error \<Rightarrow> bool" where
  "is_panic (Panic p) = True"
| "is_panic e = False"

section \<open>pkg/chatwoot/config.go\<close>

text \<open>
  \<open>InboxID\<close> is a \<^verbatim>\<open>sql.NullInt64\<close>: \<open>None\<close> is the invalid (NULL) value, whose
  \<^verbatim>\<open>Int64\<close> field reads 0. Times are nanoseconds since the epoch.
\<close>

record Config =
  UserID :: string
  AccountID :: string
  Token :: string
  URL :: string
  InboxID :: "int option"
  NameInbox :: string
  Enabled :: bool
  AutoCreate :: bool
  SignMsg :: bool
  ReopenConversation :: bool
  ConversationPending :: bool
  MergeBrazilContacts :: bool
  SignDelimiter :: string
  Organization :: string
  Logo :: string
  CreatedAt :: int
  UpdatedAt :: int

definition InboxID_Int64 :: "Config \<Rightarrow> int" where
  "InboxID_Int64 c = (case InboxID c of None \<Rightarrow> 0 | Some i \<Rightarrow> i)"

record ConversationCache =
  ChatwootConversationID :: int
  ChatwootContactID :: int
  ChatwootInboxID :: int

section \<open>pkg/chatwoot/client.go\<close>

text \<open>
  Every method of the client issues exactly one HTTP request. A request is recorded as a
  \<open>remote_call\<close> in a log that the model threads through; the ticketing platform is an
  oracle that answers a request, given the requests made before it, with the decoded
  result or a failure message. A media download through the WhatsApp client is recorded
  in the same log.
\<close>

datatype remote_call =
    ContactsSearch string string
  | ContactsCreate string int string string string string
  | ConversationsCreate string int int string string
  | MessagesCreate string int string string bool string
  | MessagesCreateMedia string int string string string string string
  | InboxesCreate string string string
  | MediaDownload string string

record remote =
  search :: "remote_call list \<Rightarrow> remote_call \<Rightarrow> string + int list"
  create :: "remote_call list \<Rightarrow> remote_call \<Rightarrow> string + int"

text \<open>
  What \<^verbatim>\<open>doRequest\<close>, \<^verbatim>\<open>handleError\<close> and the decoding of the response leave of an
  answer: the decoded value, or an error with the failure's message.
\<close>

definition api_result :: "string + 'a \<Rightarrow> go_error + 'a" where
  "api_result r = (case r of Inl msg \<Rightarrow> Inl (Errorf msg) | Inr v \<Rightarrow> Inr v)"

record Client =
  baseURL :: string
  accountID :: string
  token :: string

definition NewClient :: "Config \<Rightarrow> Client" where
  "NewClient config = \<lparr>baseURL = URL config, accountID = AccountID config, token = Token config\<rparr>"

definition plus_prefixed :: "string \<Rightarrow> string" where
  "plus_prefixed phone = (if hd phone \<noteq> CHR ''+'' then ''+'' @ phone else phone)"

definition FindContactByPhone ::
  "remote \<Rightarrow> Client \<Rightarrow> string \<Rightarrow> remote_call list \<Rightarrow> (go_error + int) \<times> remote_call list" where
  "FindContactByPhone R c phone lg =
     (if phone = [] then (Inl (Panic ''index out of range [0] with length 0''), lg)
      else
        let q = ContactsSearch (accountID c) (plus_prefixed phone) in
        case search R lg q of
          Inl e \<Rightarrow> (Inl (Errorf e), lg @ [q])
        | Inr [] \<Rightarrow> (Inl (Errorf (''contact not found: '' @ plus_prefixed phone)), lg @ [q])
        | Inr (i # rest) \<Rightarrow> (Inr i, lg @ [q]))"

definition containsString :: "string \<Rightarrow> string \<Rightarrow> bool" where
  "containsString s substr =
     (length s \<ge> length substr \<and>
      (s = substr \<or> length s > length substr \<and>
         (take (length substr) s = substr \<or> drop (length s - length substr) s = substr \<or>
          Contains s substr)))"

definition CreateContact ::
  "remote \<Rightarrow> Client \<Rightarrow> int \<Rightarrow> string \<Rightarrow> string \<Rightarrow> string \<Rightarrow> string \<Rightarrow> remote_call list
     \<Rightarrow> (go_error + int) \<times> remote_call list" where
  "CreateContact R c inboxID name phone identifier avatarURL lg =
     (let phoneNumber =
            (if phone \<noteq> [] \<and> \<not> containsString phone ''@g.us'' then plus_prefixed phone else []);
          q = ContactsCreate (accountID c) inboxID name identifier phoneNumber avatarURL
      in (api_result (create R lg q), lg @ [q]))"

definition CreateConversation ::
  "remote \<Rightarrow> Client \<Rightarrow> int \<Rightarrow> int \<Rightarrow> string \<Rightarrow> bool \<Rightarrow> remote_call list
     \<Rightarrow> (go_error + int) \<times> remote_call list" where
  "CreateConversation R c contactID inboxID sourceID pending lg =
     (let q = ConversationsCreate (accountID c) contactID inboxID sourceID
                (if pending then ''pending'' else [])
      in (api_result (create R lg q), lg @ [q]))"

definition CreateMessage ::
  "remote \<Rightarrow> Client \<Rightarrow> int \<Rightarrow> string \<Rightarrow> string \<Rightarrow> bool \<Rightarrow> string \<Rightarrow> remote_call list
     \<Rightarrow> (go_error + int) \<times> remote_call list" where
  "CreateMessage R c conversationID msgType content private sourceID lg =
     (let q = MessagesCreate (accountID c) conversationID msgType content private sourceID
      in (api_result (create R lg q), lg @ [q]))"

definition SendMediaMessage ::
  "remote \<Rightarrow> Client \<Rightarrow> int \<Rightarrow> string \<Rightarrow> string \<Rightarrow> string \<Rightarrow> string \<Rightarrow> string \<Rightarrow> string
     \<Rightarrow> remote_call list \<Rightarrow> (go_error + int) \<times> remote_call list" where
  "SendMediaMessage R c conversationID msgType fileData fileName mimeType caption sourceID lg =
     (let q = MessagesCreateMedia (accountID c) conversationID msgType caption sourceID
                fileName fileData
      in (api_result (create R lg q), lg @ [q]))"

section \<open>The WhatsApp collaborator\<close>

text \<open>
  A message event as the bridge reads it. A JID is kept as the string its
  \<^verbatim>\<open>String()\<close> method returns. An optional sub-message is \<open>None\<close> when its pointer is
  nil; the generated getters (\<^verbatim>\<open>GetConversation\<close>, \<^verbatim>\<open>GetText\<close>) read a nil pointer as
  the empty string.
\<close>

record MessageInfo =
  Info_ID :: string
  Info_Sender :: string
  Info_Chat :: string
  Info_IsGroup :: bool
  Info_IsFromMe :: bool
  Info_PushName :: string

record media =
  Mimetype :: string
  Caption :: string
  FileName :: string

record WAMessage =
  Conversation :: "string option"
  ExtendedTextMessage :: "string option option"
  ProtocolMessage :: "unit option"
  ReactionMessage :: "unit option"
  PollCreationMessage :: "unit option"
  PollUpdateMessage :: "unit option"
  KeepInChatMessage :: "unit option"
  ImageMessage :: "media option"
  VideoMessage :: "media option"
  AudioMessage :: "media option"
  DocumentMessage :: "media option"
  StickerMessage :: "media option"

record Message_event =
  Info :: MessageInfo
  Message :: WAMessage

definition GetConversation :: "WAMessage \<Rightarrow> string" where
  "GetConversation m = (case Conversation m of None \<Rightarrow> [] | Some s \<Rightarrow> s)"

definition GetExtendedText :: "WAMessage \<Rightarrow> string" where
  "GetExtendedText m =
     (case ExtendedTextMessage m of None \<Rightarrow> [] | Some None \<Rightarrow> [] | Some (Some s) \<Rightarrow> s)"

text \<open>
  The WhatsApp client of one tenant. \<open>SendMessage\<close> answers a send, given the sends made
  before it (recipient, text and how each ended), with the new message id or a failure
  message;
  \<open>Download\<close> answers a media download (the kind and the message part, nil when
  absent) with the bytes or a failure message.
\<close>

type_synonym send_record = "string \<times> string \<times> (string + string)"

record wa_client =
  IsLoggedIn :: bool
  IsConnected :: bool
  SendMessage :: "send_record list \<Rightarrow> string \<Rightarrow> string \<Rightarrow> string + string"
  Download :: "string \<Rightarrow> media option \<Rightarrow> string + string"

section \<open>The relational store\<close>

text \<open>
  The tables the bridge reads and writes. \<open>get_failure\<close> and \<open>exec_failure\<close> are the
  store's health: when set, every query (respectively every statement) fails with that
  driver error.
\<close>

record database =
  chatwoot_config :: "string \<rightharpoonup> Config"
  chatwoot_conversations :: "string \<times> string \<rightharpoonup> ConversationCache"
  users :: "string \<rightharpoonup> string"
  get_failure :: "string option"
  exec_failure :: "string option"

section \<open>The bridge service\<close>

text \<open>
  \<open>dedupeCache\<close> maps a message id to the time it was first seen, \<open>conversationCache\<close>
  maps the key \<^verbatim>\<open>userID:chatJID\<close> to a conversation id. Both are \<^verbatim>\<open>sync.Map\<close>s;
  \<open>LoadOrStore\<close> is one atomic step there and one function application here.
\<close>

record Service =
  db :: database
  dedupeCache :: "string \<rightharpoonup> int"
  conversationCache :: "string \<rightharpoonup> int"

definition NewService :: "database \<Rightarrow> Service" where
  "NewService d = \<lparr>db = d, dedupeCache = Map.empty, conversationCache = Map.empty\<rparr>"

definition LoadOrStore :: "('k \<rightharpoonup> 'v) \<Rightarrow> 'k \<Rightarrow> 'v \<Rightarrow> bool \<times> ('k \<rightharpoonup> 'v)" where
  "LoadOrStore m k v = (case m k of Some old \<Rightarrow> (True, m) | None \<Rightarrow> (False, m(k \<mapsto> v)))"

definition Minute :: int where
  "Minute = 60 * 1000000000"

text \<open>
  One pass of the cleanup loop at time \<open>now\<close>, and the loop itself over the times at
  which the ticker fires (every 10 minutes after the service was created).
\<close>

definition cleanup_pass :: "int \<Rightarrow> (string \<rightharpoonup> int) \<Rightarrow> (string \<rightharpoonup> int)" where
  "cleanup_pass now cache =
     (\<lambda>key. case cache key of
               None \<Rightarrow> None
             | Some timestamp \<Rightarrow> if now - timestamp > 30 * Minute then None else Some timestamp)"

definition ticker_interval :: int where
  "ticker_interval = 10 * Minute"

fun cleanupDedupeCache :: "int list \<Rightarrow> Service \<Rightarrow> Service" where
  "cleanupDedupeCache [] s = s"
| "cleanupDedupeCache (now # ticks) s =
     cleanupDedupeCache ticks (s\<lparr>dedupeCache := cleanup_pass now (dedupeCache s)\<rparr>)"

definition shouldSkipMessage :: "Message_event \<Rightarrow> bool" where
  "shouldSkipMessage evt =
     (let m = Message evt in
      if ProtocolMessage m \<noteq> None then True
      else if ReactionMessage m \<noteq> None then True
      else if PollCreationMessage m \<noteq> None \<or> PollUpdateMessage m \<noteq> None then True
      else if KeepInChatMessage m \<noteq> None then True
      else
        let hasText = (GetConversation m \<noteq> [] \<or> GetExtendedText m \<noteq> []);
            hasMedia = (ImageMessage m \<noteq> None \<or> VideoMessage m \<noteq> None \<or>
                        AudioMessage m \<noteq> None \<or> DocumentMessage m \<noteq> None \<or>
                        StickerMessage m \<noteq> None)
        in if \<not> hasText \<and> \<not> hasMedia then True else False)"

definition getConfig :: "database \<Rightarrow> string \<Rightarrow> go_error + Config" where
  "getConfig d userID =
     (case get_failure d of
        Some e \<Rightarrow> Inl (Errorf e)
      | None \<Rightarrow> (case chatwoot_config d userID of None \<Rightarrow> Inl ErrNoRows | Some c \<Rightarrow> Inr c))"

definition ensureContact ::
  "remote \<Rightarrow> Client \<Rightarrow> Config \<Rightarrow> string \<Rightarrow> string \<Rightarrow> string \<Rightarrow> remote_call list
     \<Rightarrow> (go_error + int) \<times> remote_call list" where
  "ensureContact R client config phoneNumber name identifier lg =
     (case FindContactByPhone R client phoneNumber lg of
        (Inr contactID, lg1) \<Rightarrow> (Inr contactID, lg1)
      | (Inl (Panic p), lg1) \<Rightarrow> (Inl (Panic p), lg1)
      | (Inl e, lg1) \<Rightarrow>
          let inboxID = InboxID_Int64 config in
          if inboxID = 0 then (Inl (Errorf ''inbox_id not configured''), lg1)
          else
            (case CreateContact R client inboxID name phoneNumber identifier [] lg1 of
               (Inl e2, lg2) \<Rightarrow> (Inl (wrap ''failed to create contact'' e2), lg2)
             | (Inr contactID, lg2) \<Rightarrow> (Inr contactID, lg2)))"

definition cacheKey :: "string \<Rightarrow> string \<Rightarrow> string" where
  "cacheKey userID chatJID = userID @ '':'' @ chatJID"

definition get_conversation :: "database \<Rightarrow> string \<Rightarrow> string \<Rightarrow> go_error + ConversationCache" where
  "get_conversation d userID chatJID =
     (case get_failure d of
        Some e \<Rightarrow> Inl (Errorf e)
      | None \<Rightarrow>
          (case chatwoot_conversations d (userID, chatJID) of
             None \<Rightarrow> Inl ErrNoRows
           | Some conv \<Rightarrow> Inr conv))"

definition insert_conversation ::
  "database \<Rightarrow> string \<Rightarrow> string \<Rightarrow> int \<Rightarrow> int \<Rightarrow> int \<Rightarrow> go_error option \<times> database" where
  "insert_conversation d userID chatJID conversationID contactID inboxID =
     (case exec_failure d of
        Some e \<Rightarrow> (Some (Errorf e), d)
      | None \<Rightarrow>
          (case chatwoot_conversations d (userID, chatJID) of
             Some old \<Rightarrow> (Some (Errorf ''UNIQUE constraint failed''), d)
           | None \<Rightarrow>
               (None, d\<lparr>chatwoot_conversations := (chatwoot_conversations d)
                   ((userID, chatJID) \<mapsto>
                    \<lparr>ChatwootConversationID = conversationID, ChatwootContactID = contactID,
                     ChatwootInboxID = inboxID\<rparr>)\<rparr>)))"

definition ensureConversation ::
  "remote \<Rightarrow> string \<Rightarrow> Client \<Rightarrow> Config \<Rightarrow> int \<Rightarrow> string \<Rightarrow> Service \<times> remote_call list
     \<Rightarrow> (go_error + int) \<times> (Service \<times> remote_call list)" where
  "ensureConversation R userID client config contactID chatJID st =
     (let s = fst st; lg = snd st; key = cacheKey userID chatJID in
      case conversationCache s key of
        Some convID \<Rightarrow> (Inr convID, st)
      | None \<Rightarrow>
          (case get_conversation (db s) userID chatJID of
             Inr conv \<Rightarrow>
               (Inr (ChatwootConversationID conv),
                (s\<lparr>conversationCache := (conversationCache s)(key \<mapsto> ChatwootConversationID conv)\<rparr>, lg))
           | Inl err \<Rightarrow>
               if err \<noteq> ErrNoRows then (Inl (wrap ''database error'' err), st)
               else
                 let inboxID = InboxID_Int64 config; sourceID = ''wa:'' @ chatJID in
                 (case CreateConversation R client contactID inboxID sourceID
                         (ConversationPending config) lg of
                    (Inl e, lg1) \<Rightarrow> (Inl (wrap ''failed to create conversation'' e), (s, lg1))
                  | (Inr conversationID, lg1) \<Rightarrow>
                      let d1 = snd (insert_conversation (db s) userID chatJID conversationID
                                      contactID inboxID)
                      in (Inr conversationID,
                          (s\<lparr>db := d1,
                             conversationCache := (conversationCache s)(key \<mapsto> conversationID)\<rparr>,
                           lg1)))))"

definition media_fileName :: "string \<Rightarrow> string \<Rightarrow> string \<Rightarrow> WAMessage \<Rightarrow> string" where
  "media_fileName mediaType ident mimeType m =
     (if mediaType = ''image'' then
        (if mimeType = ''image/png'' then ident @ ''.png'' else ident @ ''.jpg'')
      else if mediaType = ''video'' then ident @ ''.mp4''
      else if mediaType = ''audio'' then
        (if mimeType = ''audio/mpeg'' then ident @ ''.mp3'' else ident @ ''.ogg'')
      else
        (let fileName = (case DocumentMessage m of None \<Rightarrow> [] | Some doc \<Rightarrow> FileName doc)
         in if fileName = [] then ident @ ''.pdf'' else fileName))"

definition media_downloadable :: "string \<Rightarrow> WAMessage \<Rightarrow> media option" where
  "media_downloadable mediaType m =
     (if mediaType = ''image'' then ImageMessage m
      else if mediaType = ''video'' then VideoMessage m
      else if mediaType = ''audio'' then AudioMessage m
      else DocumentMessage m)"

definition supported_media :: "string \<Rightarrow> bool" where
  "supported_media mediaType = (mediaType \<in> {''image'', ''video'', ''audio'', ''document''})"

definition sendMediaMessage ::
  "remote \<Rightarrow> Client \<Rightarrow> wa_client \<Rightarrow> Message_event \<Rightarrow> int \<Rightarrow> string \<Rightarrow> string \<Rightarrow> string \<Rightarrow> string
     \<Rightarrow> string \<Rightarrow> remote_call list \<Rightarrow> go_error option \<times> remote_call list" where
  "sendMediaMessage R client waClient evt conversationID msgType sourceID mimeType caption
       mediaType lg =
     (if \<not> supported_media mediaType
      then (Some (Errorf (''unsupported media type: '' @ mediaType)), lg)
      else
        let fileName = media_fileName mediaType (Info_ID (Info evt)) mimeType (Message evt);
            lg1 = lg @ [MediaDownload mediaType fileName]
        in case Download waClient mediaType (media_downloadable mediaType (Message evt)) of
             Inl e \<Rightarrow> (Some (wrap ''failed to download media'' (Errorf e)), lg1)
           | Inr data \<Rightarrow>
               (case SendMediaMessage R client conversationID msgType data fileName mimeType
                       caption sourceID lg1 of
                  (Inl e, lg2) \<Rightarrow> (Some (wrap ''failed to send media to chatwoot'' e), lg2)
                | (Inr mid, lg2) \<Rightarrow> (None, lg2)))"

definition textContent :: "WAMessage \<Rightarrow> string" where
  "textContent m =
     (if GetConversation m = [] \<and> ExtendedTextMessage m \<noteq> None then GetExtendedText m
      else GetConversation m)"

definition sendMessageToChatwoot ::
  "remote \<Rightarrow> Client \<Rightarrow> wa_client \<Rightarrow> Message_event \<Rightarrow> int \<Rightarrow> string \<Rightarrow> remote_call list
     \<Rightarrow> go_error option \<times> remote_call list" where
  "sendMessageToChatwoot R client waClient evt conversationID msgType lg =
     (let sourceID = ''WAID:'' @ Info_ID (Info evt); m = Message evt in
      case ImageMessage m of
        Some img \<Rightarrow> sendMediaMessage R client waClient evt conversationID msgType sourceID
                      (Mimetype img) (Caption img) ''image'' lg
      | None \<Rightarrow>
      (case VideoMessage m of
        Some vid \<Rightarrow> sendMediaMessage R client waClient evt conversationID msgType sourceID
                      (Mimetype vid) (Caption vid) ''video'' lg
      | None \<Rightarrow>
      (case AudioMessage m of
        Some aud \<Rightarrow> sendMediaMessage R client waClient evt conversationID msgType sourceID
                      (Mimetype aud) [] ''audio'' lg
      | None \<Rightarrow>
      (case DocumentMessage m of
        Some doc \<Rightarrow> sendMediaMessage R client waClient evt conversationID msgType sourceID
                      (Mimetype doc) (Caption doc) ''document'' lg
      | None \<Rightarrow>
          if textContent m \<noteq> [] then
            (case CreateMessage R client conversationID msgType (textContent m) False sourceID lg of
               (Inl e, lg1) \<Rightarrow> (Some e, lg1)
             | (Inr mid, lg1) \<Rightarrow> (None, lg1))
          else (None, lg)))))"

text \<open>
  \<^verbatim>\<open>strings.Map\<close> walks the runes of its argument. A digit is a one-byte rune and every
  byte of a longer (or invalid) rune is no digit, so keeping the digit runes is keeping the
  digit bytes.
\<close>

definition isDigit :: "char \<Rightarrow> bool" where
  "isDigit r = (of_char (CHR ''0'') \<le> (of_char r :: nat) \<and> (of_char r :: nat) \<le> of_char (CHR ''9''))"

definition formatToE164 :: "string \<Rightarrow> string" where
  "formatToE164 phone = ''+'' @ filter isDigit (TrimPrefix phone ''+'')"

text \<open>
  Steps 5 and 6 of the inbound path: for a group the contact is the participant, otherwise
  the chat itself; the contact's name is the push name or, without one, the local part of
  its address; the message type is the direction.
\<close>

definition senderJID_of :: "Message_event \<Rightarrow> string" where
  "senderJID_of evt =
     (if Info_IsGroup (Info evt) then Info_Sender (Info evt) else Info_Chat (Info evt))"

definition contactName_of :: "Message_event \<Rightarrow> string" where
  "contactName_of evt =
     (if Info_PushName (Info evt) = [] then SplitFirst (senderJID_of evt) (CHR ''@'')
      else Info_PushName (Info evt))"

definition msgType_of :: "Message_event \<Rightarrow> string" where
  "msgType_of evt = (if Info_IsFromMe (Info evt) then ''outgoing'' else ''incoming'')"

text \<open>
  The inbound path. \<open>now\<close> is the reading of \<^verbatim>\<open>time.Now()\<close>; the result is the
  returned error (\<open>None\<close> for nil), the service after the call and the log of remote
  calls.
\<close>

definition HandleIncomingMessage ::
  "remote \<Rightarrow> wa_client \<Rightarrow> int \<Rightarrow> string \<Rightarrow> Message_event \<Rightarrow> Service \<times> remote_call list
     \<Rightarrow> go_error option \<times> (Service \<times> remote_call list)" where
  "HandleIncomingMessage R waClient now userID evt st =
     (let s = fst st; lg = snd st in
      case LoadOrStore (dedupeCache s) (Info_ID (Info evt)) now of
        (True, cache) \<Rightarrow> (None, st)
      | (False, cache) \<Rightarrow>
          let s1 = s\<lparr>dedupeCache := cache\<rparr> in
          if shouldSkipMessage evt then (None, (s1, lg))
          else
            (case getConfig (db s1) userID of
               Inl err \<Rightarrow>
                 if err = ErrNoRows then (None, (s1, lg))
                 else (Some (wrap ''failed to load chatwoot config'' err), (s1, lg))
             | Inr config \<Rightarrow>
                 if \<not> Enabled config then (None, (s1, lg))
                 else
                   let client = NewClient config;
                       chatJID = Info_Chat (Info evt);
                       senderJID = senderJID_of evt;
                       contactName = contactName_of evt;
                       msgType = msgType_of evt;
                       phoneNumber = formatToE164 (SplitFirst senderJID (CHR ''@''))
                   in
                   (case ensureContact R client config phoneNumber contactName senderJID lg of
                      (Inl e, lg1) \<Rightarrow> (Some (wrap ''failed to ensure contact'' e), (s1, lg1))
                    | (Inr contactID, lg1) \<Rightarrow>
                        (case ensureConversation R userID client config contactID chatJID (s1, lg1) of
                           (Inl e, st2) \<Rightarrow> (Some (wrap ''failed to ensure conversation'' e), st2)
                         | (Inr conversationID, st2) \<Rightarrow>
                             (case sendMessageToChatwoot R client waClient evt conversationID
                                     msgType (snd st2) of
                                (Some e, lg3) \<Rightarrow>
                                  (Some (wrap ''failed to send message to chatwoot'' e), (fst st2, lg3))
                              | (None, lg3) \<Rightarrow> (None, (fst st2, lg3)))))))"

section \<open>The configuration handler (GetChatwootConfig)\<close>

record ChatwootConfigResponse =
  resp_UserID :: string
  resp_AccountID :: string
  resp_Token :: string
  resp_URL :: string
  resp_InboxID :: "int option"
  resp_NameInbox :: string
  resp_Enabled :: bool
  resp_AutoCreate :: bool
  resp_SignMsg :: bool
  resp_SignDelimiter :: string
  resp_ReopenConversation :: bool
  resp_ConversationPending :: bool
  resp_MergeBrazilContacts :: bool
  resp_Organization :: string
  resp_Logo :: string
  resp_WebhookURL :: string
  resp_CreatedAt :: string
  resp_UpdatedAt :: string

text \<open>
  An HTTP response: the status code and the body, which is a plain message, a JSON object
  of strings or the JSON of a configuration.
\<close>

datatype body = Plain string | Json "(string \<times> string) list" | ConfigJson ChatwootConfigResponse

record response =
  code :: nat
  content :: body

definition maskedToken :: "string \<Rightarrow> string" where
  "maskedToken tok = (if length tok > 4 then ''****'' @ drop (length tok - 4) tok else tok)"

text \<open>
  \<open>userID\<close> and \<open>userToken\<close> are the \<^verbatim>\<open>Id\<close> and \<^verbatim>\<open>Token\<close> of the authenticated
  user, \<open>base\<close> is what \<^verbatim>\<open>getBaseURL\<close> reads from the request, \<open>fmt\<close> renders a
  time in the layout \<^verbatim>\<open>2006-01-02T15:04:05Z\<close>.
\<close>

definition GetChatwootConfig ::
  "(int \<Rightarrow> string) \<Rightarrow> database \<Rightarrow> string \<Rightarrow> string \<Rightarrow> string \<Rightarrow> response" where
  "GetChatwootConfig fmt d userID userToken base =
     (case getConfig d userID of
        Inl err \<Rightarrow>
          if err = ErrNoRows then \<lparr>code = 404, content = Plain ''Chatwoot not configured''\<rparr>
          else \<lparr>code = 500, content = Plain ''Database error''\<rparr>
      | Inr config \<Rightarrow>
          let webhookURL = base @ ''/chatwoot/webhook/'' @ userToken in
          \<lparr>code = 200,
           content = ConfigJson
             \<lparr>resp_UserID = UserID config,
              resp_AccountID = AccountID config,
              resp_Token = maskedToken (Token config),
              resp_URL = URL config,
              resp_InboxID = InboxID config,
              resp_NameInbox = NameInbox config,
              resp_Enabled = Enabled config,
              resp_AutoCreate = AutoCreate config,
              resp_SignMsg = SignMsg config,
              resp_SignDelimiter = SignDelimiter config,
              resp_ReopenConversation = ReopenConversation config,
              resp_ConversationPending = ConversationPending config,
              resp_MergeBrazilContacts = MergeBrazilContacts config,
              resp_Organization = Organization config,
              resp_Logo = Logo config,
              resp_WebhookURL = webhookURL,
              resp_CreatedAt = fmt (CreatedAt config),
              resp_UpdatedAt = fmt (UpdatedAt config)\<rparr>\<rparr>)"

section \<open>The webhook handler (handlers\_chatwoot.go)\<close>

record Attachment =
  DataURL :: string
  FileType :: string

record PayloadMessage =
  msg_ID :: int
  SourceID :: string
  Attachments :: "Attachment list"

record ChatwootWebhookPayload =
  Event :: string
  MessageType :: string
  payload_ID :: int
  Content :: string
  Private :: bool
  Conversation_ID :: int
  Conversation_Status :: string
  Meta_Sender_ID :: int
  Meta_Sender_Identifier :: string
  Meta_Sender_PhoneNumber :: string
  Conversation_Messages :: "PayloadMessage list"
  Inbox_ID :: int
  Inbox_Name :: string
  Sender_Name :: string
  Sender_AvailableName :: string

text \<open>
  A request: the token of the path, the token of the query string and the decoded body
  (\<open>None\<close> when the body is no JSON of the payload's shape).
\<close>

record request =
  path_token :: string
  query_token :: string
  decoded :: "ChatwootWebhookPayload option"

text \<open>
  The state the handler works on: the store, the cache of authenticated users (token to
  user id), the WhatsApp client of each user and \<open>messageDedupeCache\<close>. The handler
  stores into the package-level map \<^verbatim>\<open>messageDedupeCache\<close>, whose declaration is in none
  of the repository's files; the handler only writes it. \<open>sends\<close> logs the calls of
  \<^verbatim>\<open>SendMessage\<close> in their order: the recipient, the text and the answer (the message
  id or the failure).
\<close>

record server =
  store :: database
  userinfocache :: "string \<rightharpoonup> string"
  clientManager :: "string \<rightharpoonup> wa_client"
  messageDedupeCache :: "string \<rightharpoonup> bool"
  sends :: "send_record list"

definition respondJSON :: "nat \<Rightarrow> (string \<times> string) list \<Rightarrow> response" where
  "respondJSON statusCode data = \<lparr>code = statusCode, content = Json data\<rparr>"

definition find_user :: "server \<Rightarrow> string \<Rightarrow> string option" where
  "find_user sv tok =
     (case userinfocache sv tok of
        Some ident \<Rightarrow> Some ident
      | None \<Rightarrow> (case get_failure (store sv) of Some e \<Rightarrow> None | None \<Rightarrow> users (store sv) tok))"

definition loop_prevention :: "ChatwootWebhookPayload \<Rightarrow> bool" where
  "loop_prevention payload =
     (case Conversation_Messages payload of
        [] \<Rightarrow> False
      | firstMsg # rest \<Rightarrow>
          HasPrefix (SourceID firstMsg) ''WAID:'' \<and> msg_ID firstMsg = payload_ID payload)"

definition destination :: "ChatwootWebhookPayload \<Rightarrow> string" where
  "destination payload =
     (if Meta_Sender_Identifier payload = [] then TrimPrefix (Meta_Sender_PhoneNumber payload) ''+''
      else SplitFirst (Meta_Sender_Identifier payload) (CHR ''@''))"

definition NewJID_String :: "string \<Rightarrow> string" where
  "NewJID_String user = (if user = [] then ''s.whatsapp.net'' else user @ ''@s.whatsapp.net'')"

text \<open>
  Modelled from the spec: the method \<^verbatim>\<open>StoreConversationFromWebhook\<close> of the service is
  called by the handler and defined in none of the repository's files. The specification
  (section 4.2, step 5): persist or refresh the conversation mapping of this (tenant,
  destination) pair from the webhook's own conversation, contact and inbox identifiers.
  The handler only logs its error.
\<close>

definition StoreConversationFromWebhook ::
  "database \<Rightarrow> string \<Rightarrow> string \<Rightarrow> int \<Rightarrow> int \<Rightarrow> int \<Rightarrow> go_error option \<times> database" where
  "StoreConversationFromWebhook d userID chatJID conversationID contactID inboxID =
     (case exec_failure d of
        Some e \<Rightarrow> (Some (Errorf e), d)
      | None \<Rightarrow>
          (None, d\<lparr>chatwoot_conversations := (chatwoot_conversations d)
              ((userID, chatJID) \<mapsto>
               \<lparr>ChatwootConversationID = conversationID, ChatwootContactID = contactID,
                ChatwootInboxID = inboxID\<rparr>)\<rparr>))"

definition attachment_caption :: "string \<Rightarrow> Attachment \<Rightarrow> string" where
  "attachment_caption text_content attachment =
     (if text_content = [] then DataURL attachment
      else text_content @ [CHR 0x0A, CHR 0x0A] @ DataURL attachment)"

text \<open>
  The loop over the attachments of the triggering message: \<open>False\<close> when a send failed
  (the handler then responds and returns at once), \<open>True\<close> when all were sent.
\<close>

fun send_attachments ::
  "wa_client \<Rightarrow> string \<Rightarrow> string \<Rightarrow> Attachment list \<Rightarrow> server \<Rightarrow> bool \<times> server" where
  "send_attachments waClient recipientJID text_content [] sv = (True, sv)"
| "send_attachments waClient recipientJID text_content (attachment # rest) sv =
     (let caption = attachment_caption text_content attachment;
          answer = SendMessage waClient (sends sv) recipientJID caption;
          sv1 = sv\<lparr>sends := sends sv @ [(recipientJID, caption, answer)]\<rparr>
      in case answer of
           Inl err \<Rightarrow> (False, sv1)
         | Inr ident \<Rightarrow>
             send_attachments waClient recipientJID text_content rest
               (sv1\<lparr>messageDedupeCache := (messageDedupeCache sv1)(ident \<mapsto> True)\<rparr>))"

definition triggering_message :: "ChatwootWebhookPayload \<Rightarrow> PayloadMessage option" where
  "triggering_message payload =
     find (\<lambda>msg. msg_ID msg = payload_ID payload \<and> Attachments msg \<noteq> [])
       (Conversation_Messages payload)"

text \<open>
  The end of the handler, once the client is known to be logged in and connected: the
  attachments of the triggering message, or else the text, are sent and the handler
  responds.
\<close>

definition send_to_whatsapp ::
  "wa_client \<Rightarrow> string \<Rightarrow> ChatwootWebhookPayload \<Rightarrow> server \<Rightarrow> response \<times> server" where
  "send_to_whatsapp waClient recipientJID payload sv1 =
     (case triggering_message payload of
        Some msg \<Rightarrow>
          (case send_attachments waClient recipientJID (Content payload) (Attachments msg) sv1 of
             (False, sv2) \<Rightarrow> (respondJSON 500 [(''error'', ''failed to send media'')], sv2)
           | (True, sv2) \<Rightarrow> (respondJSON 200 [(''status'', ''success'')], sv2))
      | None \<Rightarrow>
          if Content payload \<noteq> [] then
            (let answer = SendMessage waClient (sends sv1) recipientJID (Content payload);
                 sv2 = sv1\<lparr>sends := sends sv1 @ [(recipientJID, Content payload, answer)]\<rparr>
             in case answer of
                  Inl err \<Rightarrow> (respondJSON 500 [(''error'', ''failed to send message'')], sv2)
                | Inr ident \<Rightarrow>
                    (respondJSON 200 [(''status'', ''success'')],
                     sv2\<lparr>messageDedupeCache := (messageDedupeCache sv2)(ident \<mapsto> True)\<rparr>))
          else (respondJSON 200 [(''status'', ''success'')], sv1))"

definition HandleChatwootWebhook :: "request \<Rightarrow> server \<Rightarrow> response \<times> server" where
  "HandleChatwootWebhook r sv =
     (let tok = (if path_token r = [] then query_token r else path_token r) in
      if tok = [] then (respondJSON 401 [(''error'', ''missing token'')], sv)
      else
      case find_user sv tok of
        None \<Rightarrow> (respondJSON 401 [(''error'', ''invalid token'')], sv)
      | Some userID \<Rightarrow>
      (case decoded r of
        None \<Rightarrow> (respondJSON 400 [(''error'', ''invalid payload'')], sv)
      | Some payload \<Rightarrow>
          if Event payload \<noteq> ''message_created''
          then (respondJSON 200 [(''status'', ''ignored''), (''reason'', ''not message_created'')], sv)
          else if MessageType payload \<noteq> ''outgoing''
          then (respondJSON 200 [(''status'', ''ignored''), (''reason'', ''not outgoing'')], sv)
          else if Private payload
          then (respondJSON 200 [(''status'', ''ignored''), (''reason'', ''private note'')], sv)
          else if loop_prevention payload
          then (respondJSON 200 [(''status'', ''ignored''), (''reason'', ''loop prevention'')], sv)
          else
            let chatID = destination payload in
            if chatID = [] then (respondJSON 400 [(''error'', ''no destination'')], sv)
            else
              let recipientJID = NewJID_String chatID;
                  sv1 = (if Conversation_ID payload > 0
                         then sv\<lparr>store := snd (StoreConversationFromWebhook (store sv) userID
                                  recipientJID (Conversation_ID payload) (Meta_Sender_ID payload)
                                  (Inbox_ID payload))\<rparr>
                         else sv)
              in
              case clientManager sv1 userID of
                None \<Rightarrow> (respondJSON 503 [(''error'', ''whatsapp client not ready'')], sv1)
              | Some waClient \<Rightarrow>
                  if \<not> IsLoggedIn waClient
                  then (respondJSON 503 [(''error'', ''whatsapp not logged in'')], sv1)
                  else if \<not> IsConnected waClient
                  then (respondJSON 503 [(''error'', ''whatsapp disconnected'')], sv1)
                  else send_to_whatsapp waClient recipientJID payload sv1))"

section \<open>The webhook handler that sends in a goroutine (source file part\_001)\<close>

text \<open>
  A second file of the repository declares \<^verbatim>\<open>HandleChatwootWebhook\<close> again. It filters
  the same way, then starts a goroutine that sends and responds without waiting for it.
  The goroutine is modelled by the function it runs on the state, \<open>webhook_goroutine\<close>;
  the handler returns its response together with the goroutine it started, if any. In the
  goroutine a failed send of an attachment is logged and the loop goes on.
\<close>

fun send_attachments_async ::
  "wa_client \<Rightarrow> string \<Rightarrow> string \<Rightarrow> Attachment list \<Rightarrow> server \<Rightarrow> server" where
  "send_attachments_async waClient recipientJID text_content [] sv = sv"
| "send_attachments_async waClient recipientJID text_content (attachment # rest) sv =
     send_attachments_async waClient recipientJID text_content rest
       (sv\<lparr>sends := sends sv @
                [(recipientJID, attachment_caption text_content attachment,
                  SendMessage waClient (sends sv) recipientJID
                    (attachment_caption text_content attachment))]\<rparr>)"

definition webhook_goroutine ::
  "string \<Rightarrow> string \<Rightarrow> ChatwootWebhookPayload \<Rightarrow> server \<Rightarrow> server" where
  "webhook_goroutine userID recipientJID payload sv =
     (case clientManager sv userID of
        None \<Rightarrow> sv
      | Some waClient \<Rightarrow>
          if \<not> IsLoggedIn waClient then sv
          else
            (case triggering_message payload of
               Some msg \<Rightarrow>
                 send_attachments_async waClient recipientJID (Content payload) (Attachments msg) sv
             | None \<Rightarrow>
                 if Content payload \<noteq> []
                 then sv\<lparr>sends := sends sv @
                            [(recipientJID, Content payload,
                              SendMessage waClient (sends sv) recipientJID (Content payload))]\<rparr>
                 else sv))"

definition HandleChatwootWebhook_async ::
  "request \<Rightarrow> server \<Rightarrow> response \<times> (server \<Rightarrow> server) option" where
  "HandleChatwootWebhook_async r sv =
     (let tok = (if path_token r = [] then query_token r else path_token r) in
      if tok = [] then (\<lparr>code = 401, content = Plain ''Missing token''\<rparr>, None)
      else
      case find_user sv tok of
        None \<Rightarrow> (\<lparr>code = 401, content = Plain ''Invalid token''\<rparr>, None)
      | Some userID \<Rightarrow>
      (case decoded r of
        None \<Rightarrow> (\<lparr>code = 400, content = Plain ''Invalid payload''\<rparr>, None)
      | Some payload \<Rightarrow>
          if Event payload \<noteq> ''message_created''
          then (respondJSON 200 [(''status'', ''ignored''), (''reason'', ''not message_created'')], None)
          else if MessageType payload \<noteq> ''outgoing''
          then (respondJSON 200 [(''status'', ''ignored''), (''reason'', ''not outgoing'')], None)
          else if Private payload
          then (respondJSON 200 [(''status'', ''ignored''), (''reason'', ''private note'')], None)
          else if loop_prevention payload
          then (respondJSON 200 [(''status'', ''ignored''), (''reason'', ''loop prevention'')], None)
          else
            let chatID = destination payload in
            if chatID = []
            then (respondJSON 400 [(''status'', ''error''), (''reason'', ''no destination'')], None)
            else (respondJSON 200 [(''status'', ''success'')],
                  Some (webhook_goroutine userID (NewJID_String chatID) payload))))"

section \<open>The entry of the inbound path\<close>


section \<open>The dead-letter publisher (source file part\_003)\<close>

datatype json =
    JNull | JBool bool | JNumber int | JString string | JArray "json list"
  | JObject "(string \<times> json) list"

record WebhookErrorPayload =
  err_URL :: string
  err_Payload :: "string \<rightharpoonup> json"
  err_UserID :: string
  err_EncryptedHmacKey :: string
  err_AttemptTime :: int
  err_ErrorMessage :: string

record WebhookFileErrorPayload =
  ferr_URL :: string
  ferr_Payload :: "string \<rightharpoonup> json"
  ferr_UserID :: string
  ferr_EncryptedHmacKey :: string
  ferr_FilePath :: string
  ferr_AttemptTime :: int
  ferr_ErrorMessage :: string

datatype dead_letter = DataError WebhookErrorPayload | FileError WebhookFileErrorPayload

text \<open>
  The queue connection: whether publishing is enabled, the default queue, the failures the
  broker answers a queue declaration or a publish with (if any), and what was published
  (queue and record). \<open>marshal\<close> is \<^verbatim>\<open>json.Marshal\<close> on a dead-letter record: the bytes,
  or \<open>None\<close> when it fails.
\<close>

record rabbit =
  rabbitEnabled :: bool
  rabbitQueue :: string
  declare_failure :: "string option"
  publish_failure :: "string option"
  marshal :: "dead_letter \<Rightarrow> string option"
  published :: "(string \<times> string) list"

definition PublishToRabbit :: "string \<Rightarrow> string list \<Rightarrow> rabbit \<Rightarrow> go_error option \<times> rabbit" where
  "PublishToRabbit data queueOverride rb =
     (if \<not> rabbitEnabled rb then (None, rb)
      else
        let queueName = (case queueOverride of
                           [] \<Rightarrow> rabbitQueue rb
                         | q # rest \<Rightarrow> if q \<noteq> [] then q else rabbitQueue rb)
        in case declare_failure rb of
             Some e \<Rightarrow> (Some (Errorf e), rb)
           | None \<Rightarrow>
               (case publish_failure rb of
                  Some e \<Rightarrow> (Some (Errorf e), rb)
                | None \<Rightarrow> (None, rb\<lparr>published := published rb @ [(queueName, data)]\<rparr>)))"

text \<open>
  Both publishers return nothing: a failure to marshal or to publish is logged and goes
  no further.
\<close>

definition PublishDataErrorToQueue :: "string \<Rightarrow> WebhookErrorPayload \<Rightarrow> rabbit \<Rightarrow> rabbit" where
  "PublishDataErrorToQueue queueName payload rb =
     (case marshal rb (DataError payload) of
        None \<Rightarrow> rb
      | Some data \<Rightarrow> snd (PublishToRabbit data [queueName] rb))"

definition PublishFileErrorToQueue :: "string \<Rightarrow> WebhookFileErrorPayload \<Rightarrow> rabbit \<Rightarrow> rabbit" where
  "PublishFileErrorToQueue queueName payload rb =
     (case marshal rb (FileError payload) of
        None \<Rightarrow> rb
      | Some data \<Rightarrow> snd (PublishToRabbit data [queueName] rb))"

section \<open>The delivery engine (callHookWithHmac, callHookFileWithHmac)\<close>

text \<open>
  The command-line flags the engine reads. \<^verbatim>\<open>int\<close> is 64 bits wide; the retry count is
  only compared with the attempt counter, the delay is multiplied in 64-bit arithmetic.
\<close>

record flags =
  webhookRetryEnabled :: bool
  webhookRetryCount :: int
  webhookRetryDelaySeconds :: int
  webhookErrorQueueName :: string

text \<open>
  The value of the variable \<^verbatim>\<open>body\<close>, an \<^verbatim>\<open>interface{}\<close> that holds the payload (a map of
  strings) or the map decoded from its \<^verbatim>\<open>jsonData\<close> entry.
\<close>

datatype body_value = StringMap "string \<rightharpoonup> string" | AnyMap "string \<rightharpoonup> json"

record hook_request =
  req_url :: string
  req_json :: bool
  req_body :: body_value
  req_file :: "string option"
  req_signature :: string

datatype hook_response = TransportError string | Status int string

text \<open>
  What the engine takes from its environment: the variable \<^verbatim>\<open>WEBHOOK_FORMAT\<close>, the
  target (it answers the request of each attempt, numbered from 0), the JSON and form
  encoders, the decryption of the signing key and HMAC-SHA-256.
\<close>

record hook_env =
  WEBHOOK_FORMAT :: string
  target :: "nat \<Rightarrow> hook_request \<Rightarrow> hook_response"
  json_Unmarshal :: "string \<Rightarrow> (string \<rightharpoonup> json) option"
  json_Marshal :: "body_value \<Rightarrow> string option"
  form_Encode :: "(string \<rightharpoonup> string) \<Rightarrow> string"
  decryptHMACKey :: "string \<Rightarrow> string + string"
  hmac_sha256 :: "string \<Rightarrow> string \<Rightarrow> string"

definition hexdigit :: "nat \<Rightarrow> char" where
  "hexdigit n = ''0123456789abcdef'' ! n"

definition EncodeToString :: "string \<Rightarrow> string" where
  "EncodeToString bs =
     concat (map (\<lambda>b. [hexdigit (of_char b div 16), hexdigit (of_char b mod 16)]) bs)"

fun itoa_nat :: "nat \<Rightarrow> string" where
  "itoa_nat n =
     (if n < 10 then [''0123456789'' ! n] else itoa_nat (n div 10) @ [''0123456789'' ! (n mod 10)])"

definition Itoa :: "int \<Rightarrow> string" where
  "Itoa i = (if i < 0 then ''-'' @ itoa_nat (nat (- i)) else itoa_nat (nat i))"

definition generateHmacSignature :: "hook_env \<Rightarrow> string \<Rightarrow> string \<Rightarrow> go_error + string" where
  "generateHmacSignature E payload encryptedHmacKey =
     (if length encryptedHmacKey = 0 then Inr []
      else case decryptHMACKey E encryptedHmacKey of
             Inl e \<Rightarrow> Inl (Errorf (''failed to decrypt HMAC key: '' @ e))
           | Inr hmacKey \<Rightarrow> Inr (EncodeToString (hmac_sha256 E hmacKey payload)))"

definition signature_or_empty :: "go_error + string \<Rightarrow> string" where
  "signature_or_empty r = (case r of Inl e \<Rightarrow> [] | Inr sig \<Rightarrow> sig)"

text \<open>
  The delay before attempt \<open>attempt\<close> (counted from 0, so this is for \<open>attempt > 0\<close>):
  \<^verbatim>\<open>time.Duration(delaySeconds) * time.Second * time.Duration(1 << uint(attempt-1))\<close>,
  in nanoseconds and 64-bit arithmetic.
\<close>

definition backoffFactor :: "int \<Rightarrow> 64 word" where
  "backoffFactor attempt = push_bit (nat (attempt - 1)) 1"

definition delayDuration :: "flags \<Rightarrow> int \<Rightarrow> 64 word" where
  "delayDuration F attempt =
     word_of_int (webhookRetryDelaySeconds F) * 1000000000 * backoffFactor attempt"

datatype hook_event = Sleep "64 word" | Post nat hook_request

record hook_state =
  lastError :: "go_error option"
  hook_body :: body_value
  trace :: "hook_event list"

text \<open>
  One attempt's request, and the value of \<^verbatim>\<open>body\<close> after building it.
\<close>

definition build_request ::
  "hook_env \<Rightarrow> string \<Rightarrow> (string \<rightharpoonup> string) \<Rightarrow> string \<Rightarrow> string \<Rightarrow> body_value
     \<Rightarrow> hook_request \<times> body_value" where
  "build_request E myurl payload userID encryptedHmacKey body0 =
     (if WEBHOOK_FORMAT E = ''json'' then
        let body1 =
              (case payload ''jsonData'' of
                 None \<Rightarrow> body0
               | Some jsonStr \<Rightarrow>
                   (case json_Unmarshal E jsonStr of
                      None \<Rightarrow> body0
                    | Some postmap \<Rightarrow>
                        AnyMap ((case payload ''instanceName'' of
                                   None \<Rightarrow> postmap
                                 | Some instanceName \<Rightarrow>
                                     postmap(''instanceName'' \<mapsto> JString instanceName))
                                (''userID'' \<mapsto> JString userID))));
            jsonBody = (case json_Marshal E body1 of None \<Rightarrow> [] | Some bytes \<Rightarrow> bytes);
            hmacSignature =
              (if length encryptedHmacKey > 0 \<and> length jsonBody > 0
               then signature_or_empty (generateHmacSignature E jsonBody encryptedHmacKey)
               else [])
        in (\<lparr>req_url = myurl, req_json = True, req_body = body1, req_file = None,
             req_signature = hmacSignature\<rparr>, body1)
      else
        let hmacSignature =
              (if length encryptedHmacKey > 0
               then signature_or_empty
                      (generateHmacSignature E (form_Encode E payload) encryptedHmacKey)
               else [])
        in (\<lparr>req_url = myurl, req_json = False, req_body = StringMap payload, req_file = None,
             req_signature = hmacSignature\<rparr>, StringMap payload))"

definition status_error :: "int \<Rightarrow> string \<Rightarrow> go_error" where
  "status_error status_code response_body =
     Errorf (''unexpected status code: '' @ Itoa status_code @ ''. Body: '' @ response_body)"

text \<open>
  The retry loop from attempt \<open>attempt\<close> on. Both delivery functions write out the same
  loop and differ in the request an attempt builds, which is the parameter \<open>build\<close>
  here: from the value of \<^verbatim>\<open>body\<close> it gives the request and the new value of
  \<^verbatim>\<open>body\<close>. The result is \<open>True\<close> when the function returned from inside the loop (a
  2xx answer) and \<open>False\<close> when the loop was left (by \<^verbatim>\<open>break\<close> or because the
  attempts ran out), with the state at that point.
\<close>

function retry_loop ::
  "(nat \<Rightarrow> hook_request \<Rightarrow> hook_response) \<Rightarrow> flags \<Rightarrow> (body_value \<Rightarrow> hook_request \<times> body_value)
     \<Rightarrow> int \<Rightarrow> int \<Rightarrow> hook_state \<Rightarrow> bool \<times> hook_state" where
  "retry_loop post F build maxRetries attempt st =
     (if attempt < maxRetries then
        let st1 = (if attempt > 0
                   then st\<lparr>trace := trace st @ [Sleep (delayDuration F attempt)]\<rparr> else st);
            built = build (hook_body st1);
            st2 = st1\<lparr>hook_body := snd built,
                      trace := trace st1 @ [Post (nat attempt) (fst built)]\<rparr>
        in case post (nat attempt) (fst built) of
             TransportError e \<Rightarrow>
               retry_loop post F build maxRetries (attempt + 1) (st2\<lparr>lastError := Some (Errorf e)\<rparr>)
           | Status status_code response_body \<Rightarrow>
               if status_code < 200 \<or> status_code \<ge> 300 then
                 (let st3 = st2\<lparr>lastError := Some (status_error status_code response_body)\<rparr>
                  in if \<not> webhookRetryEnabled F then (False, st3)
                     else retry_loop post F build maxRetries (attempt + 1) st3)
               else (True, st2\<lparr>lastError := None\<rparr>)
      else (False, st))"
  by pat_completeness auto
termination
  by (relation "measure (\<lambda>(post, F, build, maxRetries, attempt, st). nat (maxRetries - attempt))")
     auto

declare retry_loop.simps [simp del]

definition maxRetries_of :: "flags \<Rightarrow> int" where
  "maxRetries_of F = (if webhookRetryEnabled F then webhookRetryCount F else 1)"

definition errorPayloadMap :: "body_value \<Rightarrow> (string \<rightharpoonup> json)" where
  "errorPayloadMap b =
     (case b of
        StringMap p \<Rightarrow> (\<lambda>k. map_option JString (p k))
      | AnyMap p \<Rightarrow> p)"

text \<open>
  \<^verbatim>\<open>callHookWithHmac\<close> has no result: what it leaves behind is the trace of its sleeps and
  posts and the state of the queue. \<open>now\<close> is the reading of \<^verbatim>\<open>time.Now()\<close> when
  the dead-letter record is built.
\<close>

definition callHookWithHmac ::
  "hook_env \<Rightarrow> flags \<Rightarrow> int \<Rightarrow> string \<Rightarrow> (string \<rightharpoonup> string) \<Rightarrow> string \<Rightarrow> string \<Rightarrow> rabbit
     \<Rightarrow> hook_event list \<times> rabbit" where
  "callHookWithHmac E F now myurl payload userID encryptedHmacKey rb =
     (case retry_loop (target E) F (build_request E myurl payload userID encryptedHmacKey)
             (maxRetries_of F) 0
             \<lparr>lastError = None, hook_body = StringMap payload, trace = []\<rparr> of
        (True, st) \<Rightarrow> (trace st, rb)
      | (False, st) \<Rightarrow>
          (case lastError st of
             None \<Rightarrow> (trace st, rb)
           | Some err \<Rightarrow>
               (trace st,
                PublishDataErrorToQueue (webhookErrorQueueName F)
                  \<lparr>err_URL = myurl,
                   err_Payload = errorPayloadMap (hook_body st),
                   err_UserID = userID,
                   err_EncryptedHmacKey = EncodeToString encryptedHmacKey,
                   err_AttemptTime = now,
                   err_ErrorMessage = error_text err\<rparr> rb)))"

definition callHook :: "hook_env \<Rightarrow> flags \<Rightarrow> int \<Rightarrow> string \<Rightarrow> (string \<rightharpoonup> string) \<Rightarrow> string \<Rightarrow> rabbit
     \<Rightarrow> hook_event list \<times> rabbit" where
  "callHook E F now myurl payload userID rb = callHookWithHmac E F now myurl payload userID [] rb"

text \<open>
  The file variant posts a multipart form: the payload with the entry \<^verbatim>\<open>file\<close> added,
  and the file itself. It returns an error.
\<close>

definition build_file_request ::
  "hook_env \<Rightarrow> string \<Rightarrow> (string \<rightharpoonup> string) \<Rightarrow> string \<Rightarrow> string \<Rightarrow> hook_request" where
  "build_file_request E myurl finalPayload file encryptedHmacKey =
     (let hmacSignature =
            (if length encryptedHmacKey > 0 then
               (case json_Marshal E (StringMap finalPayload) of
                  None \<Rightarrow> []
                | Some jsonPayload \<Rightarrow>
                    signature_or_empty (generateHmacSignature E jsonPayload encryptedHmacKey))
             else [])
      in \<lparr>req_url = myurl, req_json = False, req_body = StringMap finalPayload,
          req_file = Some file, req_signature = hmacSignature\<rparr>)"

definition callHookFileWithHmac ::
  "hook_env \<Rightarrow> flags \<Rightarrow> int \<Rightarrow> string \<Rightarrow> (string \<rightharpoonup> string) \<Rightarrow> string \<Rightarrow> string \<Rightarrow> string
     \<Rightarrow> rabbit \<Rightarrow> go_error option \<times> hook_event list \<times> rabbit" where
  "callHookFileWithHmac E F now myurl payload userID file encryptedHmacKey rb =
     (let finalPayload = payload(''file'' \<mapsto> file) in
      case retry_loop (target E) F
             (\<lambda>b. (build_file_request E myurl finalPayload file encryptedHmacKey, b))
             (maxRetries_of F) 0
             \<lparr>lastError = None, hook_body = StringMap finalPayload, trace = []\<rparr> of
        (True, st) \<Rightarrow> (None, trace st, rb)
      | (False, st) \<Rightarrow>
          (case lastError st of
             None \<Rightarrow> (None, trace st, rb)
           | Some err \<Rightarrow>
               (Some (wrap ''webhook failed permanently'' err),
                trace st,
                PublishFileErrorToQueue (webhookErrorQueueName F)
                  \<lparr>ferr_URL = myurl,
                   ferr_Payload = (\<lambda>k. map_option JString (finalPayload k)),
                   ferr_UserID = userID,
                   ferr_EncryptedHmacKey = EncodeToString encryptedHmacKey,
                   ferr_FilePath = file,
                   ferr_AttemptTime = now,
                   ferr_ErrorMessage = error_text err\<rparr> rb)))"

definition callHookFile ::
  "hook_env \<Rightarrow> flags \<Rightarrow> int \<Rightarrow> string \<Rightarrow> (string \<rightharpoonup> string) \<Rightarrow> string \<Rightarrow> string \<Rightarrow> rabbit
     \<Rightarrow> go_error option \<times> hook_event list \<times> rabbit" where
  "callHookFile E F now myurl payload userID file rb =
     callHookFileWithHmac E F now myurl payload userID file [] rb"

section \<open>Example values\<close>

text \<open>
  A tenant \<open>u1\<close> with an enabled bridge, a store that holds its configuration, a
  ticketing platform that knows no contact and answers every creation with a fresh
  identifier, a connected WhatsApp client, and message events for the chat
  \<open>5511999999999@s.whatsapp.net\<close>. The closed theorems below evaluate the model on
  them.
\<close>

definition example_config :: Config where
  "example_config =
     \<lparr>UserID = ''u1'', AccountID = ''1'', Token = ''cw-secret-token'', URL = ''https://cw.example'',
      InboxID = Some 7, NameInbox = ''Wuzapi Inbox'', Enabled = True, AutoCreate = False,
      SignMsg = False, ReopenConversation = False, ConversationPending = False,
      MergeBrazilContacts = False, SignDelimiter = [], Organization = [], Logo = [],
      CreatedAt = 0, UpdatedAt = 0\<rparr>"

definition example_db :: database where
  "example_db =
     \<lparr>chatwoot_config = [''u1'' \<mapsto> example_config], chatwoot_conversations = Map.empty,
      users = [''tok'' \<mapsto> ''u1''], get_failure = None, exec_failure = None\<rparr>"

definition example_remote :: remote where
  "example_remote = \<lparr>search = (\<lambda>lg q. Inr []), create = (\<lambda>lg q. Inr (100 + int (length lg)))\<rparr>"

definition example_wa :: wa_client where
  "example_wa =
     \<lparr>IsLoggedIn = True, IsConnected = True, SendMessage = (\<lambda>h jid t. Inr ''3EB0C1''),
      Download = (\<lambda>kind part. Inr ''bytes'')\<rparr>"

definition failing_wa :: wa_client where
  "failing_wa =
     \<lparr>IsLoggedIn = True, IsConnected = True, SendMessage = (\<lambda>h jid t. Inl ''context canceled''),
      Download = (\<lambda>kind part. Inl ''context canceled'')\<rparr>"

definition example_info :: "string \<Rightarrow> MessageInfo" where
  "example_info ident =
     \<lparr>Info_ID = ident, Info_Sender = ''5511999999999@s.whatsapp.net'',
      Info_Chat = ''5511999999999@s.whatsapp.net'', Info_IsGroup = False, Info_IsFromMe = False,
      Info_PushName = ''Ana''\<rparr>"

definition no_content :: WAMessage where
  "no_content =
     \<lparr>Conversation = None, ExtendedTextMessage = None, ProtocolMessage = None,
      ReactionMessage = None, PollCreationMessage = None, PollUpdateMessage = None,
      KeepInChatMessage = None, ImageMessage = None, VideoMessage = None, AudioMessage = None,
      DocumentMessage = None, StickerMessage = None\<rparr>"

definition text_event :: "string \<Rightarrow> string \<Rightarrow> Message_event" where
  "text_event ident t = \<lparr>Info = example_info ident, Message = no_content\<lparr>Conversation := Some t\<rparr>\<rparr>"

definition reaction_event :: "string \<Rightarrow> Message_event" where
  "reaction_event ident =
     \<lparr>Info = example_info ident, Message = no_content\<lparr>ReactionMessage := Some ()\<rparr>\<rparr>"

definition empty_event :: "string \<Rightarrow> Message_event" where
  "empty_event ident = \<lparr>Info = example_info ident, Message = no_content\<rparr>"

definition sticker_event :: "string \<Rightarrow> Message_event" where
  "sticker_event ident =
     \<lparr>Info = example_info ident,
      Message = no_content\<lparr>StickerMessage :=
                  Some \<lparr>Mimetype = ''image/webp'', Caption = [], FileName = []\<rparr>\<rparr>\<rparr>"

text \<open>
  The handler's side of the example: the server state of tenant \<open>u1\<close> (token \<open>tok\<close>),
  the webhook of an agent's reply to the example chat, the same webhook for a tenant whose
  sends fail, and the event with which WhatsApp echoes the sent reply back.
\<close>

definition example_server :: server where
  "example_server =
     \<lparr>store = example_db, userinfocache = Map.empty, clientManager = [''u1'' \<mapsto> example_wa],
      messageDedupeCache = Map.empty, sends = []\<rparr>"

definition failing_server :: server where
  "failing_server = example_server\<lparr>clientManager := [''u1'' \<mapsto> failing_wa]\<rparr>"

definition agent_reply :: ChatwootWebhookPayload where
  "agent_reply =
     \<lparr>Event = ''message_created'', MessageType = ''outgoing'', payload_ID = 55,
      Content = ''How can I help?'', Private = False, Conversation_ID = 100,
      Conversation_Status = ''open'', Meta_Sender_ID = 101,
      Meta_Sender_Identifier = ''5511999999999@s.whatsapp.net'',
      Meta_Sender_PhoneNumber = ''+5511999999999'',
      Conversation_Messages = [\<lparr>msg_ID = 55, SourceID = [], Attachments = []\<rparr>],
      Inbox_ID = 7, Inbox_Name = ''Wuzapi Inbox'', Sender_Name = ''Agent'',
      Sender_AvailableName = ''Agent''\<rparr>"

definition agent_request :: request where
  "agent_request = \<lparr>path_token = ''tok'', query_token = [], decoded = Some agent_reply\<rparr>"

definition bridged_request :: request where
  "bridged_request =
     \<lparr>path_token = ''tok'', query_token = [],
      decoded = Some (agent_reply\<lparr>Conversation_Messages :=
                        [\<lparr>msg_ID = 55, SourceID = ''WAID:M1'', Attachments = []\<rparr>]\<rparr>)\<rparr>"

definition echo_event :: Message_event where
  "echo_event =
     \<lparr>Info = (example_info ''3EB0C1'')\<lparr>Info_IsFromMe := True\<rparr>,
      Message = no_content\<lparr>Conversation := Some ''How can I help?''\<rparr>\<rparr>"

text \<open>
  A store whose configuration for \<open>u1\<close> has the four-character token \<open>abcd\<close>.
\<close>

definition short_token_db :: database where
  "short_token_db =
     example_db\<lparr>chatwoot_config := [''u1'' \<mapsto> example_config\<lparr>Token := ''abcd''\<rparr>]\<rparr>"

section \<open>Notions used to state the properties\<close>

text \<open>
  The remote calls that create a message, and those that create a conversation; an event
  with something to forward (not noise, and with text or an image, a video, an audio or a
  document); \<open>N\<close> sequential calls of \<open>ensureConversation\<close>.
\<close>

fun is_message_creation :: "remote_call \<Rightarrow> bool" where
  "is_message_creation (MessagesCreate acct conv mt txt priv sid) = True"
| "is_message_creation (MessagesCreateMedia acct conv mt cap sid fname data) = True"
| "is_message_creation q = False"

definition message_creations :: "remote_call list \<Rightarrow> nat" where
  "message_creations lg = length (filter is_message_creation lg)"

fun is_conversation_creation :: "remote_call \<Rightarrow> bool" where
  "is_conversation_creation (ConversationsCreate acct contact inbox sid st) = True"
| "is_conversation_creation q = False"

definition conversation_creations :: "remote_call list \<Rightarrow> nat" where
  "conversation_creations lg = length (filter is_conversation_creation lg)"

text \<open>
  What a message carries, read off its fields: one of the five kinds the noise filter
  names, a text (a non-empty plain text or a non-empty extended text), or a medium that is
  forwarded (an image, a video, an audio or a document).
\<close>

definition noise_kind :: "WAMessage \<Rightarrow> bool" where
  "noise_kind m =
     (ProtocolMessage m \<noteq> None \<or> ReactionMessage m \<noteq> None \<or> PollCreationMessage m \<noteq> None \<or>
      PollUpdateMessage m \<noteq> None \<or> KeepInChatMessage m \<noteq> None)"

definition carries_text :: "WAMessage \<Rightarrow> bool" where
  "carries_text m =
     ((case Conversation m of None \<Rightarrow> False | Some t \<Rightarrow> t \<noteq> []) \<or>
      (case ExtendedTextMessage m of
         None \<Rightarrow> False | Some None \<Rightarrow> False | Some (Some t) \<Rightarrow> t \<noteq> []))"

definition carries_media :: "WAMessage \<Rightarrow> bool" where
  "carries_media m =
     (ImageMessage m \<noteq> None \<or> VideoMessage m \<noteq> None \<or> AudioMessage m \<noteq> None \<or>
      DocumentMessage m \<noteq> None)"

text \<open>
  The identifiers of the sends that succeeded, in a log of sends.
\<close>

fun sent_ids :: "send_record list \<Rightarrow> string list" where
  "sent_ids [] = []"
| "sent_ids ((jid, t, Inl err) # xs) = sent_ids xs"
| "sent_ids ((jid, t, Inr ident) # xs) = ident # sent_ids xs"

fun ensureConversation_times ::
  "nat \<Rightarrow> remote \<Rightarrow> string \<Rightarrow> Client \<Rightarrow> Config \<Rightarrow> int \<Rightarrow> string \<Rightarrow> Service \<times> remote_call list
     \<Rightarrow> (go_error + int) list \<times> (Service \<times> remote_call list)" where
  "ensureConversation_times 0 R userID client config contactID chatJID st = ([], st)"
| "ensureConversation_times (Suc n) R userID client config contactID chatJID st =
     (let first = ensureConversation R userID client config contactID chatJID st;
          others = ensureConversation_times n R userID client config contactID chatJID (snd first)
      in (fst first # fst others, snd others))"

text \<open>
  A logged send that ended with a message id, and the sends a run of the handler added to
  the log.
\<close>

definition send_ok :: "send_record \<Rightarrow> bool" where
  "send_ok x = (case snd (snd x) of Inl err \<Rightarrow> False | Inr ident \<Rightarrow> True)"

definition new_sends :: "server \<Rightarrow> server \<Rightarrow> send_record list" where
  "new_sends sv sv' = drop (length (sends sv)) (sends sv')"

definition success_response :: response where
  "success_response = respondJSON 200 [(''status'', ''success'')]"

text \<open>
  The attempts of a delivery are the posts of its trace. An answer is a failure when it is
  a transport error or a status outside 200..299, and \<open>response_error\<close> is the error the
  loop keeps for it.
\<close>

fun is_post :: "hook_event \<Rightarrow> bool" where
  "is_post (Post i req) = True"
| "is_post (Sleep d) = False"

definition attempts :: "hook_event list \<Rightarrow> nat" where
  "attempts tr = length (filter is_post tr)"

fun failure :: "hook_response \<Rightarrow> bool" where
  "failure (TransportError e) = True"
| "failure (Status status_code response_body) = (status_code < 200 \<or> status_code \<ge> 300)"

fun response_error :: "hook_response \<Rightarrow> go_error" where
  "response_error (TransportError e) = Errorf e"
| "response_error (Status status_code response_body) = status_error status_code response_body"

text \<open>
  The state of the retry loop after attempt \<open>attempt\<close> has been made and has failed: the
  sleep (from the second attempt on) and the post are in the trace, the request's body is
  kept, and the last error is the one of the target's answer.
\<close>

definition attempt_request ::
  "(body_value \<Rightarrow> hook_request \<times> body_value) \<Rightarrow> hook_state \<Rightarrow> hook_request" where
  "attempt_request build st = fst (build (hook_body st))"

definition attempt_failed ::
  "(nat \<Rightarrow> hook_request \<Rightarrow> hook_response) \<Rightarrow> flags \<Rightarrow> (body_value \<Rightarrow> hook_request \<times> body_value)
     \<Rightarrow> int \<Rightarrow> hook_state \<Rightarrow> hook_state" where
  "attempt_failed post F build attempt st =
     st\<lparr>hook_body := snd (build (hook_body st)),
        trace := trace st @ (if attempt > 0 then [Sleep (delayDuration F attempt)] else []) @
                   [Post (nat attempt) (attempt_request build st)],
        lastError := Some (response_error (post (nat attempt) (attempt_request build st)))\<rparr>"

text \<open>
  The base delay of the backoff, \<^verbatim>\<open>time.Duration(*webhookRetryDelaySeconds) * time.Second\<close>.
\<close>

definition baseDelay :: "flags \<Rightarrow> 64 word" where
  "baseDelay F = word_of_int (webhookRetryDelaySeconds F) * 1000000000"

text \<open>
  A target that answers every request with the same status and body, the flags of three
  attempts two seconds apart (and the same count with retries disabled), an environment
  in form mode around such a target, and an idle queue connection.
\<close>

definition always_status :: "int \<Rightarrow> string \<Rightarrow> nat \<Rightarrow> hook_request \<Rightarrow> hook_response" where
  "always_status status_code response_body i req = Status status_code response_body"

definition three_attempts :: flags where
  "three_attempts =
     \<lparr>webhookRetryEnabled = True, webhookRetryCount = 3, webhookRetryDelaySeconds = 2,
      webhookErrorQueueName = ''webhook_errors''\<rparr>"

definition retry_disabled :: flags where
  "retry_disabled = three_attempts\<lparr>webhookRetryEnabled := False\<rparr>"

definition form_env :: "(nat \<Rightarrow> hook_request \<Rightarrow> hook_response) \<Rightarrow> hook_env" where
  "form_env t =
     \<lparr>WEBHOOK_FORMAT = [], target = t, json_Unmarshal = (\<lambda>text_in. None),
      json_Marshal = (\<lambda>b. Some ''{}''), form_Encode = (\<lambda>m. []),
      decryptHMACKey = (\<lambda>k. Inl ''encryption key not configured''),
      hmac_sha256 = (\<lambda>k m. [])\<rparr>"

definition idle_rabbit :: rabbit where
  "idle_rabbit =
     \<lparr>rabbitEnabled = True, rabbitQueue = ''whatsapp_events'', declare_failure = None,
      publish_failure = None, marshal = (\<lambda>letter. Some ''{}''), published = []\<rparr>"

definition message_payload :: "string \<rightharpoonup> string" where
  "message_payload = [''type'' \<mapsto> ''Message'']"

section \<open>Properties of the inbound path\<close>

lemma is_panic_wrap [simp]: "is_panic (wrap m e) = is_panic e"
  by (cases e) auto

lemma api_result_not_panic: "api_result r = Inl e \<Longrightarrow> \<not> is_panic e"
  by (auto simp: api_result_def split: sum.splits)

lemma FindContactByPhone_not_panic:
  "phone \<noteq> [] \<Longrightarrow> fst (FindContactByPhone R c phone lg) = Inl e \<Longrightarrow> \<not> is_panic e"
  by (auto simp: FindContactByPhone_def Let_def split: sum.splits list.splits)

lemma CreateContact_not_panic:
  "fst (CreateContact R c i n p idf a lg) = Inl e \<Longrightarrow> \<not> is_panic e"
  by (auto simp: CreateContact_def Let_def dest: api_result_not_panic)

lemma ensureContact_not_panic:
  assumes "phone \<noteq> []" and "fst (ensureContact R c cfg phone n idf lg) = Inl e"
  shows "\<not> is_panic e"
proof (cases "FindContactByPhone R c phone lg")
  case (Pair r lg1)
  show ?thesis
  proof (cases r)
    case (Inr a)
    with Pair assms show ?thesis by (simp add: ensureContact_def)
  next
    case (Inl e0)
    with Pair assms(1) have np: "\<not> is_panic e0"
      using FindContactByPhone_not_panic[of phone R c lg e0] by simp
    show ?thesis
    proof (cases "CreateContact R c (InboxID_Int64 cfg) n phone idf [] lg1")
      case (Pair r2 lg2)
      with \<open>FindContactByPhone R c phone lg = (r, lg1)\<close> Inl np assms(2)
      show ?thesis
        using CreateContact_not_panic[of R c "InboxID_Int64 cfg" n phone idf "[]" lg1]
        by (cases e0; cases r2) (auto simp: ensureContact_def Let_def split: if_splits)
    qed
  qed
qed

lemma ensureConversation_not_panic:
  "fst (ensureConversation R u c cfg cid chat st) = Inl e \<Longrightarrow> \<not> is_panic e"
  by (auto simp: ensureConversation_def Let_def get_conversation_def CreateConversation_def
        api_result_def
      split: option.splits sum.splits if_splits prod.splits)

lemma sendMediaMessage_not_panic:
  "fst (sendMediaMessage R c wa evt conv mt sid mime cap kind lg) = Some e \<Longrightarrow> \<not> is_panic e"
  by (auto simp: sendMediaMessage_def Let_def SendMediaMessage_def api_result_def
      split: option.splits sum.splits if_splits prod.splits)

lemma sendMessageToChatwoot_not_panic:
  "fst (sendMessageToChatwoot R c wa evt conv mt lg) = Some e \<Longrightarrow> \<not> is_panic e"
  by (auto simp: sendMessageToChatwoot_def Let_def CreateMessage_def api_result_def
      dest: sendMediaMessage_not_panic
      split: option.splits sum.splits if_splits prod.splits)

lemma formatToE164_nonempty: "formatToE164 p \<noteq> []"
  by (simp add: formatToE164_def)

lemma ensureContact_pair_not_panic:
  "ensureContact R c cfg (formatToE164 p) n idf lg = (Inl e, lg') \<Longrightarrow> \<not> is_panic e"
  using ensureContact_not_panic[of "formatToE164 p" R c cfg n idf lg e] formatToE164_nonempty[of p]
  by simp

lemma ensureConversation_pair_not_panic:
  "ensureConversation R u c cfg cid chat st = (Inl e, st') \<Longrightarrow> \<not> is_panic e"
  using ensureConversation_not_panic[of R u c cfg cid chat st e] by simp

lemma sendMessageToChatwoot_pair_not_panic:
  "sendMessageToChatwoot R c wa evt conv mt lg = (Some e, lg') \<Longrightarrow> \<not> is_panic e"
  using sendMessageToChatwoot_not_panic[of R c wa evt conv mt lg e] by simp

lemma HandleIncomingMessage_not_panic:
  assumes "fst (HandleIncomingMessage R wa now userID evt st) = Some e"
  shows "\<not> is_panic e"
  using assms
  by (auto simp: HandleIncomingMessage_def Let_def getConfig_def LoadOrStore_def
      dest: ensureContact_pair_not_panic ensureConversation_pair_not_panic
            sendMessageToChatwoot_pair_not_panic
      split: prod.splits if_splits sum.splits option.splits)

lemma HandleIncomingMessage_skip:
  assumes "shouldSkipMessage evt"
  shows "HandleIncomingMessage R wa now userID evt (s, lg) =
           (None,
            (if dedupeCache s (Info_ID (Info evt)) = None
             then s\<lparr>dedupeCache := (dedupeCache s)(Info_ID (Info evt) \<mapsto> now)\<rparr> else s,
             lg))"
  using assms
  by (auto simp: HandleIncomingMessage_def LoadOrStore_def Let_def split: option.splits)

text \<open>
  Claim C8. For a message event that is a protocol message, a reaction, a poll creation, a
  poll update, a keep-in-chat marker, or that carries neither text nor one of the media
  kinds image, video, audio, document and sticker, \<open>HandleIncomingMessage\<close> returns nil
  and makes no remote call: the log of remote calls is the one it started with, and the
  store and the conversation cache are unchanged.
\<close>

theorem noise_filter_no_remote_call:
  assumes "ProtocolMessage (Message evt) \<noteq> None \<or> ReactionMessage (Message evt) \<noteq> None \<or>
           PollCreationMessage (Message evt) \<noteq> None \<or> PollUpdateMessage (Message evt) \<noteq> None \<or>
           KeepInChatMessage (Message evt) \<noteq> None \<or>
           (GetConversation (Message evt) = [] \<and> GetExtendedText (Message evt) = [] \<and>
            ImageMessage (Message evt) = None \<and> VideoMessage (Message evt) = None \<and>
            AudioMessage (Message evt) = None \<and> DocumentMessage (Message evt) = None \<and>
            StickerMessage (Message evt) = None)"
  shows "fst (HandleIncomingMessage R waClient now userID evt (s, lg)) = None \<and>
         snd (snd (HandleIncomingMessage R waClient now userID evt (s, lg))) = lg \<and>
         db (fst (snd (HandleIncomingMessage R waClient now userID evt (s, lg)))) = db s \<and>
         conversationCache (fst (snd (HandleIncomingMessage R waClient now userID evt (s, lg)))) =
           conversationCache s"
proof -
  from assms have "shouldSkipMessage evt"
    by (auto simp: shouldSkipMessage_def Let_def)
  then show ?thesis
    by (simp add: HandleIncomingMessage_skip)
qed

text \<open>
  The theorem at a reaction and at a message without content, on the example tenant.
\<close>

theorem noise_filter_no_remote_call_witness:
  "ReactionMessage (Message (reaction_event ''A1'')) \<noteq> None \<and>
   fst (HandleIncomingMessage example_remote example_wa 5 ''u1'' (reaction_event ''A1'')
          (NewService example_db, [])) = None \<and>
   snd (snd (HandleIncomingMessage example_remote example_wa 5 ''u1'' (reaction_event ''A1'')
          (NewService example_db, []))) = [] \<and>
   GetConversation (Message (empty_event ''A2'')) = [] \<and>
   fst (HandleIncomingMessage example_remote example_wa 5 ''u1'' (empty_event ''A2'')
          (NewService example_db, [])) = None \<and>
   snd (snd (HandleIncomingMessage example_remote example_wa 5 ''u1'' (empty_event ''A2'')
          (NewService example_db, []))) = []"
proof -
  have r: "ReactionMessage (Message (reaction_event ''A1'')) \<noteq> None"
    by (simp add: reaction_event_def no_content_def)
  have e: "GetConversation (Message (empty_event ''A2'')) = [] \<and>
           GetExtendedText (Message (empty_event ''A2'')) = [] \<and>
           ImageMessage (Message (empty_event ''A2'')) = None \<and>
           VideoMessage (Message (empty_event ''A2'')) = None \<and>
           AudioMessage (Message (empty_event ''A2'')) = None \<and>
           DocumentMessage (Message (empty_event ''A2'')) = None \<and>
           StickerMessage (Message (empty_event ''A2'')) = None"
    by (simp add: empty_event_def no_content_def GetConversation_def GetExtendedText_def)
  from r e
    noise_filter_no_remote_call[of "reaction_event ''A1''" example_remote example_wa 5 "''u1''"
      "NewService example_db" "[]"]
    noise_filter_no_remote_call[of "empty_event ''A2''" example_remote example_wa 5 "''u1''"
      "NewService example_db" "[]"]
  show ?thesis by simp
qed

text \<open>
  Claim C10. \<open>FindContactByPhone\<close> reads the first byte of its argument without testing
  for emptiness: on the empty string it panics (index out of range) before any request is
  made, on a non-empty string it never does. \<open>formatToE164\<close> always returns a string
  that starts with \<open>+\<close>, and this is what the inbound path passes, so
  \<open>HandleIncomingMessage\<close> never panics.
\<close>

theorem FindContactByPhone_precondition:
  "fst (FindContactByPhone R c [] lg) = Inl (Panic ''index out of range [0] with length 0'') \<and>
   snd (FindContactByPhone R c [] lg) = lg \<and>
   (phone \<noteq> [] \<longrightarrow> (\<forall>m. fst (FindContactByPhone R c phone lg) \<noteq> Inl (Panic m))) \<and>
   formatToE164 p \<noteq> [] \<and> hd (formatToE164 p) = CHR ''+'' \<and>
   (\<forall>m. fst (HandleIncomingMessage R waClient now userID evt st) \<noteq> Some (Panic m))"
proof -
  have a: "fst (FindContactByPhone R c [] lg) = Inl (Panic ''index out of range [0] with length 0'')"
    "snd (FindContactByPhone R c [] lg) = lg"
    by (simp_all add: FindContactByPhone_def)
  have b: "phone \<noteq> [] \<longrightarrow> (\<forall>m. fst (FindContactByPhone R c phone lg) \<noteq> Inl (Panic m))"
    using FindContactByPhone_not_panic[of phone R c lg] by fastforce
  have d: "formatToE164 p \<noteq> [] \<and> hd (formatToE164 p) = CHR ''+''"
    by (simp add: formatToE164_def)
  have e: "\<forall>m. fst (HandleIncomingMessage R waClient now userID evt st) \<noteq> Some (Panic m)"
    using HandleIncomingMessage_not_panic[of R waClient now userID evt st] by fastforce
  from a b d e show ?thesis by blast
qed

text \<open>
  The theorem at the phone number of the example chat.
\<close>

theorem FindContactByPhone_precondition_witness:
  "''+5511999999999'' \<noteq> [] \<and>
   fst (FindContactByPhone example_remote (NewClient example_config) ''+5511999999999'' []) =
     Inl (Errorf ''contact not found: +5511999999999'') \<and>
   formatToE164 ''55 11 99999-9999'' = ''+5511999999999'' \<and>
   fst (FindContactByPhone example_remote (NewClient example_config) [] []) =
     Inl (Panic ''index out of range [0] with length 0'')"
proof -
  have "fst (FindContactByPhone example_remote (NewClient example_config) ''+5511999999999'' []) =
     Inl (Errorf ''contact not found: +5511999999999'')"
    by (simp add: FindContactByPhone_def example_remote_def plus_prefixed_def)
  moreover have "formatToE164 ''55 11 99999-9999'' = ''+5511999999999''"
    by (simp add: formatToE164_def TrimPrefix_def HasPrefix_def isDigit_def)
  ultimately show ?thesis
    using FindContactByPhone_precondition[of example_remote "NewClient example_config" "[]"
        "''+5511999999999''" "''55 11 99999-9999''" example_wa 0 "''u1''" "empty_event ''A2''"
        "(NewService example_db, [])"]
    by simp
qed

lemma message_creations_append [simp]:
  "message_creations (a @ b) = message_creations a + message_creations b"
  by (simp add: message_creations_def)

lemma message_creations_Nil [simp]: "message_creations [] = 0"
  by (simp add: message_creations_def)

lemma message_creations_Cons [simp]:
  "message_creations (q # lg) = (if is_message_creation q then 1 else 0) + message_creations lg"
  by (simp add: message_creations_def)

lemma FindContactByPhone_creations [simp]:
  "message_creations (snd (FindContactByPhone R c phone lg)) = message_creations lg"
  by (simp add: FindContactByPhone_def Let_def split: sum.splits list.splits)

lemma CreateContact_creations [simp]:
  "message_creations (snd (CreateContact R c i n p idf a lg)) = message_creations lg"
  by (simp add: CreateContact_def Let_def)

lemma CreateConversation_creations [simp]:
  "message_creations (snd (CreateConversation R c cid i sid pend lg)) = message_creations lg"
  by (simp add: CreateConversation_def Let_def)

lemma CreateMessage_creations [simp]:
  "message_creations (snd (CreateMessage R c conv mt txt priv sid lg)) = message_creations lg + 1"
  by (simp add: CreateMessage_def Let_def)

lemma SendMediaMessage_creations [simp]:
  "message_creations (snd (SendMediaMessage R c conv mt data fname mime cap sid lg)) =
     message_creations lg + 1"
  by (simp add: SendMediaMessage_def Let_def)

lemma ensureContact_creations [simp]:
  "message_creations (snd (ensureContact R c cfg phone n idf lg)) = message_creations lg"
  by (simp add: ensureContact_def Let_def case_prod_beta split: sum.splits go_error.splits)

lemma ensureConversation_creations [simp]:
  "message_creations (snd (snd (ensureConversation R u c cfg cid chat (s, lg)))) = message_creations lg"
  by (simp add: ensureConversation_def Let_def case_prod_beta split: option.splits sum.splits)

lemma ensureConversation_dedupeCache [simp]:
  "dedupeCache (fst (snd (ensureConversation R u c cfg cid chat (s, lg)))) = dedupeCache s"
  by (simp add: ensureConversation_def Let_def case_prod_beta split: option.splits sum.splits)

lemma sendMediaMessage_creations_le:
  "message_creations (snd (sendMediaMessage R c wa evt conv mt sid mime cap kind lg))
     \<le> Suc (message_creations lg)"
  by (simp add: sendMediaMessage_def Let_def case_prod_beta split: sum.splits)

lemma sendMediaMessage_creations_eq:
  assumes "fst (sendMediaMessage R c wa evt conv mt sid mime cap kind lg) = None"
  shows "message_creations (snd (sendMediaMessage R c wa evt conv mt sid mime cap kind lg))
     = Suc (message_creations lg)"
  using assms
  by (cases "supported_media kind")
     (simp_all add: sendMediaMessage_def Let_def case_prod_beta split: sum.splits)

lemma sendMessageToChatwoot_creations_le:
  "message_creations (snd (sendMessageToChatwoot R c wa evt conv mt lg)) \<le> Suc (message_creations lg)"
  by (simp add: sendMessageToChatwoot_def Let_def case_prod_beta sendMediaMessage_creations_le
      split: option.splits sum.splits)

lemma sendMessageToChatwoot_one_creation:
  assumes "fst (sendMessageToChatwoot R c wa evt conv mt lg) = None"
      and "textContent (Message evt) \<noteq> [] \<or> ImageMessage (Message evt) \<noteq> None \<or>
       VideoMessage (Message evt) \<noteq> None \<or> AudioMessage (Message evt) \<noteq> None \<or>
       DocumentMessage (Message evt) \<noteq> None"
  shows "message_creations (snd (sendMessageToChatwoot R c wa evt conv mt lg)) = Suc (message_creations lg)"
  using assms
  by (auto simp add: sendMessageToChatwoot_def Let_def case_prod_beta sendMediaMessage_creations_eq
      split: option.splits sum.splits)

lemma HandleIncomingMessage_loaded:
  "dedupeCache s (Info_ID (Info evt)) = Some t \<Longrightarrow>
   HandleIncomingMessage R wa now userID evt (s, lg) = (None, (s, lg))"
  by (simp add: HandleIncomingMessage_def LoadOrStore_def)

lemma cleanup_pass_lookup:
  "cleanup_pass now cache k =
     (case cache k of None \<Rightarrow> None
      | Some t \<Rightarrow> if now - t > 30 * Minute then None else Some t)"
  by (simp add: cleanup_pass_def)

lemma cleanupDedupeCache_lookup:
  "dedupeCache (cleanupDedupeCache ticks s) k =
     (case dedupeCache s k of
        None \<Rightarrow> None
      | Some t \<Rightarrow> if \<exists>tick \<in> set ticks. tick - t > 30 * Minute then None else Some t)"
  by (induction ticks arbitrary: s) (auto simp: cleanup_pass_lookup split: option.splits)

lemma cleanupDedupeCache_other:
  "db (cleanupDedupeCache ticks s) = db s"
  "conversationCache (cleanupDedupeCache ticks s) = conversationCache s"
  by (induction ticks arbitrary: s) auto


lemma send_creations_le_via:
  "message_creations lg' = n \<Longrightarrow>
   message_creations (snd (sendMessageToChatwoot R c wa evt conv mt lg')) \<le> Suc n"
  using sendMessageToChatwoot_creations_le[of R c wa evt conv mt lg'] by simp

lemma send_one_creation_via:
  "message_creations lg' = n \<Longrightarrow> fst (sendMessageToChatwoot R c wa evt conv mt lg') = None \<Longrightarrow>
   textContent (Message evt) \<noteq> [] \<or> ImageMessage (Message evt) \<noteq> None \<or>
       VideoMessage (Message evt) \<noteq> None \<or> AudioMessage (Message evt) \<noteq> None \<or>
       DocumentMessage (Message evt) \<noteq> None \<Longrightarrow>
   message_creations (snd (sendMessageToChatwoot R c wa evt conv mt lg')) = Suc n"
  using sendMessageToChatwoot_one_creation[of R c wa evt conv mt lg'] by simp

lemma HandleIncomingMessage_creations_le:
  "message_creations (snd (snd (HandleIncomingMessage R wa now userID evt (s, lg))))
     \<le> Suc (message_creations lg)"
  by (simp add: HandleIncomingMessage_def Let_def case_prod_beta LoadOrStore_def
        send_creations_le_via
      split: option.splits sum.splits)

lemma HandleIncomingMessage_stamps:
  assumes "dedupeCache s (Info_ID (Info evt)) = None"
  shows "dedupeCache (fst (snd (HandleIncomingMessage R wa now userID evt (s, lg))))
           = (dedupeCache s)(Info_ID (Info evt) \<mapsto> now)"
  using assms
  by (simp add: HandleIncomingMessage_def Let_def case_prod_beta LoadOrStore_def
      split: option.splits sum.splits)

lemmas example_defs = example_config_def example_db_def example_remote_def example_wa_def
  example_info_def no_content_def text_event_def reaction_event_def empty_event_def NewService_def

lemmas inbound_defs = HandleIncomingMessage_def LoadOrStore_def shouldSkipMessage_def
  GetConversation_def GetExtendedText_def getConfig_def NewClient_def senderJID_of_def
  contactName_of_def msgType_of_def SplitFirst_def formatToE164_def TrimPrefix_def HasPrefix_def
  isDigit_def ensureContact_def FindContactByPhone_def plus_prefixed_def InboxID_Int64_def
  CreateContact_def containsString_def api_result_def ensureConversation_def cacheKey_def
  get_conversation_def CreateConversation_def insert_conversation_def sendMessageToChatwoot_def
  textContent_def CreateMessage_def

text \<open>
  The first contact of the specification's scenario: one contact search (a miss), one
  contact creation, one conversation creation and one message creation with the content
  \<open>Hello\<close> and the type \<open>incoming\<close>.
\<close>

lemma first_contact_log:
  "snd (snd (HandleIncomingMessage example_remote example_wa 0 ''u1'' (text_event ''M1'' ''Hello'')
     (NewService example_db, []))) =
   [ContactsSearch ''1'' ''+5511999999999'',
    ContactsCreate ''1'' 7 ''Ana'' ''5511999999999@s.whatsapp.net'' ''+5511999999999'' [],
    ConversationsCreate ''1'' 101 7 ''wa:5511999999999@s.whatsapp.net'' [],
    MessagesCreate ''1'' 102 ''incoming'' ''Hello'' False ''WAID:M1'']"
  by (simp add: example_defs inbound_defs Let_def)

lemma first_contact_result:
  "fst (HandleIncomingMessage example_remote example_wa 0 ''u1'' (text_event ''M1'' ''Hello'')
     (NewService example_db, [])) = None"
  by (simp add: example_defs inbound_defs Let_def)

text \<open>
  Claim C3, as amended. \<open>HandleIncomingMessage\<close> treats an identifier as already
  processed exactly while it is present in the dedup guard, whatever its age: when present
  the call returns nil and changes nothing, when absent the identifier is stamped with the
  time of the call and processing goes on. A cleanup pass at time \<open>tick\<close> removes the
  entries older than 30 minutes (\<open>tick - t > 30 * Minute\<close>) and keeps every other entry;
  the passes are 10 minutes apart. So an identifier aged past 30 minutes is removed by the
  next cleanup pass, and is eligible for reprocessing from that pass on.
\<close>

theorem dedup_presence_and_expiry:
  "(dedupeCache s (Info_ID (Info evt)) \<noteq> None \<longrightarrow>
      HandleIncomingMessage R wa now userID evt (s, lg) = (None, (s, lg))) \<and>
   (dedupeCache s (Info_ID (Info evt)) = None \<longrightarrow>
      dedupeCache (fst (snd (HandleIncomingMessage R wa now userID evt (s, lg))))
        (Info_ID (Info evt)) = Some now) \<and>
   (dedupeCache s k = Some t \<and> tick - t > 30 * Minute \<longrightarrow>
      dedupeCache (cleanupDedupeCache [tick] s) k = None) \<and>
   (dedupeCache s k = Some t \<and> tick - t \<le> 30 * Minute \<longrightarrow>
      dedupeCache (cleanupDedupeCache [tick] s) k = Some t) \<and>
   (dedupeCache s k = None \<longrightarrow> dedupeCache (cleanupDedupeCache [tick] s) k = None) \<and>
   ticker_interval = 10 * Minute"
proof -
  have a: "dedupeCache s (Info_ID (Info evt)) \<noteq> None \<longrightarrow>
      HandleIncomingMessage R wa now userID evt (s, lg) = (None, (s, lg))"
    using HandleIncomingMessage_loaded[of s evt _ R wa now userID lg] by auto
  have b: "dedupeCache s (Info_ID (Info evt)) = None \<longrightarrow>
      dedupeCache (fst (snd (HandleIncomingMessage R wa now userID evt (s, lg))))
        (Info_ID (Info evt)) = Some now"
    using HandleIncomingMessage_stamps[of s evt R wa now userID lg] by simp
  have c: "dedupeCache s k = Some t \<and> tick - t > 30 * Minute \<longrightarrow>
      dedupeCache (cleanupDedupeCache [tick] s) k = None"
    by (simp add: cleanup_pass_lookup)
  have d: "dedupeCache s k = Some t \<and> tick - t \<le> 30 * Minute \<longrightarrow>
      dedupeCache (cleanupDedupeCache [tick] s) k = Some t"
    by (simp add: cleanup_pass_lookup)
  have e: "dedupeCache s k = None \<longrightarrow> dedupeCache (cleanupDedupeCache [tick] s) k = None"
    by (simp add: cleanup_pass_lookup)
  from a b c d e show ?thesis by (simp add: ticker_interval_def)
qed

text \<open>
  The theorem at an entry stamped at time 0: a delivery after 31 minutes is still skipped,
  the pass after 30 minutes keeps the entry, the pass after 40 minutes removes it, and a
  delivery after 41 minutes stamps the identifier anew.
\<close>

theorem dedup_presence_and_expiry_witness:
  "dedupeCache ((NewService example_db)\<lparr>dedupeCache := [''M1'' \<mapsto> 0]\<rparr>) ''M1'' = Some 0 \<and>
   HandleIncomingMessage example_remote example_wa (31 * Minute) ''u1'' (text_event ''M1'' ''Hello'')
     ((NewService example_db)\<lparr>dedupeCache := [''M1'' \<mapsto> 0]\<rparr>, []) =
     (None, ((NewService example_db)\<lparr>dedupeCache := [''M1'' \<mapsto> 0]\<rparr>, [])) \<and>
   30 * Minute - 0 \<le> 30 * Minute \<and>
   dedupeCache (cleanupDedupeCache [30 * Minute]
      ((NewService example_db)\<lparr>dedupeCache := [''M1'' \<mapsto> 0]\<rparr>)) ''M1'' = Some 0 \<and>
   40 * Minute - 0 > 30 * Minute \<and>
   dedupeCache (cleanupDedupeCache [40 * Minute]
      ((NewService example_db)\<lparr>dedupeCache := [''M1'' \<mapsto> 0]\<rparr>)) ''M1'' = None \<and>
   dedupeCache (fst (snd (HandleIncomingMessage example_remote example_wa (41 * Minute) ''u1''
      (text_event ''M1'' ''Hello'')
      (cleanupDedupeCache [40 * Minute]
         ((NewService example_db)\<lparr>dedupeCache := [''M1'' \<mapsto> 0]\<rparr>), [])))) ''M1'' =
     Some (41 * Minute)"
proof -
  let ?s = "(NewService example_db)\<lparr>dedupeCache := [''M1'' \<mapsto> 0]\<rparr>"
  let ?evt = "text_event ''M1'' ''Hello''"
  have ident: "Info_ID (Info ?evt) = ''M1''"
    by (simp add: text_event_def example_info_def)
  have present: "dedupeCache ?s ''M1'' = Some 0"
    by simp
  have young: "30 * Minute - 0 \<le> 30 * Minute"
    by simp
  have old: "40 * Minute - 0 > 30 * Minute"
    by (simp add: Minute_def)
  from present young old ident
    dedup_presence_and_expiry[of ?s ?evt example_remote example_wa "31 * Minute" "''u1''" "[]"
      "''M1''" 0 "40 * Minute"]
    dedup_presence_and_expiry[of ?s ?evt example_remote example_wa "31 * Minute" "''u1''" "[]"
      "''M1''" 0 "30 * Minute"]
    dedup_presence_and_expiry[of "cleanupDedupeCache [40 * Minute] ?s" ?evt example_remote
      example_wa "41 * Minute" "''u1''" "[]" "''M1''" 0 "40 * Minute"]
  show ?thesis by simp
qed

text \<open>
  Claim C3 as stated fails: the identifier \<open>M1\<close> is inserted at time 0 and the passes after
  10, 20 and 30 minutes keep it (at the last one it is exactly, not more than, 30 minutes
  old). A redelivery after 31 minutes finds an entry older than 30 minutes and is skipped
  all the same: it is not eligible for reprocessing before the pass after 40 minutes.
\<close>

theorem dedup_expiry_counterexample:
  "dedupeCache
     (cleanupDedupeCache [10 * Minute, 20 * Minute, 30 * Minute]
        (fst (snd (HandleIncomingMessage example_remote example_wa 0 ''u1''
                     (text_event ''M1'' ''Hello'') (NewService example_db, []))))) ''M1'' = Some 0 \<and>
   31 * Minute - 0 > 30 * Minute \<and>
   HandleIncomingMessage example_remote example_wa (31 * Minute) ''u1'' (text_event ''M1'' ''Hello'')
     (cleanupDedupeCache [10 * Minute, 20 * Minute, 30 * Minute]
        (fst (snd (HandleIncomingMessage example_remote example_wa 0 ''u1''
                     (text_event ''M1'' ''Hello'') (NewService example_db, [])))),
      snd (snd (HandleIncomingMessage example_remote example_wa 0 ''u1''
                     (text_event ''M1'' ''Hello'') (NewService example_db, [])))) =
     (None,
      (cleanupDedupeCache [10 * Minute, 20 * Minute, 30 * Minute]
        (fst (snd (HandleIncomingMessage example_remote example_wa 0 ''u1''
                     (text_event ''M1'' ''Hello'') (NewService example_db, [])))),
      snd (snd (HandleIncomingMessage example_remote example_wa 0 ''u1''
                     (text_event ''M1'' ''Hello'') (NewService example_db, [])))))"
proof -
  let ?evt = "text_event ''M1'' ''Hello''"
  let ?run = "HandleIncomingMessage example_remote example_wa 0 ''u1'' ?evt (NewService example_db, [])"
  let ?s2 = "cleanupDedupeCache [10 * Minute, 20 * Minute, 30 * Minute] (fst (snd ?run))"
  have ident: "Info_ID (Info ?evt) = ''M1''"
    by (simp add: text_event_def example_info_def)
  have "dedupeCache (NewService example_db) (Info_ID (Info ?evt)) = None"
    by (simp add: NewService_def)
  then have "dedupeCache (fst (snd ?run)) = (dedupeCache (NewService example_db))(''M1'' \<mapsto> 0)"
    using HandleIncomingMessage_stamps[of "NewService example_db" ?evt example_remote example_wa 0
        "''u1''" "[]"] ident by simp
  then have kept: "dedupeCache ?s2 ''M1'' = Some 0"
    by (simp add: cleanup_pass_lookup Minute_def)
  then have "dedupeCache ?s2 (Info_ID (Info ?evt)) = Some 0"
    using ident by simp
  then have "HandleIncomingMessage example_remote example_wa (31 * Minute) ''u1'' ?evt
               (?s2, snd (snd ?run)) = (None, (?s2, snd (snd ?run)))"
    by (rule HandleIncomingMessage_loaded)
  moreover have "31 * Minute - 0 > 30 * Minute"
    by (simp add: Minute_def)
  ultimately show ?thesis using kept by simp
qed

lemma ensureConversation_memory_hit:
  "conversationCache s (cacheKey userID chatJID) = Some cid \<Longrightarrow>
   ensureConversation R userID c cfg contactID chatJID (s, lg) = (Inr cid, (s, lg))"
  by (simp add: ensureConversation_def)

lemma ensureConversation_store_hit:
  assumes "conversationCache s (cacheKey userID chatJID) = None"
      and "get_failure (db s) = None"
      and "chatwoot_conversations (db s) (userID, chatJID) = Some row"
  shows "ensureConversation R userID c cfg contactID chatJID (s, lg) =
           (Inr (ChatwootConversationID row),
            (s\<lparr>conversationCache :=
                 (conversationCache s)(cacheKey userID chatJID \<mapsto> ChatwootConversationID row)\<rparr>, lg))"
  using assms by (simp add: ensureConversation_def get_conversation_def)

lemma ensureConversation_creates:
  assumes "conversationCache s (cacheKey userID chatJID) = None"
      and "get_failure (db s) = None"
      and "chatwoot_conversations (db s) (userID, chatJID) = None"
      and "create R lg (ConversationsCreate (accountID c) contactID (InboxID_Int64 cfg)
              (''wa:'' @ chatJID) (if ConversationPending cfg then ''pending'' else [])) = Inr cid"
  shows "ensureConversation R userID c cfg contactID chatJID (s, lg) =
           (Inr cid,
            (s\<lparr>db := snd (insert_conversation (db s) userID chatJID cid contactID (InboxID_Int64 cfg)),
               conversationCache := (conversationCache s)(cacheKey userID chatJID \<mapsto> cid)\<rparr>,
             lg @ [ConversationsCreate (accountID c) contactID (InboxID_Int64 cfg)
                     (''wa:'' @ chatJID) (if ConversationPending cfg then ''pending'' else [])]))"
  using assms
  by (simp add: ensureConversation_def get_conversation_def CreateConversation_def api_result_def
        Let_def)

lemma ensureConversation_times_memory:
  "conversationCache s (cacheKey userID chatJID) = Some cid \<Longrightarrow>
   ensureConversation_times n R userID c cfg contactID chatJID (s, lg) =
     (replicate n (Inr cid), (s, lg))"
  by (induction n) (simp_all add: ensureConversation_memory_hit Let_def)

lemma conversation_creations_snoc [simp]:
  "conversation_creations (lg @ [q]) =
     conversation_creations lg + (if is_conversation_creation q then 1 else 0)"
  by (simp add: conversation_creations_def)

text \<open>
  Claim C9. A (tenant, chat) pair has no conversation in the memory cache and none in the
  store, the store answers, and the remote creation succeeds with the identifier \<open>cid\<close>.
  Then \<open>N = Suc n\<close> sequential calls of \<open>ensureConversation\<close> all return \<open>cid\<close> and
  make exactly one remote call between them, the creation of the conversation. Every
  later call (with any client, configuration and contact) is answered from the memory
  cache: it returns \<open>cid\<close> and changes neither the service nor the log. After a restart
  (a new service on the same store, its memory cache empty), and provided the store took
  the insertion, the call is answered from the store: it returns \<open>cid\<close>, fills the memory
  cache and makes no remote call.
\<close>

theorem conversation_created_once:
  assumes memory_miss: "conversationCache s (cacheKey userID chatJID) = None"
      and store_miss: "chatwoot_conversations (db s) (userID, chatJID) = None"
      and store_up: "get_failure (db s) = None"
      and created: "create R lg (ConversationsCreate (accountID c) contactID (InboxID_Int64 cfg)
              (''wa:'' @ chatJID) (if ConversationPending cfg then ''pending'' else [])) = Inr cid"
      and after: "after = snd (ensureConversation_times (Suc n) R userID c cfg contactID chatJID (s, lg))"
  shows "fst (ensureConversation_times (Suc n) R userID c cfg contactID chatJID (s, lg)) =
           replicate (Suc n) (Inr cid) \<and>
         snd after = lg @ [ConversationsCreate (accountID c) contactID (InboxID_Int64 cfg)
              (''wa:'' @ chatJID) (if ConversationPending cfg then ''pending'' else [])] \<and>
         conversation_creations (snd after) = Suc (conversation_creations lg) \<and>
         conversationCache (fst after) (cacheKey userID chatJID) = Some cid \<and>
         ensureConversation R' userID c' cfg' contactID' chatJID (fst after, lg') =
           (Inr cid, (fst after, lg')) \<and>
         (exec_failure (db s) = None \<longrightarrow>
            ensureConversation R' userID c' cfg' contactID' chatJID (NewService (db (fst after)), lg') =
              (Inr cid,
               ((NewService (db (fst after)))\<lparr>conversationCache := [cacheKey userID chatJID \<mapsto> cid]\<rparr>,
                lg')))"
proof -
  let ?q = "ConversationsCreate (accountID c) contactID (InboxID_Int64 cfg)
              (''wa:'' @ chatJID) (if ConversationPending cfg then ''pending'' else [])"
  let ?s1 = "s\<lparr>db := snd (insert_conversation (db s) userID chatJID cid contactID (InboxID_Int64 cfg)),
               conversationCache := (conversationCache s)(cacheKey userID chatJID \<mapsto> cid)\<rparr>"
  have first: "ensureConversation R userID c cfg contactID chatJID (s, lg) = (Inr cid, (?s1, lg @ [?q]))"
    using ensureConversation_creates[OF memory_miss store_up store_miss created] .
  have cached: "conversationCache ?s1 (cacheKey userID chatJID) = Some cid"
    by simp
  have rest: "ensureConversation_times n R userID c cfg contactID chatJID (?s1, lg @ [?q]) =
     (replicate n (Inr cid), (?s1, lg @ [?q]))"
    using ensureConversation_times_memory[OF cached] .
  have all: "ensureConversation_times (Suc n) R userID c cfg contactID chatJID (s, lg) =
     (replicate (Suc n) (Inr cid), (?s1, lg @ [?q]))"
    using first rest by (simp add: Let_def)
  then have aft: "after = (?s1, lg @ [?q])"
    using after by simp
  have hit: "ensureConversation R' userID c' cfg' contactID' chatJID (fst after, lg') =
           (Inr cid, (fst after, lg'))"
    using aft cached by (simp add: ensureConversation_memory_hit)
  have restart: "ensureConversation R' userID c' cfg' contactID' chatJID (NewService (db (fst after)), lg') =
              (Inr cid,
               ((NewService (db (fst after)))\<lparr>conversationCache := [cacheKey userID chatJID \<mapsto> cid]\<rparr>,
                lg'))" if "exec_failure (db s) = None"
  proof -
    have row: "chatwoot_conversations (db (fst after)) (userID, chatJID) =
                 Some \<lparr>ChatwootConversationID = cid, ChatwootContactID = contactID,
                       ChatwootInboxID = InboxID_Int64 cfg\<rparr>"
      using aft that store_miss by (simp add: insert_conversation_def)
    have up: "get_failure (db (fst after)) = None"
      using aft that store_miss store_up by (simp add: insert_conversation_def)
    have empty: "conversationCache (NewService (db (fst after))) (cacheKey userID chatJID) = None"
      by (simp add: NewService_def)
    have dbeq: "db (NewService (db (fst after))) = db (fst after)"
      by (simp add: NewService_def)
    show ?thesis
      using ensureConversation_store_hit[of "NewService (db (fst after))" userID chatJID _ R' c' cfg'
          contactID' lg', OF empty] up row dbeq
      by (simp add: NewService_def)
  qed
  from all aft hit restart cached show ?thesis
    by simp
qed

text \<open>
  The theorem at the example tenant and chat, for three calls and a restart.
\<close>

theorem conversation_created_once_witness:
  "conversationCache (NewService example_db) (cacheKey ''u1'' ''5511999999999@s.whatsapp.net'') = None \<and>
   chatwoot_conversations (db (NewService example_db)) (''u1'', ''5511999999999@s.whatsapp.net'') = None \<and>
   get_failure (db (NewService example_db)) = None \<and>
   exec_failure (db (NewService example_db)) = None \<and>
   create example_remote []
     (ConversationsCreate ''1'' 101 7 ''wa:5511999999999@s.whatsapp.net'' []) = Inr 100 \<and>
   fst (ensureConversation_times (Suc 2) example_remote ''u1'' (NewClient example_config) example_config 101
          ''5511999999999@s.whatsapp.net'' (NewService example_db, [])) =
     replicate (Suc 2) (Inr 100) \<and>
   snd (snd (ensureConversation_times (Suc 2) example_remote ''u1'' (NewClient example_config)
          example_config 101 ''5511999999999@s.whatsapp.net'' (NewService example_db, []))) =
     [ConversationsCreate ''1'' 101 7 ''wa:5511999999999@s.whatsapp.net'' []] \<and>
   fst (ensureConversation example_remote ''u1'' (NewClient example_config) example_config 101
          ''5511999999999@s.whatsapp.net''
          (NewService (db (fst (snd (ensureConversation_times (Suc 2) example_remote ''u1''
              (NewClient example_config) example_config 101 ''5511999999999@s.whatsapp.net''
              (NewService example_db, []))))),
           [ConversationsCreate ''1'' 101 7 ''wa:5511999999999@s.whatsapp.net'' []])) = Inr 100 \<and>
   snd (snd (ensureConversation example_remote ''u1'' (NewClient example_config) example_config 101
          ''5511999999999@s.whatsapp.net''
          (NewService (db (fst (snd (ensureConversation_times (Suc 2) example_remote ''u1''
              (NewClient example_config) example_config 101 ''5511999999999@s.whatsapp.net''
              (NewService example_db, []))))),
           [ConversationsCreate ''1'' 101 7 ''wa:5511999999999@s.whatsapp.net'' []]))) =
     [ConversationsCreate ''1'' 101 7 ''wa:5511999999999@s.whatsapp.net'' []]"
proof -
  let ?chat = "''5511999999999@s.whatsapp.net''"
  let ?c = "NewClient example_config"
  let ?q = "ConversationsCreate ''1'' 101 7 ''wa:5511999999999@s.whatsapp.net'' []"
  have q: "ConversationsCreate (accountID ?c) 101 (InboxID_Int64 example_config) (''wa:'' @ ?chat)
             (if ConversationPending example_config then ''pending'' else []) = ?q"
    by (simp add: NewClient_def example_config_def InboxID_Int64_def)
  have m: "conversationCache (NewService example_db) (cacheKey ''u1'' ?chat) = None"
    by (simp add: NewService_def)
  have st: "chatwoot_conversations (db (NewService example_db)) (''u1'', ?chat) = None"
    by (simp add: NewService_def example_db_def)
  have up: "get_failure (db (NewService example_db)) = None"
    by (simp add: NewService_def example_db_def)
  have ex: "exec_failure (db (NewService example_db)) = None"
    by (simp add: NewService_def example_db_def)
  have cr: "create example_remote [] ?q = Inr 100"
    by (simp add: example_remote_def)
  have cr': "create example_remote []
               (ConversationsCreate (accountID ?c) 101 (InboxID_Int64 example_config) (''wa:'' @ ?chat)
                  (if ConversationPending example_config then ''pending'' else [])) = Inr 100"
    using cr q by simp
  from conversation_created_once[OF m st up cr' refl, of 2 example_remote ?c example_config 101 "[?q]"]
    m st up ex cr q
  show ?thesis
    by simp
qed

lemma send_attachments_extends:
  "\<exists>new. sends (snd (send_attachments wa jid txt atts sv)) = sends sv @ new \<and>
         (atts \<noteq> [] \<longrightarrow> new \<noteq> []) \<and>
         (fst (send_attachments wa jid txt atts sv) \<longrightarrow> (\<forall>x \<in> set new. send_ok x)) \<and>
         (\<not> fst (send_attachments wa jid txt atts sv) \<longrightarrow> (\<exists>x \<in> set new. \<not> send_ok x))"
proof (induction atts arbitrary: sv)
  case Nil
  then show ?case by simp
next
  case (Cons a atts)
  let ?cap = "attachment_caption txt a"
  let ?ans = "SendMessage wa (sends sv) jid ?cap"
  let ?sv1 = "sv\<lparr>sends := sends sv @ [(jid, ?cap, ?ans)]\<rparr>"
  show ?case
  proof (cases ?ans)
    case (Inl err)
    then have "send_attachments wa jid txt (a # atts) sv = (False, ?sv1)"
      by (simp add: Let_def)
    moreover have "\<not> send_ok (jid, ?cap, ?ans)"
      using Inl by (simp add: send_ok_def)
    ultimately show ?thesis by simp
  next
    case (Inr ident)
    let ?sv2 = "?sv1\<lparr>messageDedupeCache := (messageDedupeCache ?sv1)(ident \<mapsto> True)\<rparr>"
    have step: "send_attachments wa jid txt (a # atts) sv = send_attachments wa jid txt atts ?sv2"
      using Inr by (simp add: Let_def)
    have ok: "send_ok (jid, ?cap, ?ans)"
      using Inr by (simp add: send_ok_def)
    from Cons.IH[of ?sv2] obtain new where
      n: "sends (snd (send_attachments wa jid txt atts ?sv2)) = sends ?sv2 @ new"
      "fst (send_attachments wa jid txt atts ?sv2) \<longrightarrow> (\<forall>x \<in> set new. send_ok x)"
      "\<not> fst (send_attachments wa jid txt atts ?sv2) \<longrightarrow> (\<exists>x \<in> set new. \<not> send_ok x)"
      by blast
    have "sends (snd (send_attachments wa jid txt (a # atts) sv)) =
            sends sv @ ((jid, ?cap, ?ans) # new)"
      using step n(1) by simp
    moreover have "fst (send_attachments wa jid txt (a # atts) sv) \<longrightarrow>
            (\<forall>x \<in> set ((jid, ?cap, ?ans) # new). send_ok x)"
      using step n(2) ok by simp
    moreover have "\<not> fst (send_attachments wa jid txt (a # atts) sv) \<longrightarrow>
            (\<exists>x \<in> set ((jid, ?cap, ?ans) # new). \<not> send_ok x)"
      using step n(3) by simp
    ultimately show ?thesis by blast
  qed
qed

lemma new_sends_append [simp]: "sends sv' = sends sv @ new \<Longrightarrow> new_sends sv sv' = new"
  by (simp add: new_sends_def)

lemma new_sends_same [simp]: "new_sends sv sv = []"
  by (simp add: new_sends_def)

lemma new_sends_store [simp]: "new_sends sv (sv\<lparr>store := d\<rparr>) = []"
  by (simp add: new_sends_def)

lemma triggering_message_attachments:
  "triggering_message payload = Some msg \<Longrightarrow> Attachments msg \<noteq> []"
  by (auto simp: triggering_message_def find_Some_iff)

lemma send_to_whatsapp_sends:
  "\<exists>new. sends (snd (send_to_whatsapp wa jid payload sv1)) = sends sv1 @ new \<and>
         (fst (send_to_whatsapp wa jid payload sv1) = success_response \<longrightarrow>
            (\<forall>x \<in> set new. send_ok x) \<and>
            (Content payload \<noteq> [] \<or> triggering_message payload \<noteq> None \<longrightarrow> new \<noteq> [])) \<and>
         ((\<exists>x \<in> set new. \<not> send_ok x) \<longrightarrow> code (fst (send_to_whatsapp wa jid payload sv1)) = 500)"
proof (cases "triggering_message payload")
  case (Some msg)
  from send_attachments_extends[of wa jid "Content payload" "Attachments msg" sv1]
  obtain new where
    n: "sends (snd (send_attachments wa jid (Content payload) (Attachments msg) sv1)) = sends sv1 @ new"
    "Attachments msg \<noteq> [] \<longrightarrow> new \<noteq> []"
    "fst (send_attachments wa jid (Content payload) (Attachments msg) sv1) \<longrightarrow>
       (\<forall>x \<in> set new. send_ok x)"
    "\<not> fst (send_attachments wa jid (Content payload) (Attachments msg) sv1) \<longrightarrow>
       (\<exists>x \<in> set new. \<not> send_ok x)"
    by blast
  have ne: "new \<noteq> []"
    using n(2) triggering_message_attachments[OF Some] by simp
  show ?thesis
  proof (cases "fst (send_attachments wa jid (Content payload) (Attachments msg) sv1)")
    case True
    then have "send_to_whatsapp wa jid payload sv1 =
       (success_response, snd (send_attachments wa jid (Content payload) (Attachments msg) sv1))"
      using Some by (simp add: send_to_whatsapp_def success_response_def case_prod_beta)
    then show ?thesis using n True ne by auto
  next
    case False
    then have "send_to_whatsapp wa jid payload sv1 =
       (respondJSON 500 [(''error'', ''failed to send media'')],
        snd (send_attachments wa jid (Content payload) (Attachments msg) sv1))"
      using Some by (simp add: send_to_whatsapp_def case_prod_beta)
    then show ?thesis using n False
      by (auto simp: respondJSON_def success_response_def)
  qed
next
  case None
  show ?thesis
  proof (cases "Content payload = []")
    case True
    then show ?thesis using None
      by (simp add: send_to_whatsapp_def success_response_def)
  next
    case False
    show ?thesis
    proof (cases "SendMessage wa (sends sv1) jid (Content payload)")
      case (Inl err)
      then show ?thesis using None False
        by (simp add: send_to_whatsapp_def Let_def respondJSON_def success_response_def send_ok_def)
    next
      case (Inr ident)
      then show ?thesis using None False
        by (simp add: send_to_whatsapp_def Let_def respondJSON_def success_response_def send_ok_def)
    qed
  qed
qed

lemma HandleChatwootWebhook_cases:
  "(snd (HandleChatwootWebhook r sv) = sv \<and> fst (HandleChatwootWebhook r sv) \<noteq> success_response) \<or>
   (\<exists>d. snd (HandleChatwootWebhook r sv) = sv\<lparr>store := d\<rparr> \<and>
         fst (HandleChatwootWebhook r sv) \<noteq> success_response) \<or>
   (\<exists>wa jid payload d. decoded r = Some payload \<and>
      HandleChatwootWebhook r sv = send_to_whatsapp wa jid payload (sv\<lparr>store := d\<rparr>))"
proof -
  define tok where "tok = (if path_token r = [] then query_token r else path_token r)"
  show ?thesis
  proof (cases "tok = []")
    case True
    then show ?thesis
      by (simp add: HandleChatwootWebhook_def tok_def[symmetric] respondJSON_def success_response_def)
  next
    case nonempty: False
    show ?thesis
    proof (cases "find_user sv tok")
      case None
      with nonempty show ?thesis
        by (simp add: HandleChatwootWebhook_def tok_def[symmetric] respondJSON_def
              success_response_def)
    next
      case (Some userID)
      show ?thesis
      proof (cases "decoded r")
        case None
        with nonempty Some show ?thesis
          by (simp add: HandleChatwootWebhook_def tok_def[symmetric] respondJSON_def
                success_response_def)
      next
        case payload: (Some payload)
        define sv1 where "sv1 = (if Conversation_ID payload > 0
                         then sv\<lparr>store := snd (StoreConversationFromWebhook (store sv) userID
                                  (NewJID_String (destination payload)) (Conversation_ID payload)
                                  (Meta_Sender_ID payload) (Inbox_ID payload))\<rparr>
                         else sv)"
        have sv1: "\<exists>d. sv1 = sv\<lparr>store := d\<rparr>"
        proof (cases "Conversation_ID payload > 0")
          case True
          then show ?thesis unfolding sv1_def by auto
        next
          case False
          then have "sv1 = sv\<lparr>store := store sv\<rparr>" unfolding sv1_def by simp
          then show ?thesis by blast
        qed
        then obtain d where d: "sv1 = sv\<lparr>store := d\<rparr>" by blast
        have unfold: "HandleChatwootWebhook r sv =
          (if Event payload \<noteq> ''message_created''
          then (respondJSON 200 [(''status'', ''ignored''), (''reason'', ''not message_created'')], sv)
          else if MessageType payload \<noteq> ''outgoing''
          then (respondJSON 200 [(''status'', ''ignored''), (''reason'', ''not outgoing'')], sv)
          else if Private payload
          then (respondJSON 200 [(''status'', ''ignored''), (''reason'', ''private note'')], sv)
          else if loop_prevention payload
          then (respondJSON 200 [(''status'', ''ignored''), (''reason'', ''loop prevention'')], sv)
          else if destination payload = [] then (respondJSON 400 [(''error'', ''no destination'')], sv)
          else
              case clientManager sv1 userID of
                None \<Rightarrow> (respondJSON 503 [(''error'', ''whatsapp client not ready'')], sv1)
              | Some waClient \<Rightarrow>
                  if \<not> IsLoggedIn waClient
                  then (respondJSON 503 [(''error'', ''whatsapp not logged in'')], sv1)
                  else if \<not> IsConnected waClient
                  then (respondJSON 503 [(''error'', ''whatsapp disconnected'')], sv1)
                  else send_to_whatsapp waClient (NewJID_String (destination payload)) payload sv1)"
          using nonempty Some payload
          unfolding sv1_def
          by (simp add: HandleChatwootWebhook_def tok_def[symmetric] Let_def
                split del: if_split cong: if_cong)
        show ?thesis
          unfolding unfold using d payload
          by (auto simp: respondJSON_def success_response_def split: option.splits)
      qed
    qed
  qed
qed

text \<open>
  Claim C6, as amended, for the handler of handlers\_chatwoot.go. The sends of a run are in
  the state the handler returns with its response, so they are complete when it responds.
  If the response is 200 with status \<open>success\<close>, every send of the run ended with a
  message id, and at least one send was made when the payload has a text or a triggering
  message with attachments. If a send of the run failed, the response is 500.
\<close>

theorem webhook_success_after_send:
  "sends (snd (HandleChatwootWebhook r sv)) =
     sends sv @ new_sends sv (snd (HandleChatwootWebhook r sv)) \<and>
   (fst (HandleChatwootWebhook r sv) = success_response \<longrightarrow>
      (\<forall>x \<in> set (new_sends sv (snd (HandleChatwootWebhook r sv))). send_ok x) \<and>
      (\<forall>payload. decoded r = Some payload \<and>
           (Content payload \<noteq> [] \<or> triggering_message payload \<noteq> None) \<longrightarrow>
           new_sends sv (snd (HandleChatwootWebhook r sv)) \<noteq> [])) \<and>
   ((\<exists>x \<in> set (new_sends sv (snd (HandleChatwootWebhook r sv))). \<not> send_ok x) \<longrightarrow>
      code (fst (HandleChatwootWebhook r sv)) = 500)"
proof -
  consider
    (early) "snd (HandleChatwootWebhook r sv) = sv"
            "fst (HandleChatwootWebhook r sv) \<noteq> success_response"
  | (stored) d where "snd (HandleChatwootWebhook r sv) = sv\<lparr>store := d\<rparr>"
            "fst (HandleChatwootWebhook r sv) \<noteq> success_response"
  | (sent) wa jid payload d where "decoded r = Some payload"
            "HandleChatwootWebhook r sv = send_to_whatsapp wa jid payload (sv\<lparr>store := d\<rparr>)"
    using HandleChatwootWebhook_cases[of r sv] by blast
  then show ?thesis
  proof cases
    case early
    then show ?thesis by simp
  next
    case stored
    then show ?thesis by simp
  next
    case sent
    from send_to_whatsapp_sends[of wa jid payload "sv\<lparr>store := d\<rparr>"]
    obtain new where
      n: "sends (snd (send_to_whatsapp wa jid payload (sv\<lparr>store := d\<rparr>))) = sends sv @ new"
      "fst (send_to_whatsapp wa jid payload (sv\<lparr>store := d\<rparr>)) = success_response \<longrightarrow>
            (\<forall>x \<in> set new. send_ok x) \<and>
            (Content payload \<noteq> [] \<or> triggering_message payload \<noteq> None \<longrightarrow> new \<noteq> [])"
      "(\<exists>x \<in> set new. \<not> send_ok x) \<longrightarrow>
         code (fst (send_to_whatsapp wa jid payload (sv\<lparr>store := d\<rparr>))) = 500"
      by auto
    have ns: "new_sends sv (snd (HandleChatwootWebhook r sv)) = new"
      using n(1) sent(2) by simp
    show ?thesis
      using n sent ns by auto
  qed
qed

lemmas handler_defs = HandleChatwootWebhook_def find_user_def loop_prevention_def destination_def
  NewJID_String_def StoreConversationFromWebhook_def send_to_whatsapp_def triggering_message_def
  respondJSON_def success_response_def HasPrefix_def TrimPrefix_def SplitFirst_def

lemmas handler_examples = example_server_def failing_server_def agent_reply_def agent_request_def
  bridged_request_def example_db_def example_wa_def failing_wa_def example_config_def

lemma agent_request_sent:
  "fst (HandleChatwootWebhook agent_request example_server) = success_response"
  "sends (snd (HandleChatwootWebhook agent_request example_server)) =
     [(''5511999999999@s.whatsapp.net'', ''How can I help?'', Inr ''3EB0C1'')]"
  "messageDedupeCache (snd (HandleChatwootWebhook agent_request example_server)) ''3EB0C1'' = Some True"
  "chatwoot_conversations (store (snd (HandleChatwootWebhook agent_request example_server)))
     (''u1'', ''5511999999999@s.whatsapp.net'') =
     Some \<lparr>ChatwootConversationID = 100, ChatwootContactID = 101, ChatwootInboxID = 7\<rparr>"
  by (simp_all add: handler_defs handler_examples Let_def)

lemma agent_request_failed:
  "fst (HandleChatwootWebhook agent_request failing_server) =
     respondJSON 500 [(''error'', ''failed to send message'')]"
  "sends (snd (HandleChatwootWebhook agent_request failing_server)) =
     [(''5511999999999@s.whatsapp.net'', ''How can I help?'', Inl ''context canceled'')]"
  by (simp_all add: handler_defs handler_examples Let_def)

text \<open>
  The theorem at the example reply: with a working client the response is the success
  response after one successful send, with a failing client the one send fails and the
  response is 500.
\<close>

theorem webhook_success_after_send_witness:
  "fst (HandleChatwootWebhook agent_request example_server) = success_response \<and>
   decoded agent_request = Some agent_reply \<and> Content agent_reply \<noteq> [] \<and>
   new_sends example_server (snd (HandleChatwootWebhook agent_request example_server)) =
     [(''5511999999999@s.whatsapp.net'', ''How can I help?'', Inr ''3EB0C1'')] \<and>
   send_ok (''5511999999999@s.whatsapp.net'', ''How can I help?'', Inr ''3EB0C1'') \<and>
   new_sends failing_server (snd (HandleChatwootWebhook agent_request failing_server)) =
     [(''5511999999999@s.whatsapp.net'', ''How can I help?'', Inl ''context canceled'')] \<and>
   \<not> send_ok (''5511999999999@s.whatsapp.net'', ''How can I help?'', Inl ''context canceled'') \<and>
   code (fst (HandleChatwootWebhook agent_request failing_server)) = 500"
proof -
  have a: "sends example_server = []" "sends failing_server = []"
    by (simp_all add: example_server_def failing_server_def)
  have b: "decoded agent_request = Some agent_reply" "Content agent_reply \<noteq> []"
    by (simp_all add: agent_request_def agent_reply_def)
  from webhook_success_after_send[of agent_request example_server]
       webhook_success_after_send[of agent_request failing_server]
       agent_request_sent(1,2) agent_request_failed(2) a b
  show ?thesis
    by (simp add: send_ok_def new_sends_def)
qed

text \<open>
  Claim C6 as stated fails for the handler of the source file part\_001: on the example
  reply of a tenant whose sends fail it responds 200 with status \<open>success\<close>, and the send
  that its goroutine makes fails.
\<close>

theorem webhook_async_counterexample:
  "fst (HandleChatwootWebhook_async agent_request failing_server) = success_response \<and>
   (case snd (HandleChatwootWebhook_async agent_request failing_server) of
      None \<Rightarrow> False
    | Some goroutine \<Rightarrow>
        sends (goroutine failing_server) =
          [(''5511999999999@s.whatsapp.net'', ''How can I help?'', Inl ''context canceled'')])"
  by (simp add: HandleChatwootWebhook_async_def webhook_goroutine_def handler_defs handler_examples
        Let_def)



lemma maskedToken_fixed:
  "maskedToken tok = tok \<longleftrightarrow> length tok \<le> 4 \<or> (length tok = 8 \<and> take 4 tok = ''****'')"
proof (cases "length tok > 4")
  case False
  then show ?thesis by (simp add: maskedToken_def)
next
  case True
  have "(''****'' @ drop (length tok - 4) tok = tok) \<longleftrightarrow> (length tok = 8 \<and> take 4 tok = ''****'')"
  proof
    assume eq: "''****'' @ drop (length tok - 4) tok = tok"
    then have "length (''****'' @ drop (length tok - 4) tok) = length tok" by simp
    then have len: "length tok = 8" using True by simp
    from eq have "take 4 (''****'' @ drop (length tok - 4) tok) = take 4 tok" by simp
    then have "take 4 tok = ''****''" by simp
    with len show "length tok = 8 \<and> take 4 tok = ''****''" by simp
  next
    assume a: "length tok = 8 \<and> take 4 tok = ''****''"
    have "take 4 tok @ drop 4 tok = tok" by (rule append_take_drop_id)
    then have "''****'' @ drop 4 tok = tok" using a by metis
    with a show "''****'' @ drop (length tok - 4) tok = tok" by simp
  qed
  with True show ?thesis by (simp add: maskedToken_def)
qed

text \<open>
  Claim C7, as amended. For every stored configuration the read response is 200 and its
  token field is the stored token masked to its last four characters: a token longer than
  4 characters is returned as \<open>****\<close> followed by its last 4 characters, and two such
  tokens with the same last four characters give the same field, so nothing else of the
  token is revealed; a token of at most 4 characters is returned unchanged. The field
  equals the stored token exactly when the token has at most 4 characters or is itself
  \<open>****\<close> followed by four characters.
\<close>

theorem token_masked_to_last_four:
  assumes "getConfig d userID = Inr config"
  shows "code (GetChatwootConfig fmt d userID userToken base) = 200 \<and>
         (\<exists>resp. content (GetChatwootConfig fmt d userID userToken base) = ConfigJson resp \<and>
                 resp_Token resp = maskedToken (Token config)) \<and>
         (length (Token config) > 4 \<longrightarrow>
            maskedToken (Token config) = ''****'' @ drop (length (Token config) - 4) (Token config)) \<and>
         (length (Token config) \<le> 4 \<longrightarrow> maskedToken (Token config) = Token config) \<and>
         (maskedToken (Token config) = Token config \<longleftrightarrow>
            length (Token config) \<le> 4 \<or>
            (length (Token config) = 8 \<and> take 4 (Token config) = ''****'')) \<and>
         (\<forall>other. length (Token config) > 4 \<and> length other > 4 \<and>
                  drop (length other - 4) other = drop (length (Token config) - 4) (Token config) \<longrightarrow>
                  maskedToken other = maskedToken (Token config))"
proof -
  have a: "code (GetChatwootConfig fmt d userID userToken base) = 200"
    using assms by (simp add: GetChatwootConfig_def Let_def)
  have b: "\<exists>resp. content (GetChatwootConfig fmt d userID userToken base) = ConfigJson resp \<and>
                 resp_Token resp = maskedToken (Token config)"
    using assms by (simp add: GetChatwootConfig_def Let_def)
  have c: "length (Token config) > 4 \<longrightarrow>
            maskedToken (Token config) = ''****'' @ drop (length (Token config) - 4) (Token config)"
    by (simp add: maskedToken_def)
  have d: "length (Token config) \<le> 4 \<longrightarrow> maskedToken (Token config) = Token config"
    by (simp add: maskedToken_def)
  have e: "\<forall>other. length (Token config) > 4 \<and> length other > 4 \<and>
                  drop (length other - 4) other = drop (length (Token config) - 4) (Token config) \<longrightarrow>
                  maskedToken other = maskedToken (Token config)"
    by (simp add: maskedToken_def)
  from a b c d e maskedToken_fixed[of "Token config"] show ?thesis
    by blast
qed

text \<open>
  The theorem at the example configuration, whose token \<open>cw-secret-token\<close> is returned
  as \<open>****oken\<close>.
\<close>

theorem token_masked_to_last_four_witness:
  "getConfig example_db ''u1'' = Inr example_config \<and>
   Token example_config = ''cw-secret-token'' \<and>
   length (Token example_config) > 4 \<and>
   code (GetChatwootConfig (\<lambda>t. []) example_db ''u1'' ''tok'' ''https://wz.example'') = 200 \<and>
   maskedToken (Token example_config) = ''****oken'' \<and>
   maskedToken (Token example_config) \<noteq> Token example_config"
proof -
  have cfg: "getConfig example_db ''u1'' = Inr example_config"
    by (simp add: getConfig_def example_db_def)
  have tok: "Token example_config = ''cw-secret-token''"
    by (simp add: example_config_def)
  have long: "length (Token example_config) > 4"
    unfolding tok by simp
  note inst = token_masked_to_last_four[OF cfg, of "\<lambda>t. []" "''tok''" "''https://wz.example''"]
  have c: "code (GetChatwootConfig (\<lambda>t. []) example_db ''u1'' ''tok'' ''https://wz.example'') = 200"
    using inst by blast
  have m: "maskedToken (Token example_config) =
             ''****'' @ drop (length (Token example_config) - 4) (Token example_config)"
    using inst long by blast
  have m': "maskedToken (Token example_config) = ''****oken''"
    using m by (simp add: tok)
  have ne: "maskedToken (Token example_config) \<noteq> Token example_config"
    using m' by (simp add: tok)
  from cfg tok long c m' ne show ?thesis by blast
qed

text \<open>
  Claim C7 as stated fails: the stored token \<open>abcd\<close> is returned in full.
\<close>

theorem short_token_counterexample:
  "chatwoot_config short_token_db ''u1'' = Some (example_config\<lparr>Token := ''abcd''\<rparr>) \<and>
   (case content (GetChatwootConfig (\<lambda>t. []) short_token_db ''u1'' ''tok'' ''https://wz.example'') of
      ConfigJson resp \<Rightarrow> resp_Token resp = ''abcd''
    | other \<Rightarrow> False)"
proof -
  have row: "chatwoot_config short_token_db ''u1'' = Some (example_config\<lparr>Token := ''abcd''\<rparr>)"
    by (simp add: short_token_db_def)
  have up: "get_failure short_token_db = None"
    by (simp add: short_token_db_def example_db_def)
  have cfg: "getConfig short_token_db ''u1'' = Inr (example_config\<lparr>Token := ''abcd''\<rparr>)"
    using row up by (simp add: getConfig_def)
  have m: "maskedToken ''abcd'' = ''abcd''"
    by (simp add: maskedToken_def)
  show ?thesis
    using row cfg m by (simp add: GetChatwootConfig_def Let_def)
qed

section \<open>Properties of the delivery engine\<close>

text \<open>
  The retry loop, one attempt at a time: it is left when the attempts have run out, a
  failed attempt goes on to the next one (or breaks, on a status outside 200..299 with
  retries disabled), and a 2xx answer returns.
\<close>

lemma retry_loop_exit:
  "\<not> attempt < maxRetries \<Longrightarrow> retry_loop post F build maxRetries attempt st = (False, st)"
  by (subst retry_loop.simps) simp

lemma retry_loop_failed_step:
  assumes "attempt < maxRetries" and "failure (post (nat attempt) (attempt_request build st))"
  shows "retry_loop post F build maxRetries attempt st =
           (if webhookRetryEnabled F \<or>
               (\<exists>e. post (nat attempt) (attempt_request build st) = TransportError e)
            then retry_loop post F build maxRetries (attempt + 1) (attempt_failed post F build attempt st)
            else (False, attempt_failed post F build attempt st))"
proof (cases "post (nat attempt) (attempt_request build st)")
  case (TransportError e)
  then show ?thesis
    using assms(1)
    by (subst retry_loop.simps, cases "0 < attempt")
       (simp_all add: attempt_request_def attempt_failed_def Let_def)
next
  case (Status status_code response_body)
  then show ?thesis
    using assms
    by (subst retry_loop.simps, cases "0 < attempt")
       (auto simp add: attempt_request_def attempt_failed_def Let_def)
qed

lemma retry_loop_success_step:
  assumes "attempt < maxRetries" and "\<not> failure (post (nat attempt) (attempt_request build st))"
  shows "fst (retry_loop post F build maxRetries attempt st) = True \<and>
         trace (snd (retry_loop post F build maxRetries attempt st)) =
           trace st @ (if attempt > 0 then [Sleep (delayDuration F attempt)] else []) @
                [Post (nat attempt) (attempt_request build st)]"
proof (cases "post (nat attempt) (attempt_request build st)")
  case (TransportError e)
  then show ?thesis using assms by simp
next
  case (Status status_code response_body)
  then show ?thesis
    using assms
    by (subst retry_loop.simps, subst (2) retry_loop.simps, cases "0 < attempt")
       (simp_all add: attempt_request_def Let_def)
qed

lemma attempts_simps [simp]:
  "attempts [] = 0"
  "attempts (tr @ tr') = attempts tr + attempts tr'"
  "attempts (Post i req # tr) = Suc (attempts tr)"
  "attempts (Sleep d # tr) = attempts tr"
  by (simp_all add: attempts_def)

lemma attempt_failed_fields [simp]:
  "hook_body (attempt_failed post F build attempt st) = snd (build (hook_body st))"
  "lastError (attempt_failed post F build attempt st) =
     Some (response_error (post (nat attempt) (attempt_request build st)))"
  "trace (attempt_failed post F build attempt st) =
     trace st @ (if attempt > 0 then [Sleep (delayDuration F attempt)] else []) @
       [Post (nat attempt) (attempt_request build st)]"
  by (simp_all add: attempt_failed_def)

lemma retry_loop_attempts_le:
  "attempts (trace (snd (retry_loop post F build maxRetries attempt st)))
     \<le> attempts (trace st) + nat (maxRetries - attempt)"
proof (induction "nat (maxRetries - attempt)" arbitrary: attempt st)
  case 0
  then have "\<not> attempt < maxRetries" by simp
  then show ?case by (simp add: retry_loop_exit)
next
  case (Suc k)
  then have lt: "attempt < maxRetries" by simp
  from Suc(2) have k: "k = nat (maxRetries - (attempt + 1))" by simp
  show ?case
  proof (cases "failure (post (nat attempt) (attempt_request build st))")
    case False
    then show ?thesis
      using retry_loop_success_step[where post=post and build=build and st=st and attempt=attempt and maxRetries=maxRetries and F=F] lt False by simp
  next
    case True
    have ih: "attempts (trace (snd (retry_loop post F build maxRetries (attempt + 1)
                 (attempt_failed post F build attempt st))))
              \<le> attempts (trace (attempt_failed post F build attempt st)) +
                  nat (maxRetries - (attempt + 1))"
      using Suc(1)[OF k] .
    show ?thesis
      using retry_loop_failed_step[where post=post and build=build and st=st and attempt=attempt and maxRetries=maxRetries and F=F] True ih lt
      by (auto split: if_splits)
  qed
qed

lemma retry_loop_all_fail:
  assumes fail: "\<forall>i req. failure (post i req)"
      and mode: "webhookRetryEnabled F \<or> maxRetries \<le> attempt + 1"
  shows "fst (retry_loop post F build maxRetries attempt st) = False \<and>
         attempts (trace (snd (retry_loop post F build maxRetries attempt st))) =
           attempts (trace st) + nat (maxRetries - attempt) \<and>
         (attempt < maxRetries \<longrightarrow>
            (\<exists>b. trace (snd (retry_loop post F build maxRetries attempt st)) \<noteq> [] \<and>
                   last (trace (snd (retry_loop post F build maxRetries attempt st))) =
                     Post (nat (maxRetries - 1)) (fst (build b)) \<and>
                   hook_body (snd (retry_loop post F build maxRetries attempt st)) = snd (build b) \<and>
                   lastError (snd (retry_loop post F build maxRetries attempt st)) =
                     Some (response_error (post (nat (maxRetries - 1)) (fst (build b))))))"
  using mode
proof (induction "nat (maxRetries - attempt)" arbitrary: attempt st)
  case 0
  then have "\<not> attempt < maxRetries" by simp
  then show ?case by (simp add: retry_loop_exit)
next
  case (Suc k)
  then have lt: "attempt < maxRetries" by simp
  from Suc(2) have k: "k = nat (maxRetries - (attempt + 1))" by simp
  have f: "failure (post (nat attempt) (attempt_request build st))"
    using fail by simp
  let ?st' = "attempt_failed post F build attempt st"
  show ?case
  proof (cases "attempt + 1 < maxRetries")
    case more: True
    then have en: "webhookRetryEnabled F" using Suc(3) by simp
    then have step: "retry_loop post F build maxRetries attempt st =
                 retry_loop post F build maxRetries (attempt + 1) ?st'"
      using retry_loop_failed_step[where post=post and build=build and st=st and attempt=attempt and maxRetries=maxRetries and F=F] lt f by simp
    have ih: "fst (retry_loop post F build maxRetries (attempt + 1) ?st') = False \<and>
         attempts (trace (snd (retry_loop post F build maxRetries (attempt + 1) ?st'))) =
           attempts (trace ?st') + nat (maxRetries - (attempt + 1)) \<and>
         (attempt + 1 < maxRetries \<longrightarrow>
            (\<exists>b. trace (snd (retry_loop post F build maxRetries (attempt + 1) ?st')) \<noteq> [] \<and>
                   last (trace (snd (retry_loop post F build maxRetries (attempt + 1) ?st'))) =
                     Post (nat (maxRetries - 1)) (fst (build b)) \<and>
                   hook_body (snd (retry_loop post F build maxRetries (attempt + 1) ?st')) = snd (build b) \<and>
                   lastError (snd (retry_loop post F build maxRetries (attempt + 1) ?st')) =
                     Some (response_error (post (nat (maxRetries - 1)) (fst (build b))))))"
      using Suc(1)[OF k, of ?st'] en by simp
    show ?thesis
      unfolding step using ih more lt by auto
  next
    case last: False
    then have eq: "maxRetries - 1 = attempt" using lt by simp
    have "retry_loop post F build maxRetries attempt st = (False, ?st')"
      using retry_loop_failed_step[where post=post and build=build and st=st and attempt=attempt and maxRetries=maxRetries and F=F] lt f last by (simp add: retry_loop_exit)
    then show ?thesis
      using lt eq by (auto simp add: attempt_request_def)
  qed
qed

lemma build_request_body:
  "req_body (fst (build_request E myurl payload userID key b)) =
   snd (build_request E myurl payload userID key b)"
  by (simp add: build_request_def Let_def)

lemma retry_loop_disabled:
  assumes "\<not> webhookRetryEnabled F"
  shows "trace (snd (retry_loop post F build 1 0 st)) = trace st @ [Post 0 (attempt_request build st)]"
proof (cases "failure (post (nat 0) (attempt_request build st))")
  case False
  then show ?thesis
    using retry_loop_success_step[where post=post and build=build and st=st and attempt=0 and maxRetries=1 and F=F]
    by simp
next
  case True
  then show ?thesis
    using retry_loop_failed_step[where post=post and build=build and st=st and attempt=0 and maxRetries=1 and F=F] assms
    by (simp add: retry_loop_exit split: if_splits)
qed

lemma retry_loop_three_failures:
  assumes fail: "\<forall>i req. failure (post i req)" and en: "webhookRetryEnabled F"
  shows "\<exists>r0 r1 r2. trace (snd (retry_loop post F build 3 0 st)) =
           trace st @ [Post 0 r0, Sleep (baseDelay F * 2 ^ 0), Post 1 r1,
                       Sleep (baseDelay F * 2 ^ 1), Post 2 r2]"
proof -
  let ?s1 = "attempt_failed post F build 0 st"
  let ?s2 = "attempt_failed post F build 1 ?s1"
  let ?s3 = "attempt_failed post F build 2 ?s2"
  have a: "retry_loop post F build 3 0 st = retry_loop post F build 3 1 ?s1"
    using retry_loop_failed_step[where post=post and build=build and st=st and attempt=0 and maxRetries=3 and F=F]
      fail en by simp
  have b: "retry_loop post F build 3 1 ?s1 = retry_loop post F build 3 2 ?s2"
    using retry_loop_failed_step[where post=post and build=build and st="?s1" and attempt=1 and maxRetries=3 and F=F]
      fail en by simp
  have c: "retry_loop post F build 3 2 ?s2 = retry_loop post F build 3 3 ?s3"
    using retry_loop_failed_step[where post=post and build=build and st="?s2" and attempt=2 and maxRetries=3 and F=F]
      fail en by simp
  have d: "retry_loop post F build 3 3 ?s3 = (False, ?s3)"
    by (simp add: retry_loop_exit)
  show ?thesis
    unfolding a b c d
    by (simp add: delayDuration_def backoffFactor_def baseDelay_def)
qed

lemma callHookWithHmac_trace:
  "fst (callHookWithHmac E F now myurl payload userID key rb) =
   trace (snd (retry_loop (target E) F (build_request E myurl payload userID key)
                 (maxRetries_of F) 0
                 \<lparr>lastError = None, hook_body = StringMap payload, trace = []\<rparr>))"
  by (simp add: callHookWithHmac_def case_prod_beta split: bool.splits option.splits)

text \<open>
  Claim C4. A call of \<^verbatim>\<open>callHookWithHmac\<close> never posts more often than its attempt budget,
  which is 1 with retries disabled and the configured retry count with retries enabled.
  With retries disabled the call posts exactly once, whatever the target answers: the
  first answer, also one outside 200..299, ends the loop. With retries enabled and a
  target that fails every attempt, the number of posts is the configured count (none for
  a count below 1). With retries enabled, a count of 3 and such a target (one that always
  answers 500, say), the call posts three times, with no sleep before the first post, a
  sleep of the base delay times \<open>2 ^ 0\<close> before the second and of the base delay times
  \<open>2 ^ 1\<close> before the third, in 64-bit nanoseconds.
\<close>

theorem delivery_attempts_and_backoff:
  "attempts (fst (callHookWithHmac E F now myurl payload userID key rb)) \<le> nat (maxRetries_of F) \<and>
   (\<not> webhookRetryEnabled F \<longrightarrow>
      (\<exists>req. fst (callHookWithHmac E F now myurl payload userID key rb) = [Post 0 req])) \<and>
   (webhookRetryEnabled F \<and> (\<forall>i req. failure (target E i req)) \<longrightarrow>
      attempts (fst (callHookWithHmac E F now myurl payload userID key rb)) =
        nat (webhookRetryCount F)) \<and>
   (webhookRetryEnabled F \<and> webhookRetryCount F = 3 \<and> (\<forall>i req. failure (target E i req)) \<longrightarrow>
      (\<exists>r0 r1 r2. fst (callHookWithHmac E F now myurl payload userID key rb) =
          [Post 0 r0, Sleep (baseDelay F * 2 ^ 0), Post 1 r1, Sleep (baseDelay F * 2 ^ 1),
           Post 2 r2]))"
proof -
  let ?build = "build_request E myurl payload userID key"
  let ?st = "\<lparr>lastError = None, hook_body = StringMap payload, trace = []\<rparr>"
  have le: "attempts (fst (callHookWithHmac E F now myurl payload userID key rb)) \<le> nat (maxRetries_of F)"
    using retry_loop_attempts_le[of "target E" F ?build "maxRetries_of F" 0 ?st]
    by (simp add: callHookWithHmac_trace)
  have dis: "\<exists>req. fst (callHookWithHmac E F now myurl payload userID key rb) = [Post 0 req]"
    if "\<not> webhookRetryEnabled F"
    using retry_loop_disabled[OF that, of "target E" ?build ?st] that
    by (simp add: callHookWithHmac_trace maxRetries_of_def)
  have cnt: "attempts (fst (callHookWithHmac E F now myurl payload userID key rb)) =
               nat (webhookRetryCount F)"
    if "webhookRetryEnabled F" and "\<forall>i req. failure (target E i req)"
    using retry_loop_all_fail[where post="target E" and build="?build" and F=F
            and maxRetries="maxRetries_of F" and attempt=0 and st="?st"] that
    by (simp add: callHookWithHmac_trace maxRetries_of_def)
  have three: "\<exists>r0 r1 r2. fst (callHookWithHmac E F now myurl payload userID key rb) =
          [Post 0 r0, Sleep (baseDelay F * 2 ^ 0), Post 1 r1, Sleep (baseDelay F * 2 ^ 1),
           Post 2 r2]"
    if "webhookRetryEnabled F" and "webhookRetryCount F = 3" and "\<forall>i req. failure (target E i req)"
    using retry_loop_three_failures[where post="target E" and build="?build" and F=F and st="?st"] that
    by (simp add: callHookWithHmac_trace maxRetries_of_def)
  show ?thesis
    using le dis cnt three by blast
qed

text \<open>
  The theorem at a target that always answers 500, with a count of 3 and a base delay of
  two seconds: three posts, two and four seconds apart; and with retries disabled, one
  post.
\<close>

theorem delivery_attempts_and_backoff_witness:
  "attempts (fst (callHookWithHmac (form_env (always_status 500 ''boom'')) three_attempts 0
               ''https://hook.example'' message_payload ''u1'' [] idle_rabbit)) = 3 \<and>
   (\<exists>r0 r1 r2. fst (callHookWithHmac (form_env (always_status 500 ''boom'')) three_attempts 0
                       ''https://hook.example'' message_payload ''u1'' [] idle_rabbit) =
        [Post 0 r0, Sleep 2000000000, Post 1 r1, Sleep 4000000000, Post 2 r2]) \<and>
   (\<exists>req. fst (callHookWithHmac (form_env (always_status 500 ''boom'')) retry_disabled 0
                  ''https://hook.example'' message_payload ''u1'' [] idle_rabbit) = [Post 0 req])"
proof -
  let ?E = "form_env (always_status 500 ''boom'')"
  have f: "\<forall>i req. failure (target ?E i req)"
    by (simp add: form_env_def always_status_def)
  have e: "webhookRetryEnabled three_attempts" "webhookRetryCount three_attempts = 3"
    "\<not> webhookRetryEnabled retry_disabled"
    by (simp_all add: three_attempts_def retry_disabled_def)
  have b: "baseDelay three_attempts = 2000000000"
    by (simp add: baseDelay_def three_attempts_def)
  show ?thesis
    using delivery_attempts_and_backoff[of ?E three_attempts 0 "''https://hook.example''"
            message_payload "''u1''" "[]" idle_rabbit]
          delivery_attempts_and_backoff[of ?E retry_disabled 0 "''https://hook.example''"
            message_payload "''u1''" "[]" idle_rabbit]
          f e b
    by simp
qed

lemma publisher_best_effort:
  "\<not> rabbitEnabled rb \<or> declare_failure rb \<noteq> None \<or> publish_failure rb \<noteq> None \<or>
     marshal rb (DataError p) = None \<Longrightarrow> PublishDataErrorToQueue q p rb = rb"
  "\<not> rabbitEnabled rb \<or> declare_failure rb \<noteq> None \<or> publish_failure rb \<noteq> None \<or>
     marshal rb (FileError fp) = None \<Longrightarrow> PublishFileErrorToQueue q fp rb = rb"
  by (auto simp add: PublishDataErrorToQueue_def PublishFileErrorToQueue_def PublishToRabbit_def
           Let_def split: option.splits list.splits)

section \<open>Loop prevention and the echo of a sent message\<close>

lemma sent_ids_append [simp]: "sent_ids (xs @ ys) = sent_ids xs @ sent_ids ys"
  by (induction xs rule: sent_ids.induct) simp_all






text \<open>
  The suppression is the work of the entry: the handler does not write the guard of a
  service, so \<^verbatim>\<open>HandleIncomingMessage\<close> itself, on a service over the store the handler
  left, finds the identifier of the echo new and forwards the event.
\<close>

lemma echo_outside_the_entry:
  "dedupeCache (NewService (store (snd (HandleChatwootWebhook agent_request example_server))))
     ''3EB0C1'' = None \<and>
   snd (snd (HandleIncomingMessage example_remote example_wa 5 ''u1'' echo_event
     (NewService (store (snd (HandleChatwootWebhook agent_request example_server))), []))) =
   [ContactsSearch ''1'' ''+5511999999999'',
    ContactsCreate ''1'' 7 ''Ana'' ''5511999999999@s.whatsapp.net'' ''+5511999999999'' [],
    MessagesCreate ''1'' 100 ''outgoing'' ''How can I help?'' False ''WAID:3EB0C1'']"
proof -
  have st: "store (snd (HandleChatwootWebhook agent_request example_server)) =
      example_db\<lparr>chatwoot_conversations :=
               [(''u1'', ''5511999999999@s.whatsapp.net'') \<mapsto>
                \<lparr>ChatwootConversationID = 100, ChatwootContactID = 101, ChatwootInboxID = 7\<rparr>]\<rparr>"
    by (simp add: handler_defs handler_examples Let_def)
  show ?thesis
    unfolding st
    by (simp add: echo_event_def example_defs inbound_defs Let_def)
qed

section \<open>Idempotence of the inbound path\<close>

text \<open>
  The text that \<^verbatim>\<open>sendMessageToChatwoot\<close> forwards and the noise filter, in terms of the
  fields of the message.
\<close>

lemma textContent_carries_text: "textContent m \<noteq> [] \<longleftrightarrow> carries_text m"
  by (auto simp add: textContent_def carries_text_def GetConversation_def GetExtendedText_def
      split: option.splits)

lemma shouldSkipMessage_fields:
  "shouldSkipMessage evt \<longleftrightarrow>
     noise_kind (Message evt) \<or>
     (\<not> carries_text (Message evt) \<and> \<not> carries_media (Message evt) \<and>
      StickerMessage (Message evt) = None)"
  by (auto simp add: shouldSkipMessage_def noise_kind_def carries_text_def carries_media_def
        GetConversation_def GetExtendedText_def Let_def split: option.splits)

lemma HandleIncomingMessage_one_creation:
  assumes "dedupeCache s (Info_ID (Info evt)) = None"
      and "\<not> noise_kind (Message evt)"
      and "carries_text (Message evt) \<or> carries_media (Message evt)"
      and "getConfig (db s) userID = Inr config" and "Enabled config"
      and "fst (HandleIncomingMessage R wa now userID evt (s, lg)) = None"
  shows "message_creations (snd (snd (HandleIncomingMessage R wa now userID evt (s, lg))))
     = Suc (message_creations lg)"
proof -
  have skip: "\<not> shouldSkipMessage evt"
    using assms(2,3) by (auto simp add: shouldSkipMessage_fields)
  have fw: "textContent (Message evt) \<noteq> [] \<or> ImageMessage (Message evt) \<noteq> None \<or>
       VideoMessage (Message evt) \<noteq> None \<or> AudioMessage (Message evt) \<noteq> None \<or>
       DocumentMessage (Message evt) \<noteq> None"
    using assms(3) by (simp add: textContent_carries_text carries_media_def)
  show ?thesis
    using assms(1,4,5,6) skip fw
    by (auto simp add: HandleIncomingMessage_def Let_def case_prod_beta LoadOrStore_def
          send_one_creation_via
        split: option.splits sum.splits)
qed

lemma HandleIncomingMessage_nothing_to_do:
  assumes "dedupeCache s (Info_ID (Info evt)) = None"
      and "shouldSkipMessage evt \<or> getConfig (db s) userID = Inl ErrNoRows \<or>
           (\<exists>config. getConfig (db s) userID = Inr config \<and> \<not> Enabled config)"
  shows "HandleIncomingMessage R wa now userID evt (s, lg) =
           (None, (s\<lparr>dedupeCache := (dedupeCache s)(Info_ID (Info evt) \<mapsto> now)\<rparr>, lg))"
  using assms
  by (auto simp add: HandleIncomingMessage_def Let_def LoadOrStore_def)

lemma sendMessageToChatwoot_text:
  assumes "\<not> carries_media (Message evt)" and "textContent (Message evt) \<noteq> []"
  shows "snd (sendMessageToChatwoot R c wa evt conv mt lg) =
           lg @ [MessagesCreate (accountID c) conv mt (textContent (Message evt)) False
                   (''WAID:'' @ Info_ID (Info evt))]"
  using assms
  by (simp add: sendMessageToChatwoot_def carries_media_def CreateMessage_def Let_def
        case_prod_beta split: sum.splits)

lemma HandleIncomingMessage_text_call:
  assumes "dedupeCache s (Info_ID (Info evt)) = None"
      and "\<not> noise_kind (Message evt)"
      and "carries_text (Message evt)" and "\<not> carries_media (Message evt)"
      and "getConfig (db s) userID = Inr config" and "Enabled config"
      and "fst (HandleIncomingMessage R wa now userID evt (s, lg)) = None"
  shows "\<exists>conv before. snd (snd (HandleIncomingMessage R wa now userID evt (s, lg))) =
           before @ [MessagesCreate (AccountID config) conv
                       (if Info_IsFromMe (Info evt) then ''outgoing'' else ''incoming'')
                       (textContent (Message evt)) False (''WAID:'' @ Info_ID (Info evt))]"
proof -
  have skip: "\<not> shouldSkipMessage evt"
    using assms(2,3) by (auto simp add: shouldSkipMessage_fields)
  have tx: "textContent (Message evt) \<noteq> []"
    using assms(3) by (simp add: textContent_carries_text)
  show ?thesis
    using assms(1,5,6,7) skip
    by (auto simp add: HandleIncomingMessage_def Let_def case_prod_beta LoadOrStore_def
          sendMessageToChatwoot_text[OF assms(4) tx] NewClient_def msgType_of_def
        split: option.splits sum.splits)
qed

lemma textContent_plain:
  "Conversation m = Some t \<Longrightarrow> t \<noteq> [] \<Longrightarrow> textContent m = t"
  by (simp add: textContent_def GetConversation_def)

lemma textContent_extended:
  "Conversation m = None \<or> Conversation m = Some [] \<Longrightarrow> ExtendedTextMessage m = Some (Some t) \<Longrightarrow>
   textContent m = t"
  by (auto simp add: textContent_def GetConversation_def GetExtendedText_def)

text \<open>
  Claim C2, as amended. A message identifier that is new to the dedup guard is delivered
  twice, the second time after any cleanup passes that ran within 30 minutes of the first
  delivery. The first call test-and-sets the identifier (it is in the guard afterwards,
  stamped with the time of the call). The second call, whatever event carries the
  identifier, returns nil and changes nothing: the service and the log of remote calls
  are the ones the first call left. So both deliveries together make the message-creation
  calls of the first one: at most one. They make exactly one when the event is of none of
  the five noise kinds and carries a text or an image, a video, an audio or a document,
  the tenant's bridge is configured and enabled, and the first call returned nil; for a
  text without such a medium the call is the last of the log and carries the text (the
  plain text, or the extended text when there is no plain text), the type
  \<open>incoming\<close> or \<open>outgoing\<close> and the source identifier \<open>WAID:\<close> followed by the
  message identifier. They make none, and no remote call at all, when the event is noise
  (one of the five kinds, or neither text nor medium nor sticker) or the tenant has no
  configuration or a disabled one; the first call returns nil then.
\<close>

theorem inbound_dedup_idempotent:
  assumes fresh: "dedupeCache s (Info_ID (Info evt)) = None"
      and first: "HandleIncomingMessage R wa t1 userID evt (s, lg) = (r1, (s1, lg1))"
      and window: "\<forall>tick \<in> set ticks. tick - t1 \<le> 30 * Minute"
      and same: "Info_ID (Info evt') = Info_ID (Info evt)"
  shows "dedupeCache s1 (Info_ID (Info evt)) = Some t1 \<and>
         HandleIncomingMessage R' wa' t2 userID' evt' (cleanupDedupeCache ticks s1, lg1) =
           (None, (cleanupDedupeCache ticks s1, lg1)) \<and>
         message_creations lg1 \<le> Suc (message_creations lg) \<and>
         (\<not> noise_kind (Message evt) \<and>
          (carries_text (Message evt) \<or> carries_media (Message evt)) \<and>
          (\<exists>config. getConfig (db s) userID = Inr config \<and> Enabled config) \<and>
          r1 = None \<longrightarrow> message_creations lg1 = Suc (message_creations lg)) \<and>
         (noise_kind (Message evt) \<or>
          (\<not> carries_text (Message evt) \<and> \<not> carries_media (Message evt) \<and>
           StickerMessage (Message evt) = None) \<or>
          getConfig (db s) userID = Inl ErrNoRows \<or>
          (\<exists>config. getConfig (db s) userID = Inr config \<and> \<not> Enabled config)
            \<longrightarrow> r1 = None \<and> lg1 = lg) \<and>
         (\<not> noise_kind (Message evt) \<and> \<not> carries_media (Message evt) \<and>
          ((Conversation (Message evt) = Some t \<and> t \<noteq> []) \<or>
           ((Conversation (Message evt) = None \<or> Conversation (Message evt) = Some []) \<and>
            ExtendedTextMessage (Message evt) = Some (Some t) \<and> t \<noteq> [])) \<and>
          getConfig (db s) userID = Inr cfg \<and> Enabled cfg \<and> r1 = None \<longrightarrow>
            (\<exists>conv before. lg1 =
               before @ [MessagesCreate (AccountID cfg) conv
                           (if Info_IsFromMe (Info evt) then ''outgoing'' else ''incoming'')
                           t False (''WAID:'' @ Info_ID (Info evt))]))"
proof -
  have stamp: "dedupeCache s1 (Info_ID (Info evt)) = Some t1"
    using HandleIncomingMessage_stamps[OF fresh, of R wa t1 userID lg] first by simp
  have kept: "dedupeCache (cleanupDedupeCache ticks s1) (Info_ID (Info evt')) = Some t1"
    using stamp window same by (auto simp: cleanupDedupeCache_lookup)
  have second: "HandleIncomingMessage R' wa' t2 userID' evt' (cleanupDedupeCache ticks s1, lg1) =
           (None, (cleanupDedupeCache ticks s1, lg1))"
    using kept by (rule HandleIncomingMessage_loaded)
  have le: "message_creations lg1 \<le> Suc (message_creations lg)"
    using HandleIncomingMessage_creations_le[of R wa t1 userID evt s lg] first by simp
  have one: "message_creations lg1 = Suc (message_creations lg)"
    if "\<not> noise_kind (Message evt)" "carries_text (Message evt) \<or> carries_media (Message evt)"
      "getConfig (db s) userID = Inr config" "Enabled config" "r1 = None"
    for config
    using HandleIncomingMessage_one_creation[OF fresh that(1) that(2) that(3) that(4), of R wa t1 lg]
      first that(5) by simp
  have none: "r1 = None \<and> lg1 = lg"
    if "noise_kind (Message evt) \<or>
          (\<not> carries_text (Message evt) \<and> \<not> carries_media (Message evt) \<and>
           StickerMessage (Message evt) = None) \<or>
          getConfig (db s) userID = Inl ErrNoRows \<or>
          (\<exists>config. getConfig (db s) userID = Inr config \<and> \<not> Enabled config)"
  proof -
    have "shouldSkipMessage evt \<or> getConfig (db s) userID = Inl ErrNoRows \<or>
           (\<exists>config. getConfig (db s) userID = Inr config \<and> \<not> Enabled config)"
      using that by (auto simp add: shouldSkipMessage_fields)
    from HandleIncomingMessage_nothing_to_do[OF fresh this, of R wa t1 lg] first
    show ?thesis by simp
  qed
  have pin: "\<exists>conv before. lg1 =
               before @ [MessagesCreate (AccountID cfg) conv
                           (if Info_IsFromMe (Info evt) then ''outgoing'' else ''incoming'')
                           t False (''WAID:'' @ Info_ID (Info evt))]"
    if a: "\<not> noise_kind (Message evt)" "\<not> carries_media (Message evt)"
      and tx: "(Conversation (Message evt) = Some t \<and> t \<noteq> []) \<or>
           ((Conversation (Message evt) = None \<or> Conversation (Message evt) = Some []) \<and>
            ExtendedTextMessage (Message evt) = Some (Some t) \<and> t \<noteq> [])"
      and c: "getConfig (db s) userID = Inr cfg" "Enabled cfg" "r1 = None"
  proof -
    have ct: "carries_text (Message evt)"
      using tx by (auto simp add: carries_text_def)
    have tc: "textContent (Message evt) = t"
      using tx textContent_plain[of "Message evt" t] textContent_extended[of "Message evt" t]
      by blast
    from HandleIncomingMessage_text_call[OF fresh a(1) ct a(2) c(1) c(2), of R wa t1 lg] first c(3)
    show ?thesis by (simp add: tc)
  qed
  from stamp second le one none pin show ?thesis by blast
qed

text \<open>
  The theorem at the first contact of the example tenant: the text \<open>Hello\<close> is delivered
  at time 0 and again after 25 minutes, with cleanup passes after 10 and 20 minutes, and
  is created once; and at a reaction, which makes no remote call.
\<close>

theorem inbound_dedup_idempotent_witness:
  "dedupeCache (NewService example_db) (Info_ID (Info (text_event ''M1'' ''Hello''))) = None \<and>
   10 * Minute - 0 \<le> 30 * Minute \<and> 20 * Minute - 0 \<le> 30 * Minute \<and>
   fst (HandleIncomingMessage example_remote example_wa 0 ''u1'' (text_event ''M1'' ''Hello'')
          (NewService example_db, [])) = None \<and>
   message_creations
     (snd (snd (HandleIncomingMessage example_remote example_wa 0 ''u1'' (text_event ''M1'' ''Hello'')
          (NewService example_db, [])))) = 1 \<and>
   (\<exists>conv before.
      snd (snd (HandleIncomingMessage example_remote example_wa 0 ''u1'' (text_event ''M1'' ''Hello'')
          (NewService example_db, []))) =
      before @ [MessagesCreate ''1'' conv ''incoming'' ''Hello'' False ''WAID:M1'']) \<and>
   HandleIncomingMessage example_remote example_wa (25 * Minute) ''u1'' (text_event ''M1'' ''Hello'')
     (cleanupDedupeCache [10 * Minute, 20 * Minute]
        (fst (snd (HandleIncomingMessage example_remote example_wa 0 ''u1''
                     (text_event ''M1'' ''Hello'') (NewService example_db, [])))),
      snd (snd (HandleIncomingMessage example_remote example_wa 0 ''u1''
                     (text_event ''M1'' ''Hello'') (NewService example_db, [])))) =
     (None,
      (cleanupDedupeCache [10 * Minute, 20 * Minute]
        (fst (snd (HandleIncomingMessage example_remote example_wa 0 ''u1''
                     (text_event ''M1'' ''Hello'') (NewService example_db, [])))),
      snd (snd (HandleIncomingMessage example_remote example_wa 0 ''u1''
                     (text_event ''M1'' ''Hello'') (NewService example_db, []))))) \<and>
   noise_kind (Message (reaction_event ''M2'')) \<and>
   snd (snd (HandleIncomingMessage example_remote example_wa 0 ''u1'' (reaction_event ''M2'')
          (NewService example_db, []))) = []"
proof -
  let ?evt = "text_event ''M1'' ''Hello''"
  let ?run = "HandleIncomingMessage example_remote example_wa 0 ''u1'' ?evt (NewService example_db, [])"
  let ?noise = "reaction_event ''M2''"
  let ?run2 = "HandleIncomingMessage example_remote example_wa 0 ''u1'' ?noise (NewService example_db, [])"
  have fresh: "dedupeCache (NewService example_db) (Info_ID (Info ?evt)) = None"
    by (simp add: NewService_def)
  have fresh2: "dedupeCache (NewService example_db) (Info_ID (Info ?noise)) = None"
    by (simp add: NewService_def)
  have first: "?run = (fst ?run, (fst (snd ?run), snd (snd ?run)))"
    by simp
  have first2: "?run2 = (fst ?run2, (fst (snd ?run2), snd (snd ?run2)))"
    by simp
  have window: "\<forall>tick \<in> set [10 * Minute, 20 * Minute]. tick - 0 \<le> 30 * Minute"
    by (simp add: Minute_def)
  have kind: "\<not> noise_kind (Message ?evt)" "carries_text (Message ?evt)"
    "\<not> carries_media (Message ?evt)" "Conversation (Message ?evt) = Some ''Hello''"
    "\<not> Info_IsFromMe (Info ?evt)" "Info_ID (Info ?evt) = ''M1''"
    by (simp_all add: noise_kind_def carries_text_def carries_media_def text_event_def
          no_content_def example_info_def)
  have noise: "noise_kind (Message ?noise)"
    by (simp add: noise_kind_def reaction_event_def no_content_def)
  have cfg: "getConfig (db (NewService example_db)) ''u1'' = Inr example_config"
    by (simp add: getConfig_def NewService_def example_db_def)
  have en: "Enabled example_config" "AccountID example_config = ''1''"
    by (simp_all add: example_config_def)
  have ok: "fst ?run = None"
    by (rule first_contact_result)
  note text_case = inbound_dedup_idempotent[OF fresh first window refl,
      of example_remote example_wa "25 * Minute" "''u1''" "''Hello''" example_config]
  note noise_case = inbound_dedup_idempotent[OF fresh2 first2 window refl]
  have one: "message_creations (snd (snd ?run)) = 1"
    using text_case kind cfg en ok by auto
  have pin: "\<exists>conv before. snd (snd ?run) =
      before @ [MessagesCreate ''1'' conv ''incoming'' ''Hello'' False ''WAID:M1'']"
    using text_case kind cfg en ok by simp
  have second: "HandleIncomingMessage example_remote example_wa (25 * Minute) ''u1'' ?evt
     (cleanupDedupeCache [10 * Minute, 20 * Minute] (fst (snd ?run)), snd (snd ?run)) =
     (None, (cleanupDedupeCache [10 * Minute, 20 * Minute] (fst (snd ?run)), snd (snd ?run)))"
    using text_case by blast
  have zero: "snd (snd ?run2) = []"
    using noise_case noise by blast
  from fresh window ok one pin second noise zero show ?thesis by simp
qed

text \<open>
  Claim C2 as stated fails: a reaction delivered twice to the example tenant, whose bridge
  is enabled, results in no message-creation call.
\<close>

theorem noise_delivered_twice:
  "fst (HandleIncomingMessage example_remote example_wa 0 ''u1'' (reaction_event ''M2'')
          (NewService example_db, [])) = None \<and>
   fst (HandleIncomingMessage example_remote example_wa (25 * Minute) ''u1'' (reaction_event ''M2'')
          (snd (HandleIncomingMessage example_remote example_wa 0 ''u1'' (reaction_event ''M2'')
                  (NewService example_db, [])))) = None \<and>
   message_creations
     (snd (snd (HandleIncomingMessage example_remote example_wa (25 * Minute) ''u1''
                  (reaction_event ''M2'')
                  (snd (HandleIncomingMessage example_remote example_wa 0 ''u1''
                          (reaction_event ''M2'') (NewService example_db, [])))))) = 0"
proof -
  have first: "HandleIncomingMessage example_remote example_wa 0 ''u1'' (reaction_event ''M2'')
     (NewService example_db, []) =
     (None, ((NewService example_db)\<lparr>dedupeCache := [''M2'' \<mapsto> 0]\<rparr>, []))"
    by (simp add: example_defs inbound_defs Let_def)
  have second: "HandleIncomingMessage example_remote example_wa (25 * Minute) ''u1''
     (reaction_event ''M2'') ((NewService example_db)\<lparr>dedupeCache := [''M2'' \<mapsto> 0]\<rparr>, []) =
     (None, ((NewService example_db)\<lparr>dedupeCache := [''M2'' \<mapsto> 0]\<rparr>, []))"
    by (simp add: example_defs inbound_defs Let_def)
  show ?thesis
    unfolding first by (simp add: second)
qed

text \<open>
  A message that carries only a sticker passes the noise filter, and
  \<^verbatim>\<open>sendMessageToChatwoot\<close> has no branch for it: the contact and the conversation are
  created, no message is, and the call returns nil.
\<close>

lemma sticker_not_forwarded:
  "\<not> shouldSkipMessage (sticker_event ''M3'') \<and>
   HandleIncomingMessage example_remote example_wa 0 ''u1'' (sticker_event ''M3'')
     (NewService example_db, []) =
     (None,
      (\<lparr>db = example_db\<lparr>chatwoot_conversations :=
               [(''u1'', ''5511999999999@s.whatsapp.net'') \<mapsto>
                \<lparr>ChatwootConversationID = 102, ChatwootContactID = 101, ChatwootInboxID = 7\<rparr>]\<rparr>,
        dedupeCache = [''M3'' \<mapsto> 0],
        conversationCache = [''u1:5511999999999@s.whatsapp.net'' \<mapsto> 102]\<rparr>,
       [ContactsSearch ''1'' ''+5511999999999'',
        ContactsCreate ''1'' 7 ''Ana'' ''5511999999999@s.whatsapp.net'' ''+5511999999999'' [],
        ConversationsCreate ''1'' 101 7 ''wa:5511999999999@s.whatsapp.net'' []]))"
  by (simp add: sticker_event_def example_defs inbound_defs Let_def)

section \<open>The dead-letter record\<close>

text \<open>
  How the retry loop ends. When at least one attempt is made, the last event of the trace
  is the post of the last attempt; the loop returns from inside exactly when the answer
  to that post is no failure, and otherwise keeps the error of that answer. Every earlier
  post of the loop was answered with a failure.
\<close>

lemma retry_loop_success_state:
  assumes "attempt < maxRetries" and "\<not> failure (post (nat attempt) (attempt_request build st))"
  shows "retry_loop post F build maxRetries attempt st =
           (True, (attempt_failed post F build attempt st)\<lparr>lastError := None\<rparr>)"
proof (cases "post (nat attempt) (attempt_request build st)")
  case (TransportError e)
  then show ?thesis using assms by simp
next
  case (Status status_code response_body)
  then show ?thesis
    using assms
    by (subst retry_loop.simps, cases "0 < attempt")
       (simp_all add: attempt_request_def attempt_failed_def Let_def)
qed

lemma retry_loop_last:
  assumes "attempt < maxRetries"
  shows "\<exists>i b. trace (snd (retry_loop post F build maxRetries attempt st)) \<noteq> [] \<and>
           last (trace (snd (retry_loop post F build maxRetries attempt st))) = Post i (fst (build b)) \<and>
           hook_body (snd (retry_loop post F build maxRetries attempt st)) = snd (build b) \<and>
           fst (retry_loop post F build maxRetries attempt st) = (\<not> failure (post i (fst (build b)))) \<and>
           lastError (snd (retry_loop post F build maxRetries attempt st)) =
             (if failure (post i (fst (build b)))
              then Some (response_error (post i (fst (build b)))) else None)"
  using assms
proof (induction "nat (maxRetries - attempt)" arbitrary: attempt st)
  case 0
  then show ?case by simp
next
  case (Suc k)
  then have lt: "attempt < maxRetries" by simp
  from Suc(2) have k: "k = nat (maxRetries - (attempt + 1))" by simp
  let ?st' = "attempt_failed post F build attempt st"
  let ?req = "attempt_request build st"
  have here: "\<exists>i b. trace s \<noteq> [] \<and> last (trace s) = Post i (fst (build b)) \<and>
           hook_body s = snd (build b) \<and> ok = (\<not> failure (post i (fst (build b)))) \<and>
           lastError s = (if failure (post i (fst (build b)))
              then Some (response_error (post i (fst (build b)))) else None)"
    if "ok = (\<not> failure (post (nat attempt) ?req))"
       "s = (if ok then ?st'\<lparr>lastError := None\<rparr> else ?st')" for ok s
  proof -
    have "trace s \<noteq> [] \<and> last (trace s) = Post (nat attempt) (fst (build (hook_body st))) \<and>
           hook_body s = snd (build (hook_body st)) \<and>
           ok = (\<not> failure (post (nat attempt) (fst (build (hook_body st))))) \<and>
           lastError s = (if failure (post (nat attempt) (fst (build (hook_body st))))
              then Some (response_error (post (nat attempt) (fst (build (hook_body st))))) else None)"
      using that by (simp add: attempt_request_def)
    then show ?thesis by blast
  qed
  show ?case
  proof (cases "failure (post (nat attempt) ?req)")
    case False
    have "retry_loop post F build maxRetries attempt st = (True, ?st'\<lparr>lastError := None\<rparr>)"
      using retry_loop_success_state[where post=post and build=build and st=st
              and attempt=attempt and maxRetries=maxRetries and F=F] lt False by simp
    then show ?thesis
      using here[of True "?st'\<lparr>lastError := None\<rparr>"] False by simp
  next
    case True
    note step = retry_loop_failed_step[where post=post and build=build and st=st
              and attempt=attempt and maxRetries=maxRetries and F=F, OF lt True]
    show ?thesis
    proof (cases "(webhookRetryEnabled F \<or> (\<exists>e. post (nat attempt) ?req = TransportError e)) \<and>
                  attempt + 1 < maxRetries")
      case again: True
      then have eq: "retry_loop post F build maxRetries attempt st =
                 retry_loop post F build maxRetries (attempt + 1) ?st'"
        using step by simp
      show ?thesis
        unfolding eq using Suc(1)[OF k, of ?st'] again by simp
    next
      case stop: False
      then have "retry_loop post F build maxRetries attempt st = (False, ?st')"
        using step by (auto simp add: retry_loop_exit)
      then show ?thesis
        using here[of False ?st'] True by simp
    qed
  qed
qed

lemma retry_loop_earlier_failed:
  "Post j req \<in> set (butlast (trace (snd (retry_loop post F build maxRetries attempt st)))) \<Longrightarrow>
   Post j req \<in> set (trace st) \<or> failure (post j req)"
proof (induction "nat (maxRetries - attempt)" arbitrary: attempt st)
  case 0
  then have "\<not> attempt < maxRetries" by simp
  then show ?case using 0(2) by (auto simp add: retry_loop_exit dest: in_set_butlastD)
next
  case (Suc k)
  then have lt: "attempt < maxRetries" by simp
  from Suc(2) have k: "k = nat (maxRetries - (attempt + 1))" by simp
  let ?st' = "attempt_failed post F build attempt st"
  let ?req = "attempt_request build st"
  have once: "Post j req \<in> set (trace st)"
    if "Post j req \<in> set (butlast (trace ?st'))"
    using that by (auto simp add: butlast_append split: if_splits)
  show ?case
  proof (cases "failure (post (nat attempt) ?req)")
    case False
    have "retry_loop post F build maxRetries attempt st = (True, ?st'\<lparr>lastError := None\<rparr>)"
      using retry_loop_success_state[where post=post and build=build and st=st
              and attempt=attempt and maxRetries=maxRetries and F=F] lt False by simp
    then show ?thesis using Suc(3) once by simp
  next
    case True
    note step = retry_loop_failed_step[where post=post and build=build and st=st
              and attempt=attempt and maxRetries=maxRetries and F=F, OF lt True]
    show ?thesis
    proof (cases "webhookRetryEnabled F \<or> (\<exists>e. post (nat attempt) ?req = TransportError e)")
      case again: True
      then have eq: "retry_loop post F build maxRetries attempt st =
                 retry_loop post F build maxRetries (attempt + 1) ?st'"
        using step by simp
      have "Post j req \<in> set (trace ?st') \<or> failure (post j req)"
        using Suc(1)[OF k, of ?st'] Suc(3) unfolding eq by simp
      then show ?thesis using True by (auto split: if_splits)
    next
      case stop: False
      then have "retry_loop post F build maxRetries attempt st = (False, ?st')"
        using step by simp
      then show ?thesis using Suc(3) once by simp
    qed
  qed
qed

lemma in_set_last_or_butlast: "x \<in> set xs \<Longrightarrow> x = last xs \<or> x \<in> set (butlast xs)"
  by (induction xs) auto

lemma retry_loop_verdict:
  assumes "trace st = []" and "lastError st = None"
  shows "trace (snd (retry_loop post F build maxRetries 0 st)) \<noteq> [] \<and>
         (\<forall>i req. Post i req \<in> set (trace (snd (retry_loop post F build maxRetries 0 st)))
                   \<longrightarrow> failure (post i req)) \<Longrightarrow>
         \<not> fst (retry_loop post F build maxRetries 0 st) \<and>
         (\<exists>i b. last (trace (snd (retry_loop post F build maxRetries 0 st))) = Post i (fst (build b)) \<and>
                hook_body (snd (retry_loop post F build maxRetries 0 st)) = snd (build b) \<and>
                lastError (snd (retry_loop post F build maxRetries 0 st)) =
                  Some (response_error (post i (fst (build b)))))"
    and "trace (snd (retry_loop post F build maxRetries 0 st)) = [] \<or>
         (\<exists>i req. Post i req \<in> set (trace (snd (retry_loop post F build maxRetries 0 st))) \<and>
                   \<not> failure (post i req)) \<Longrightarrow>
         fst (retry_loop post F build maxRetries 0 st) \<or>
         lastError (snd (retry_loop post F build maxRetries 0 st)) = None"
proof -
  let ?r = "retry_loop post F build maxRetries 0 st"
  {
    assume ne: "trace (snd ?r) \<noteq> [] \<and>
         (\<forall>i req. Post i req \<in> set (trace (snd ?r)) \<longrightarrow> failure (post i req))"
    have pos: "0 < maxRetries"
    proof (rule ccontr)
      assume "\<not> 0 < maxRetries"
      then have "?r = (False, st)" by (simp add: retry_loop_exit)
      then show False using ne assms(1) by simp
    qed
    from retry_loop_last[OF pos, of post F build st] obtain i b where
      l: "trace (snd ?r) \<noteq> []" "last (trace (snd ?r)) = Post i (fst (build b))"
         "hook_body (snd ?r) = snd (build b)"
         "fst ?r = (\<not> failure (post i (fst (build b))))"
         "lastError (snd ?r) = (if failure (post i (fst (build b)))
              then Some (response_error (post i (fst (build b)))) else None)"
      by blast
    have "Post i (fst (build b)) \<in> set (trace (snd ?r))"
      using l(1,2) last_in_set[of "trace (snd ?r)"] by simp
    then have "failure (post i (fst (build b)))" using ne by blast
    then show "\<not> fst ?r \<and>
         (\<exists>i b. last (trace (snd ?r)) = Post i (fst (build b)) \<and>
                hook_body (snd ?r) = snd (build b) \<and>
                lastError (snd ?r) = Some (response_error (post i (fst (build b)))))"
      using l by auto
  }
  {
    assume alt: "trace (snd ?r) = [] \<or>
         (\<exists>i req. Post i req \<in> set (trace (snd ?r)) \<and> \<not> failure (post i req))"
    show "fst ?r \<or> lastError (snd ?r) = None"
    proof (cases "0 < maxRetries")
      case False
      then have "?r = (False, st)" by (simp add: retry_loop_exit)
      then show ?thesis using assms(2) by simp
    next
      case True
      from retry_loop_last[OF True, of post F build st] obtain i b where
        l: "trace (snd ?r) \<noteq> []" "last (trace (snd ?r)) = Post i (fst (build b))"
           "fst ?r = (\<not> failure (post i (fst (build b))))"
        by blast
      from alt l(1) obtain j req where
        g: "Post j req \<in> set (trace (snd ?r))" "\<not> failure (post j req)"
        by blast
      have "Post j req \<notin> set (butlast (trace (snd ?r)))"
        using retry_loop_earlier_failed[of j req post F build maxRetries 0 st] g(2) assms(1)
        by auto
      then have "Post j req = last (trace (snd ?r))"
        using g(1) in_set_last_or_butlast[of "Post j req" "trace (snd ?r)"] by blast
      then show ?thesis using l(2,3) g(2) by simp
    qed
  }
qed

lemma callHookFileWithHmac_trace:
  "fst (snd (callHookFileWithHmac E F now myurl payload userID file key rb)) =
   trace (snd (retry_loop (target E) F
                 (\<lambda>b. (build_file_request E myurl (payload(''file'' \<mapsto> file)) file key, b))
                 (maxRetries_of F) 0
                 \<lparr>lastError = None, hook_body = StringMap (payload(''file'' \<mapsto> file)), trace = []\<rparr>))"
  by (simp add: callHookFileWithHmac_def Let_def case_prod_beta split: bool.splits option.splits)

lemma callHookWithHmac_failed:
  assumes "fst (callHookWithHmac E F now myurl payload userID key rb) \<noteq> []"
      and "\<forall>i req. Post i req \<in> set (fst (callHookWithHmac E F now myurl payload userID key rb))
             \<longrightarrow> failure (target E i req)"
  shows "\<exists>i req. last (fst (callHookWithHmac E F now myurl payload userID key rb)) = Post i req \<and>
           snd (callHookWithHmac E F now myurl payload userID key rb) =
             PublishDataErrorToQueue (webhookErrorQueueName F)
               \<lparr>err_URL = myurl,
                err_Payload = errorPayloadMap (req_body req),
                err_UserID = userID,
                err_EncryptedHmacKey = EncodeToString key,
                err_AttemptTime = now,
                err_ErrorMessage = error_text (response_error (target E i req))\<rparr> rb"
proof -
  let ?build = "build_request E myurl payload userID key"
  let ?st = "\<lparr>lastError = None, hook_body = StringMap payload, trace = []\<rparr>"
  let ?r = "retry_loop (target E) F ?build (maxRetries_of F) 0 ?st"
  have hyp: "trace (snd ?r) \<noteq> [] \<and>
         (\<forall>i req. Post i req \<in> set (trace (snd ?r)) \<longrightarrow> failure (target E i req))"
    using assms by (simp add: callHookWithHmac_trace)
  from retry_loop_verdict(1)[of ?st "target E" F ?build "maxRetries_of F", OF _ _ hyp]
  obtain i b where
    v: "\<not> fst ?r" "last (trace (snd ?r)) = Post i (fst (?build b))"
       "hook_body (snd ?r) = snd (?build b)"
       "lastError (snd ?r) = Some (response_error (target E i (fst (?build b))))"
    by auto
  obtain ok st' where p: "?r = (ok, st')" by (cases ?r)
  have "last (fst (callHookWithHmac E F now myurl payload userID key rb)) = Post i (fst (?build b)) \<and>
           snd (callHookWithHmac E F now myurl payload userID key rb) =
             PublishDataErrorToQueue (webhookErrorQueueName F)
               \<lparr>err_URL = myurl,
                err_Payload = errorPayloadMap (req_body (fst (?build b))),
                err_UserID = userID,
                err_EncryptedHmacKey = EncodeToString key,
                err_AttemptTime = now,
                err_ErrorMessage = error_text (response_error (target E i (fst (?build b))))\<rparr> rb"
    using v p by (simp add: callHookWithHmac_def build_request_body)
  then show ?thesis by blast
qed

lemma callHookWithHmac_delivered:
  assumes "fst (callHookWithHmac E F now myurl payload userID key rb) = [] \<or>
           (\<exists>i req. Post i req \<in> set (fst (callHookWithHmac E F now myurl payload userID key rb)) \<and>
                     \<not> failure (target E i req))"
  shows "snd (callHookWithHmac E F now myurl payload userID key rb) = rb"
proof -
  let ?build = "build_request E myurl payload userID key"
  let ?st = "\<lparr>lastError = None, hook_body = StringMap payload, trace = []\<rparr>"
  let ?r = "retry_loop (target E) F ?build (maxRetries_of F) 0 ?st"
  have hyp: "trace (snd ?r) = [] \<or>
         (\<exists>i req. Post i req \<in> set (trace (snd ?r)) \<and> \<not> failure (target E i req))"
    using assms by (simp add: callHookWithHmac_trace)
  from retry_loop_verdict(2)[of ?st "target E" F ?build "maxRetries_of F", OF _ _ hyp]
  have v: "fst ?r \<or> lastError (snd ?r) = None" by simp
  obtain ok st' where p: "?r = (ok, st')" by (cases ?r)
  show ?thesis
    using v p by (cases ok) (simp_all add: callHookWithHmac_def)
qed

lemma callHookFileWithHmac_failed:
  assumes "fst (snd (callHookFileWithHmac E F now myurl payload userID file key rb)) \<noteq> []"
      and "\<forall>i req. Post i req \<in> set (fst (snd (callHookFileWithHmac E F now myurl payload userID file key rb)))
             \<longrightarrow> failure (target E i req)"
  shows "\<exists>i req. last (fst (snd (callHookFileWithHmac E F now myurl payload userID file key rb))) =
                   Post i req \<and>
           req_body req = StringMap (payload(''file'' \<mapsto> file)) \<and>
           req_file req = Some file \<and>
           snd (snd (callHookFileWithHmac E F now myurl payload userID file key rb)) =
             PublishFileErrorToQueue (webhookErrorQueueName F)
               \<lparr>ferr_URL = myurl,
                ferr_Payload = errorPayloadMap (req_body req),
                ferr_UserID = userID,
                ferr_EncryptedHmacKey = EncodeToString key,
                ferr_FilePath = file,
                ferr_AttemptTime = now,
                ferr_ErrorMessage = error_text (response_error (target E i req))\<rparr> rb \<and>
           fst (callHookFileWithHmac E F now myurl payload userID file key rb) =
             Some (wrap ''webhook failed permanently'' (response_error (target E i req)))"
proof -
  let ?req = "build_file_request E myurl (payload(''file'' \<mapsto> file)) file key"
  let ?build = "\<lambda>b :: body_value. (?req, b)"
  let ?st = "\<lparr>lastError = None, hook_body = StringMap (payload(''file'' \<mapsto> file)), trace = []\<rparr>"
  let ?r = "retry_loop (target E) F ?build (maxRetries_of F) 0 ?st"
  have hyp: "trace (snd ?r) \<noteq> [] \<and>
         (\<forall>i req. Post i req \<in> set (trace (snd ?r)) \<longrightarrow> failure (target E i req))"
    using assms by (simp add: callHookFileWithHmac_trace)
  from retry_loop_verdict(1)[of ?st "target E" F ?build "maxRetries_of F", OF _ _ hyp]
  obtain i where
    v: "\<not> fst ?r" "last (trace (snd ?r)) = Post i ?req"
       "lastError (snd ?r) = Some (response_error (target E i ?req))"
    by auto
  obtain ok st' where p: "?r = (ok, st')" by (cases ?r)
  have body: "req_body ?req = StringMap (payload(''file'' \<mapsto> file))" "req_file ?req = Some file"
    by (simp_all add: build_file_request_def Let_def)
  have "last (fst (snd (callHookFileWithHmac E F now myurl payload userID file key rb))) =
                   Post i ?req \<and>
           req_body ?req = StringMap (payload(''file'' \<mapsto> file)) \<and>
           req_file ?req = Some file \<and>
           snd (snd (callHookFileWithHmac E F now myurl payload userID file key rb)) =
             PublishFileErrorToQueue (webhookErrorQueueName F)
               \<lparr>ferr_URL = myurl,
                ferr_Payload = errorPayloadMap (req_body ?req),
                ferr_UserID = userID,
                ferr_EncryptedHmacKey = EncodeToString key,
                ferr_FilePath = file,
                ferr_AttemptTime = now,
                ferr_ErrorMessage = error_text (response_error (target E i ?req))\<rparr> rb \<and>
           fst (callHookFileWithHmac E F now myurl payload userID file key rb) =
             Some (wrap ''webhook failed permanently'' (response_error (target E i ?req)))"
    using v p unfolding body
    by (simp add: callHookFileWithHmac_def Let_def errorPayloadMap_def)
  then show ?thesis by blast
qed

lemma callHookFileWithHmac_delivered:
  assumes "fst (snd (callHookFileWithHmac E F now myurl payload userID file key rb)) = [] \<or>
           (\<exists>i req. Post i req \<in> set (fst (snd (callHookFileWithHmac E F now myurl payload userID file key rb))) \<and>
                     \<not> failure (target E i req))"
  shows "fst (callHookFileWithHmac E F now myurl payload userID file key rb) = None \<and>
         snd (snd (callHookFileWithHmac E F now myurl payload userID file key rb)) = rb"
proof -
  let ?req = "build_file_request E myurl (payload(''file'' \<mapsto> file)) file key"
  let ?build = "\<lambda>b :: body_value. (?req, b)"
  let ?st = "\<lparr>lastError = None, hook_body = StringMap (payload(''file'' \<mapsto> file)), trace = []\<rparr>"
  let ?r = "retry_loop (target E) F ?build (maxRetries_of F) 0 ?st"
  have hyp: "trace (snd ?r) = [] \<or>
         (\<exists>i req. Post i req \<in> set (trace (snd ?r)) \<and> \<not> failure (target E i req))"
    using assms by (simp add: callHookFileWithHmac_trace)
  from retry_loop_verdict(2)[of ?st "target E" F ?build "maxRetries_of F", OF _ _ hyp]
  have v: "fst ?r \<or> lastError (snd ?r) = None" by simp
  obtain ok st' where p: "?r = (ok, st')" by (cases ?r)
  show ?thesis
    using v p by (cases ok) (simp_all add: callHookFileWithHmac_def Let_def)
qed

text \<open>
  Claim C5, as amended. When at least one attempt was made and every attempt failed,
  \<^verbatim>\<open>callHookWithHmac\<close> hands to \<^verbatim>\<open>PublishDataErrorToQueue\<close> the record of the URL, the
  body of the last request, the user id, the hex-encoded signing key, the time and the
  message of the last attempt's error, and returns nothing; \<^verbatim>\<open>callHookFileWithHmac\<close> hands
  to \<^verbatim>\<open>PublishFileErrorToQueue\<close> the same record with the payload that carries the file
  entry and with the file path, and then returns to its caller the last error wrapped as
  \<^verbatim>\<open>webhook failed permanently\<close>. When no attempt was made or an attempt was answered
  without failure, nothing is handed to the publisher, and \<^verbatim>\<open>callHookFileWithHmac\<close>
  returns nil. The publishers return nothing: with the queue disabled, a record that
  cannot be marshalled, or a broker that refuses the declaration or the publish, they
  leave the queue as it was.
\<close>

theorem dead_letter_after_last_failure:
  "(fst (callHookWithHmac E F now myurl payload userID key rb) \<noteq> [] \<and>
    (\<forall>i req. Post i req \<in> set (fst (callHookWithHmac E F now myurl payload userID key rb))
               \<longrightarrow> failure (target E i req)) \<longrightarrow>
      (\<exists>i req. last (fst (callHookWithHmac E F now myurl payload userID key rb)) = Post i req \<and>
           snd (callHookWithHmac E F now myurl payload userID key rb) =
             PublishDataErrorToQueue (webhookErrorQueueName F)
               \<lparr>err_URL = myurl,
                err_Payload = errorPayloadMap (req_body req),
                err_UserID = userID,
                err_EncryptedHmacKey = EncodeToString key,
                err_AttemptTime = now,
                err_ErrorMessage = error_text (response_error (target E i req))\<rparr> rb)) \<and>
   (fst (callHookWithHmac E F now myurl payload userID key rb) = [] \<or>
    (\<exists>i req. Post i req \<in> set (fst (callHookWithHmac E F now myurl payload userID key rb)) \<and>
              \<not> failure (target E i req)) \<longrightarrow>
      snd (callHookWithHmac E F now myurl payload userID key rb) = rb) \<and>
   (fst (snd (callHookFileWithHmac E F now myurl payload userID file key rb)) \<noteq> [] \<and>
    (\<forall>i req. Post i req \<in> set (fst (snd (callHookFileWithHmac E F now myurl payload userID file key rb)))
               \<longrightarrow> failure (target E i req)) \<longrightarrow>
      (\<exists>i req. last (fst (snd (callHookFileWithHmac E F now myurl payload userID file key rb))) =
                   Post i req \<and>
           req_body req = StringMap (payload(''file'' \<mapsto> file)) \<and>
           req_file req = Some file \<and>
           snd (snd (callHookFileWithHmac E F now myurl payload userID file key rb)) =
             PublishFileErrorToQueue (webhookErrorQueueName F)
               \<lparr>ferr_URL = myurl,
                ferr_Payload = errorPayloadMap (req_body req),
                ferr_UserID = userID,
                ferr_EncryptedHmacKey = EncodeToString key,
                ferr_FilePath = file,
                ferr_AttemptTime = now,
                ferr_ErrorMessage = error_text (response_error (target E i req))\<rparr> rb \<and>
           fst (callHookFileWithHmac E F now myurl payload userID file key rb) =
             Some (wrap ''webhook failed permanently'' (response_error (target E i req))))) \<and>
   (fst (snd (callHookFileWithHmac E F now myurl payload userID file key rb)) = [] \<or>
    (\<exists>i req. Post i req \<in> set (fst (snd (callHookFileWithHmac E F now myurl payload userID file key rb))) \<and>
              \<not> failure (target E i req)) \<longrightarrow>
      fst (callHookFileWithHmac E F now myurl payload userID file key rb) = None \<and>
      snd (snd (callHookFileWithHmac E F now myurl payload userID file key rb)) = rb) \<and>
   (\<not> rabbitEnabled rb' \<or> declare_failure rb' \<noteq> None \<or> publish_failure rb' \<noteq> None \<or>
    marshal rb' (DataError p) = None \<longrightarrow> PublishDataErrorToQueue q p rb' = rb') \<and>
   (\<not> rabbitEnabled rb' \<or> declare_failure rb' \<noteq> None \<or> publish_failure rb' \<noteq> None \<or>
    marshal rb' (FileError fp) = None \<longrightarrow> PublishFileErrorToQueue q fp rb' = rb')"
  using callHookWithHmac_failed[of E F now myurl payload userID key rb]
    callHookWithHmac_delivered[of E F now myurl payload userID key rb]
    callHookFileWithHmac_failed[of E F now myurl payload userID "file" key rb]
    callHookFileWithHmac_delivered[of E F now myurl payload userID "file" key rb]
    publisher_best_effort(1)[of rb' p q] publisher_best_effort(2)[of rb' fp q]
  by blast

text \<open>
  The theorem at a target that always answers 500, with three attempts, at a target that
  answers 200, and at a broker that refuses to publish.
\<close>

theorem dead_letter_after_last_failure_witness:
  "(\<exists>i req. last (fst (callHookWithHmac (form_env (always_status 500 ''boom'')) three_attempts
                        1700000000 ''https://hook.example'' message_payload ''u1'' ''k''
                        idle_rabbit)) = Post i req \<and>
          snd (callHookWithHmac (form_env (always_status 500 ''boom'')) three_attempts
                 1700000000 ''https://hook.example'' message_payload ''u1'' ''k'' idle_rabbit) =
            PublishDataErrorToQueue ''webhook_errors''
              \<lparr>err_URL = ''https://hook.example'',
               err_Payload = errorPayloadMap (req_body req),
               err_UserID = ''u1'',
               err_EncryptedHmacKey = ''6b'',
               err_AttemptTime = 1700000000,
               err_ErrorMessage = ''unexpected status code: 500. Body: boom''\<rparr> idle_rabbit) \<and>
   snd (snd (callHookFileWithHmac (form_env (always_status 500 ''boom'')) three_attempts
               1700000000 ''https://hook.example'' message_payload ''u1'' ''/tmp/a.jpg''
               ''k'' idle_rabbit)) =
     PublishFileErrorToQueue ''webhook_errors''
       \<lparr>ferr_URL = ''https://hook.example'',
        ferr_Payload =
          errorPayloadMap (StringMap (message_payload(''file'' \<mapsto> ''/tmp/a.jpg''))),
        ferr_UserID = ''u1'',
        ferr_EncryptedHmacKey = ''6b'',
        ferr_FilePath = ''/tmp/a.jpg'',
        ferr_AttemptTime = 1700000000,
        ferr_ErrorMessage = ''unexpected status code: 500. Body: boom''\<rparr> idle_rabbit \<and>
   snd (callHookWithHmac (form_env (always_status 200 ''ok'')) three_attempts
          1700000000 ''https://hook.example'' message_payload ''u1'' ''k'' idle_rabbit) =
     idle_rabbit \<and>
   fst (callHookFileWithHmac (form_env (always_status 200 ''ok'')) three_attempts
          1700000000 ''https://hook.example'' message_payload ''u1'' ''/tmp/a.jpg''
          ''k'' idle_rabbit) = None \<and>
   snd (snd (callHookFileWithHmac (form_env (always_status 200 ''ok'')) three_attempts
               1700000000 ''https://hook.example'' message_payload ''u1'' ''/tmp/a.jpg''
               ''k'' idle_rabbit)) = idle_rabbit \<and>
   PublishDataErrorToQueue ''webhook_errors''
     \<lparr>err_URL = ''https://hook.example'', err_Payload = Map.empty, err_UserID = ''u1'',
      err_EncryptedHmacKey = ''6b'', err_AttemptTime = 1700000000,
      err_ErrorMessage = ''boom''\<rparr>
     (idle_rabbit\<lparr>publish_failure := Some ''channel closed''\<rparr>) =
   idle_rabbit\<lparr>publish_failure := Some ''channel closed''\<rparr>"
proof -
  let ?bad = "form_env (always_status 500 ''boom'')"
  let ?good = "form_env (always_status 200 ''ok'')"
  let ?url = "''https://hook.example''"
  let ?tb = "fst (callHookWithHmac ?bad three_attempts 1700000000 ?url message_payload ''u1'' ''k''
                    idle_rabbit)"
  let ?fb = "fst (snd (callHookFileWithHmac ?bad three_attempts 1700000000 ?url message_payload
                    ''u1'' ''/tmp/a.jpg'' ''k'' idle_rabbit))"
  let ?tg = "fst (callHookWithHmac ?good three_attempts 1700000000 ?url message_payload ''u1'' ''k''
                    idle_rabbit)"
  let ?fg = "fst (snd (callHookFileWithHmac ?good three_attempts 1700000000 ?url message_payload
                    ''u1'' ''/tmp/a.jpg'' ''k'' idle_rabbit))"
  have f: "\<forall>i req. failure (target ?bad i req)"
    by (simp add: form_env_def always_status_def)
  have g: "\<And>i req. \<not> failure (target ?good i req)"
    by (simp add: form_env_def always_status_def)
  have m: "maxRetries_of three_attempts = 3" "webhookErrorQueueName three_attempts = ''webhook_errors''"
    "webhookRetryEnabled three_attempts"
    by (simp_all add: maxRetries_of_def three_attempts_def)
  have t: "\<And>i req. error_text (response_error (target ?bad i req)) =
             ''unexpected status code: 500. Body: boom''"
    by (simp add: form_env_def always_status_def status_error_def Itoa_def)
  have k: "EncodeToString ''k'' = ''6b''"
    by (simp add: EncodeToString_def hexdigit_def)
  have q: "publish_failure (idle_rabbit\<lparr>publish_failure := Some ''channel closed''\<rparr>) \<noteq> None"
    by simp
  have tb: "?tb \<noteq> []"
    using retry_loop_three_failures[where post="target ?bad" and F=three_attempts
        and build="build_request ?bad ?url message_payload ''u1'' ''k''"
        and st="\<lparr>lastError = None, hook_body = StringMap message_payload, trace = []\<rparr>"] f m(3)
    by (auto simp add: callHookWithHmac_trace m(1))
  have fb: "?fb \<noteq> []"
    using retry_loop_three_failures[where post="target ?bad" and F=three_attempts
        and build="\<lambda>b. (build_file_request ?bad ?url (message_payload(''file'' \<mapsto> ''/tmp/a.jpg''))
                           ''/tmp/a.jpg'' ''k'', b)"
        and st="\<lparr>lastError = None,
                 hook_body = StringMap (message_payload(''file'' \<mapsto> ''/tmp/a.jpg'')),
                 trace = []\<rparr>"] f m(3)
    by (auto simp add: callHookFileWithHmac_trace m(1))
  have tg1: "\<exists>req. ?tg = [Post 0 req]"
    using retry_loop_success_state[where post="target ?good" and F=three_attempts
        and build="build_request ?good ?url message_payload ''u1'' ''k''"
        and st="\<lparr>lastError = None, hook_body = StringMap message_payload, trace = []\<rparr>"
        and attempt=0 and maxRetries=3] g
    by (simp add: callHookWithHmac_trace m(1))
  have fg1: "\<exists>req. ?fg = [Post 0 req]"
    using retry_loop_success_state[where post="target ?good" and F=three_attempts
        and build="\<lambda>b. (build_file_request ?good ?url (message_payload(''file'' \<mapsto> ''/tmp/a.jpg''))
                           ''/tmp/a.jpg'' ''k'', b)"
        and st="\<lparr>lastError = None,
                 hook_body = StringMap (message_payload(''file'' \<mapsto> ''/tmp/a.jpg'')),
                 trace = []\<rparr>"
        and attempt=0 and maxRetries=3] g
    by (simp add: callHookFileWithHmac_trace m(1))
  have tg: "?tg = [] \<or> (\<exists>i req. Post i req \<in> set ?tg \<and> \<not> failure (target ?good i req))"
    using tg1 g by auto
  have fg: "?fg = [] \<or> (\<exists>i req. Post i req \<in> set ?fg \<and> \<not> failure (target ?good i req))"
    using fg1 g by auto
  note bad = dead_letter_after_last_failure[where fp="\<lparr>ferr_URL = [], ferr_Payload = Map.empty,
      ferr_UserID = [], ferr_EncryptedHmacKey = [], ferr_FilePath = [], ferr_AttemptTime = 0,
      ferr_ErrorMessage = []\<rparr>", of ?bad three_attempts 1700000000 ?url message_payload "''u1''"
      "''k''" idle_rabbit "''/tmp/a.jpg''"
      "idle_rabbit\<lparr>publish_failure := Some ''channel closed''\<rparr>"
      "\<lparr>err_URL = ''https://hook.example'', err_Payload = Map.empty, err_UserID = ''u1'',
      err_EncryptedHmacKey = ''6b'', err_AttemptTime = 1700000000,
      err_ErrorMessage = ''boom''\<rparr>" "''webhook_errors''"]
  note good = dead_letter_after_last_failure[of ?good three_attempts 1700000000 ?url
      message_payload "''u1''" "''k''" idle_rabbit "''/tmp/a.jpg''"]
  have one: "\<exists>i req. last ?tb = Post i req \<and>
          snd (callHookWithHmac ?bad three_attempts 1700000000 ?url message_payload ''u1'' ''k''
                 idle_rabbit) =
            PublishDataErrorToQueue ''webhook_errors''
              \<lparr>err_URL = ''https://hook.example'',
               err_Payload = errorPayloadMap (req_body req),
               err_UserID = ''u1'',
               err_EncryptedHmacKey = ''6b'',
               err_AttemptTime = 1700000000,
               err_ErrorMessage = ''unexpected status code: 500. Body: boom''\<rparr> idle_rabbit"
    using bad tb f unfolding m t k by blast
  have two: "snd (snd (callHookFileWithHmac ?bad three_attempts 1700000000 ?url message_payload
                    ''u1'' ''/tmp/a.jpg'' ''k'' idle_rabbit)) =
     PublishFileErrorToQueue ''webhook_errors''
       \<lparr>ferr_URL = ''https://hook.example'',
        ferr_Payload =
          errorPayloadMap (StringMap (message_payload(''file'' \<mapsto> ''/tmp/a.jpg''))),
        ferr_UserID = ''u1'',
        ferr_EncryptedHmacKey = ''6b'',
        ferr_FilePath = ''/tmp/a.jpg'',
        ferr_AttemptTime = 1700000000,
        ferr_ErrorMessage = ''unexpected status code: 500. Body: boom''\<rparr> idle_rabbit"
    using bad fb f unfolding m t k by auto
  have three: "snd (callHookWithHmac ?good three_attempts 1700000000 ?url message_payload ''u1''
                 ''k'' idle_rabbit) = idle_rabbit"
    using good tg by blast
  have four: "fst (callHookFileWithHmac ?good three_attempts 1700000000 ?url message_payload
                    ''u1'' ''/tmp/a.jpg'' ''k'' idle_rabbit) = None \<and>
    snd (snd (callHookFileWithHmac ?good three_attempts 1700000000 ?url message_payload
                    ''u1'' ''/tmp/a.jpg'' ''k'' idle_rabbit)) = idle_rabbit"
    using good fg by blast
  have five: "PublishDataErrorToQueue ''webhook_errors''
     \<lparr>err_URL = ''https://hook.example'', err_Payload = Map.empty, err_UserID = ''u1'',
      err_EncryptedHmacKey = ''6b'', err_AttemptTime = 1700000000,
      err_ErrorMessage = ''boom''\<rparr>
     (idle_rabbit\<lparr>publish_failure := Some ''channel closed''\<rparr>) =
   idle_rabbit\<lparr>publish_failure := Some ''channel closed''\<rparr>"
    using bad q by blast
  from one two three four five show ?thesis by blast
qed

text \<open>
  Claim C5 as stated fails for the file variant: against a target that always answers
  500, \<^verbatim>\<open>callHookFileWithHmac\<close> returns an error to its caller.
\<close>

theorem file_delivery_returns_error:
  "fst (callHookFileWithHmac (form_env (always_status 500 ''boom'')) three_attempts 1700000000
          ''https://hook.example'' message_payload ''u1'' ''/tmp/a.jpg'' [] idle_rabbit) =
     Some (Errorf ''webhook failed permanently: unexpected status code: 500. Body: boom'')"
  by (simp add: callHookFileWithHmac_def retry_loop.simps maxRetries_of_def three_attempts_def
        form_env_def always_status_def status_error_def Itoa_def Let_def)

end
